(* ===== verification/Prelude.thy ===== *)
theory Prelude
  imports Complex_Main "HOL-Library.AList" "HOL-Library.List_Lexorder" "HOL-Library.Char_ord"
    "HOL-Library.Product_Lexorder" "HOL-Library.Sublist" "HOL-Library.Multiset"
begin

text \<open>
  Shared vocabulary of the development.  Paths are lists of path components
  (\<open>os.path.join(a, b, c)\<close> is \<open>[a, b, c]\<close> appended to the base path), the
  exceptions the sources raise or let escape are one datatype \<open>py_error\<close>, and a
  statement that reads and writes the file system is a function from the
  file-system state to a result (\<open>Inl\<close> an exception, \<open>Inr\<close> a value) and the
  state after it, composed with \<open>io_bind\<close>.  An exception keeps the effects done
  before it, as Python does.
\<close>

named_theorems io_simps "unfolding rules of the exception-and-state combinators"
named_theorems eval_simps "unfolding rules that evaluate the model on concrete inputs"

type_synonym path = "string list"

text \<open>Reasons of the \<open>ValueError\<close>s raised by the sources, one per raise site.\<close>

datatype value_error =
    SymbolRequired  \<comment> \<open>util.py:108, util.py:200\<close>
  | InvalidTimeframe string  \<comment> \<open>util.py:267\<close>
  | SymbolsRequired  \<comment> \<open>util.py:270\<close>

text \<open>Reasons of the \<open>FileNotFoundError\<close>s raised by the sources, one per raise site.\<close>

datatype not_found =
    DirectoryNotFound path  \<comment> \<open>util.py:118, 207, 279, 417\<close>
  | NoFilesMatching path  \<comment> \<open>util.py:56, 126; the pattern as a path\<close>
  | NoValidFiles path  \<comment> \<open>util.py:84\<close>
  | NoFilesForYears path  \<comment> \<open>util.py:139\<close>
  | NoDataForSymbols  \<comment> \<open>util.py:376\<close>

datatype py_error =
    ValueError value_error
  | FileNotFoundError not_found
  | RuntimeError string py_error  \<comment> \<open>\<open>raise RuntimeError(f"<context>: {e}")\<close>\<close>
  | ReadError path  \<comment> \<open>\<open>pd.read_parquet\<close> fails (missing, corrupt, a directory)\<close>
  | WriteError path  \<comment> \<open>\<open>DataFrame.to_parquet\<close> fails\<close>
  | OSError path  \<comment> \<open>\<open>os.listdir\<close>, \<open>os.makedirs\<close> fail\<close>
  | OverflowError  \<comment> \<open>\<open>datetime.fromtimestamp\<close> outside \<open>time_t\<close>\<close>
  | NameError string  \<comment> \<open>a name that is not defined (util.py:224)\<close>

type_synonym ('a, 's) io = "'s \<Rightarrow> (py_error + 'a) \<times> 's"

definition io_return :: "'a \<Rightarrow> ('a, 's) io" where
  "io_return a s = (Inr a, s)"

definition io_raise :: "py_error \<Rightarrow> ('a, 's) io" where
  "io_raise e s = (Inl e, s)"

definition io_bind :: "('a, 's) io \<Rightarrow> ('a \<Rightarrow> ('b, 's) io) \<Rightarrow> ('b, 's) io" where
  "io_bind m f s = (case m s of (Inl e, s') \<Rightarrow> (Inl e, s') | (Inr a, s') \<Rightarrow> f a s')"

text \<open>\<open>try: ... except Exception as e: raise RuntimeError(f"{ctx}: {e}")\<close>.\<close>

definition io_wrap :: "string \<Rightarrow> ('a, 's) io \<Rightarrow> ('a, 's) io" where
  "io_wrap ctx m s = (case m s of (Inl e, s') \<Rightarrow> (Inl (RuntimeError ctx e), s') | r \<Rightarrow> r)"

lemma io_return_apply [simp, io_simps]: "io_return a s = (Inr a, s)"
  by (simp add: io_return_def)

lemma io_raise_apply [simp, io_simps]: "io_raise e s = (Inl e, s)"
  by (simp add: io_raise_def)

lemma io_bind_Inr [io_simps]: "m s = (Inr a, s') \<Longrightarrow> io_bind m f s = f a s'"
  by (simp add: io_bind_def)

lemma io_bind_Inl [io_simps]: "m s = (Inl e, s') \<Longrightarrow> io_bind m f s = (Inl e, s')"
  by (simp add: io_bind_def)

lemma io_bind_return [simp, io_simps]: "io_bind (io_return a) f = f a"
  by (simp add: io_bind_def fun_eq_iff)

lemma io_bind_raise [simp, io_simps]: "io_bind (io_raise e) f = io_raise e"
  by (simp add: io_bind_def fun_eq_iff)

lemma io_wrap_Inr [io_simps]: "m s = (Inr a, s') \<Longrightarrow> io_wrap ctx m s = (Inr a, s')"
  by (simp add: io_wrap_def)

lemma io_wrap_Inl [io_simps]: "m s = (Inl e, s') \<Longrightarrow> io_wrap ctx m s = (Inl (RuntimeError ctx e), s')"
  by (simp add: io_wrap_def)

text \<open>
  The value of a composite is determined by the values of its parts: the
  congruence used by the refinement and idempotence proofs.
\<close>

lemma io_bind_fst_Inr:
  "fst (io_bind m f s) = Inr b \<Longrightarrow> \<exists>a. fst (m s) = Inr a \<and> fst (f a (snd (m s))) = Inr b"
  by (auto simp: io_bind_def split: prod.splits sum.splits)

lemma io_wrap_fst_Inr: "fst (io_wrap ctx m s) = Inr b \<Longrightarrow> fst (m s) = Inr b"
  by (auto simp: io_wrap_def split: prod.splits sum.splits)

declare io_bind_def [eval_simps] io_wrap_def [eval_simps] Let_def [eval_simps]

subsection \<open>Computations that only read the state\<close>

definition io_pure :: "('a, 's) io \<Rightarrow> bool" where
  "io_pure m \<longleftrightarrow> (\<forall>s. snd (m s) = s)"

lemma io_pure_return [simp, intro!]: "io_pure (io_return a)"
  by (simp add: io_pure_def)

lemma io_pure_raise [simp, intro!]: "io_pure (io_raise e)"
  by (simp add: io_pure_def)

lemma io_pure_apply: "io_pure m \<Longrightarrow> m s = (fst (m s), s)"
  by (metis io_pure_def prod.collapse)

lemma io_pure_bind [intro!]:
  assumes "io_pure m" and "\<And>a. io_pure (f a)"
  shows "io_pure (io_bind m f)"
  unfolding io_pure_def
proof
  fix s
  from assms(1) have "m s = (fst (m s), s)" by (rule io_pure_apply)
  with assms(2) show "snd (io_bind m f s) = s"
    by (cases "fst (m s)") (auto simp: io_bind_def io_pure_def)
qed

lemma io_pure_wrap [intro!]:
  assumes "io_pure m"
  shows "io_pure (io_wrap ctx m)"
  unfolding io_pure_def
proof
  fix s
  from assms have "m s = (fst (m s), s)" by (rule io_pure_apply)
  then show "snd (io_wrap ctx m s) = s"
    by (cases "fst (m s)") (simp_all add: io_wrap_def)
qed

lemma io_bind_pure_fst:
  "io_pure m \<Longrightarrow> fst (io_bind m f s) = (case fst (m s) of Inl e \<Rightarrow> Inl e | Inr a \<Rightarrow> fst (f a s))"
  by (subst io_bind_def, subst io_pure_apply) (auto split: sum.splits)

lemma io_bind_pure_snd:
  "io_pure m \<Longrightarrow> snd (io_bind m f s) = (case fst (m s) of Inl e \<Rightarrow> s | Inr a \<Rightarrow> snd (f a s))"
  by (subst io_bind_def, subst io_pure_apply) (auto split: sum.splits)

subsection \<open>Association lists\<close>

lemma map_of_filter_distinct:
  "distinct (map fst fs) \<Longrightarrow>
   map_of (filter P fs) q = (case map_of fs q of None \<Rightarrow> None | Some v \<Rightarrow> if P (q, v) then Some v else None)"
  by (induction fs) (auto split: option.splits intro: rev_image_eqI)

subsection \<open>Separators in strings\<close>

text \<open>A string built as \<open>u @ c # v\<close> with no \<open>c\<close> in \<open>u\<close> is split at its first
  \<open>c\<close>; with no \<open>c\<close> in \<open>v\<close>, at its last.\<close>

lemma split_first_sep:
  "c \<notin> set u \<Longrightarrow> c \<notin> set u' \<Longrightarrow> u @ c # v = u' @ c # v' \<Longrightarrow> u = u' \<and> v = v'"
proof (induction u arbitrary: u')
  case Nil
  then show ?case by (cases u') auto
next
  case (Cons x u)
  then show ?case by (cases u') auto
qed

lemma split_last_sep:
  assumes "c \<notin> set v" and "c \<notin> set v'" and "u @ c # v = u' @ c # v'"
  shows "u = u' \<and> v = v'"
proof -
  from assms(3) have "rev v @ c # rev u = rev v' @ c # rev u'"
    by (metis rev_append rev.simps(2) append_assoc append_Cons append_Nil)
  with assms(1,2) have "rev v = rev v' \<and> rev u = rev u'"
    by (intro split_first_sep) simp_all
  then show ?thesis by simp
qed

lemma io_bind_cong_fst:
  assumes "fst (m s) = fst (m' s')"
    and "\<And>a. fst (m s) = Inr a \<Longrightarrow> fst (f a (snd (m s))) = fst (f' a (snd (m' s')))"
  shows "fst (io_bind m f s) = fst (io_bind m' f' s')"
  using assms by (auto simp: io_bind_def split: prod.splits sum.splits)

end
