(* ===== verification/Py_Strings.thy ===== *)
theory Py_Strings
  imports Prelude
begin

text \<open>
  The Python string operations the loader uses to build and read file names
  (src/util.py): \<open>str.split\<close>, \<open>str.rsplit\<close>, \<open>str.replace\<close>, \<open>'_'.join\<close>,
  the substring test \<open>x in s\<close>, \<open>str(n)\<close> and \<open>int(s)\<close> on integers, and the
  shell-style matching of \<open>glob\<close>/\<open>fnmatch\<close>.  Strings are \<open>char\<close> lists; the
  names the code handles are ASCII, where a \<open>char\<close> is a code point.
\<close>

subsection \<open>split and join\<close>

text \<open>\<open>s.split(c)\<close> for a one-character separator: every occurrence splits,
  empty fields are kept, \<open>''.split(c) == ['']\<close>.\<close>

fun split_acc :: "char \<Rightarrow> string \<Rightarrow> string \<Rightarrow> string list" where
  "split_acc c acc [] = [rev acc]"
| "split_acc c acc (x # xs) =
     (if x = c then rev acc # split_acc c [] xs else split_acc c (x # acc) xs)"

definition py_split :: "char \<Rightarrow> string \<Rightarrow> string list" where
  "py_split c s = split_acc c [] s"

text \<open>\<open>sep.join(ws)\<close>.\<close>

fun py_join :: "string \<Rightarrow> string list \<Rightarrow> string" where
  "py_join sep [] = []"
| "py_join sep [w] = w"
| "py_join sep (w # ws) = w @ sep @ py_join sep ws"

text \<open>\<open>s.rsplit(c, n)\<close>: at most \<open>n\<close> splits, taken from the right.  It is the
  left split of the reversed string, reversed back.\<close>

fun split_max_acc :: "char \<Rightarrow> nat \<Rightarrow> string \<Rightarrow> string \<Rightarrow> string list" where
  "split_max_acc c n acc [] = [rev acc]"
| "split_max_acc c n acc (x # xs) =
     (if x = c \<and> 0 < n then rev acc # split_max_acc c (n - 1) [] xs
      else split_max_acc c n (x # acc) xs)"

definition py_rsplit :: "char \<Rightarrow> nat \<Rightarrow> string \<Rightarrow> string list" where
  "py_rsplit c n s = rev (map rev (split_max_acc c n [] (rev s)))"

text \<open>\<open>s.replace(old, new)\<close> for a non-empty \<open>old\<close> (every call site passes a
  literal): occurrences are replaced left to right, without overlap.\<close>

fun py_replace :: "string \<Rightarrow> string \<Rightarrow> string \<Rightarrow> string" where
  "py_replace old new [] = []"
| "py_replace old new (x # xs) =
     (if old \<noteq> [] \<and> prefix old (x # xs)
      then new @ py_replace old new (drop (length old - 1) xs)
      else x # py_replace old new xs)"

text \<open>\<open>x in s\<close> on strings is the contiguous-substring test \<open>sublist\<close> of
  HOL-Library.Sublist; \<open>s.endswith(x)\<close> is \<open>suffix\<close>.\<close>

abbreviation py_in :: "string \<Rightarrow> string \<Rightarrow> bool" where
  "py_in x s \<equiv> sublist x s"

abbreviation py_endswith :: "string \<Rightarrow> string \<Rightarrow> bool" where
  "py_endswith s x \<equiv> suffix x s"

subsection \<open>Decimal integers: str(n) and int(s)\<close>

definition decimal_digits :: string where
  "decimal_digits = ''0123456789''"

definition is_digit :: "char \<Rightarrow> bool" where
  "is_digit c \<longleftrightarrow> c \<in> set decimal_digits"

definition digit_char :: "nat \<Rightarrow> char" where
  "digit_char d = decimal_digits ! d"

definition digit_val :: "char \<Rightarrow> nat" where
  "digit_val c = length (takeWhile (\<lambda>x. x \<noteq> c) decimal_digits)"

fun show_nat :: "nat \<Rightarrow> string" where
  "show_nat n = (if n < 10 then [digit_char n] else show_nat (n div 10) @ [digit_char (n mod 10)])"

declare show_nat.simps [simp del]

text \<open>\<open>str(n)\<close> for a Python \<open>int\<close>.\<close>

definition py_str_int :: "int \<Rightarrow> string" where
  "py_str_int n = (if n < 0 then CHR ''-'' # show_nat (nat (- n)) else show_nat (nat n))"

definition digits_val :: "string \<Rightarrow> nat" where
  "digits_val ds = foldl (\<lambda>acc c. 10 * acc + digit_val c) 0 ds"

text \<open>The characters \<open>int()\<close> strips around its argument (ASCII whitespace
  and the separators U+001C..U+001F, which \<open>str.isspace\<close> accepts).\<close>

definition py_space :: "char \<Rightarrow> bool" where
  "py_space c \<longleftrightarrow> c \<in> set [CHR 0x09, CHR 0x0A, CHR 0x0B, CHR 0x0C, CHR 0x0D,
     CHR 0x1C, CHR 0x1D, CHR 0x1E, CHR 0x1F, CHR 0x20]"

definition py_strip :: "string \<Rightarrow> string" where
  "py_strip s = rev (dropWhile py_space (rev (dropWhile py_space s)))"

text \<open>The digits of a decimal literal: digits with single underscores between them.\<close>

definition int_body_ok :: "string \<Rightarrow> bool" where
  "int_body_ok ds \<longleftrightarrow> ds \<noteq> [] \<and> is_digit (hd ds) \<and> is_digit (last ds)
     \<and> (\<forall>c\<in>set ds. is_digit c \<or> c = CHR ''_'') \<and> \<not> sublist ''__'' ds"

text \<open>
  \<open>int(s)\<close> in base 10; \<open>None\<close> is the \<open>ValueError\<close> it raises.  Since
  Python 3.11 a literal of more than 4300 digits is refused too
  (\<open>sys.int_info.default_max_str_digits\<close>).
\<close>

definition int_max_str_digits :: nat where
  "int_max_str_digits = 4300"

definition py_int :: "string \<Rightarrow> int option" where
  "py_int s =
     (let t = py_strip s;
          (neg, ds) = (case t of
              [] \<Rightarrow> (False, [])
            | c # r \<Rightarrow> (if c = CHR ''-'' then (True, r)
                        else if c = CHR ''+'' then (False, r) else (False, t)));
          digits = filter is_digit ds
      in if int_body_ok ds \<and> length digits \<le> int_max_str_digits
         then Some ((if neg then -1 else 1) * int (digits_val digits)) else None)"

subsection \<open>Shell-style matching (fnmatch)\<close>

text \<open>
  \<open>fnmatch.fnmatchcase(name, pat)\<close>, the test \<open>glob.glob\<close> applies to each
  directory entry on POSIX: \<open>*\<close> matches any string, \<open>?\<close> any one character,
  every other character itself.  Bracket classes \<open>[...]\<close> are not modelled: no
  pattern the code builds contains a bracket unless a caller's symbol does, and
  \<open>no_wild\<close>, the condition the theorems put on such parts, excludes \<open>[\<close>
  together with \<open>*\<close> and \<open>?\<close>, so on the patterns they cover this matcher and
  the real one agree.
\<close>

fun fnmatch :: "string \<Rightarrow> string \<Rightarrow> bool" where
  "fnmatch [] s \<longleftrightarrow> s = []"
| "fnmatch (p # ps) [] \<longleftrightarrow> p = CHR ''*'' \<and> fnmatch ps []"
| "fnmatch (p # ps) (c # cs) \<longleftrightarrow>
     (if p = CHR ''*'' then fnmatch ps (c # cs) \<or> fnmatch (p # ps) cs
      else (p = CHR ''?'' \<or> p = c) \<and> fnmatch ps cs)"

definition no_wild :: "string \<Rightarrow> bool" where
  "no_wild s \<longleftrightarrow> CHR ''*'' \<notin> set s \<and> CHR ''?'' \<notin> set s \<and> CHR ''['' \<notin> set s"

declare py_split_def [eval_simps] py_rsplit_def [eval_simps] is_digit_def [eval_simps]
  digit_char_def [eval_simps] digit_val_def [eval_simps] decimal_digits_def [eval_simps]
  show_nat.simps [eval_simps] py_str_int_def [eval_simps] digits_val_def [eval_simps]
  py_space_def [eval_simps] py_strip_def [eval_simps] int_body_ok_def [eval_simps]
  py_int_def [eval_simps] int_max_str_digits_def [eval_simps] no_wild_def [eval_simps]
  sublist_code [eval_simps] suffix_to_prefix [eval_simps]


subsection \<open>split and join are inverse\<close>

lemma split_acc_nonempty [simp]: "split_acc c acc s \<noteq> []"
  by (induction s arbitrary: acc) auto

lemma py_join_Cons: "ws \<noteq> [] \<Longrightarrow> py_join sep (w # ws) = w @ sep @ py_join sep ws"
  by (cases ws) auto

lemma join_split_acc: "py_join [c] (split_acc c acc s) = rev acc @ s"
  by (induction s arbitrary: acc) (auto simp: py_join_Cons)

lemma py_join_split: "py_join [c] (py_split c s) = s"
  by (simp add: py_split_def join_split_acc)

lemma split_acc_append: "c \<notin> set w \<Longrightarrow> split_acc c acc (w @ r) = split_acc c (rev w @ acc) r"
  by (induction w arbitrary: acc) auto

lemma py_split_join:
  "ws \<noteq> [] \<Longrightarrow> \<forall>w\<in>set ws. c \<notin> set w \<Longrightarrow> py_split c (py_join [c] ws) = ws"
proof (induction ws)
  case Nil
  then show ?case by simp
next
  case (Cons w ws)
  show ?case
  proof (cases "ws = []")
    case True
    with Cons.prems show ?thesis
      using split_acc_append [of c w "[]" "[]"] by (simp add: py_split_def)
  next
    case False
    with Cons have "split_acc c [] (py_join [c] ws) = ws" by (simp add: py_split_def)
    with False Cons.prems show ?thesis
      by (simp add: py_split_def py_join_Cons split_acc_append)
  qed
qed

subsection \<open>rsplit of a name with two trailing dot-separated fields\<close>

lemma split_max_acc_append:
  "c \<notin> set w \<Longrightarrow> split_max_acc c n acc (w @ r) = split_max_acc c n (rev w @ acc) r"
  by (induction w arbitrary: acc) auto

lemma split_max_acc_0: "split_max_acc c 0 acc s = [rev acc @ s]"
  by (induction s arbitrary: acc) auto

lemma py_rsplit_two_fields:
  assumes "c \<notin> set t" and "c \<notin> set e"
  shows "py_rsplit c 2 (b @ c # t @ c # e) = [b, t, e]"
proof -
  have "split_max_acc c 2 [] (rev e @ c # rev t @ c # rev b) = [rev e, rev t, rev b]"
    using assms
    by (simp add: split_max_acc_append split_max_acc_0 numeral_2_eq_2)
  then show ?thesis by (simp add: py_rsplit_def)
qed

subsection \<open>int(str(n)) = n\<close>

lemma less_ten_cases: "(d::nat) < 10 \<Longrightarrow> d = 0 \<or> d = 1 \<or> d = 2 \<or> d = 3 \<or> d = 4 \<or> d = 5 \<or> d = 6 \<or> d = 7 \<or> d = 8 \<or> d = 9"
  by presburger

lemma digit_char_is_digit: "d < 10 \<Longrightarrow> is_digit (digit_char d)"
  using less_ten_cases [of d] by (auto simp: is_digit_def digit_char_def decimal_digits_def)

lemma digit_val_digit_char: "d < 10 \<Longrightarrow> digit_val (digit_char d) = d"
  using less_ten_cases [of d] by (auto simp: digit_val_def digit_char_def decimal_digits_def)

lemma is_digit_not_punct: "is_digit c \<Longrightarrow> c \<notin> set ''.-*?_/a[''"
  unfolding is_digit_def decimal_digits_def by (simp; elim disjE; simp)

lemma punct_not_digit [simp]:
  "\<not> is_digit CHR ''.''" "\<not> is_digit CHR ''-''" "\<not> is_digit CHR ''*''" "\<not> is_digit CHR ''?''"
  "\<not> is_digit CHR ''_''" "\<not> is_digit CHR ''/''" "\<not> is_digit CHR ''a''"
  by (simp_all add: is_digit_def decimal_digits_def)

lemma digit_not_space: "is_digit c \<Longrightarrow> \<not> py_space c"
  by (auto simp: is_digit_def py_space_def decimal_digits_def)

lemma show_nat_digits: "c \<in> set (show_nat n) \<Longrightarrow> is_digit c"
proof (induction n rule: show_nat.induct)
  case (1 n)
  then show ?case
    by (cases "n < 10") (auto simp: show_nat.simps [of n] digit_char_is_digit)
qed

lemma show_nat_nonempty [simp]: "show_nat n \<noteq> []"
  by (simp add: show_nat.simps [of n])

lemma digits_val_snoc: "digits_val (ds @ [c]) = 10 * digits_val ds + digit_val c"
  by (simp add: digits_val_def)

lemma digits_val_show_nat: "digits_val (show_nat n) = n"
proof (induction n rule: show_nat.induct)
  case (1 n)
  show ?case
  proof (cases "n < 10")
    case True
    then show ?thesis by (simp add: show_nat.simps [of n] digits_val_def digit_val_digit_char)
  next
    case False
    with "1.IH" show ?thesis
      by (simp add: show_nat.simps [of n] digits_val_snoc digit_val_digit_char)
  qed
qed

lemma length_show_nat: "n < 10 ^ k \<Longrightarrow> 0 < k \<Longrightarrow> length (show_nat n) \<le> k"
proof (induction n arbitrary: k rule: show_nat.induct)
  case (1 n)
  show ?case
  proof (cases "n < 10")
    case True
    with "1.prems" show ?thesis by (simp add: show_nat.simps [of n])
  next
    case False
    with "1.prems" obtain j where k: "k = Suc j" and j: "0 < j"
      by (cases k; cases "k - 1") auto
    with "1.prems" have "n div 10 < 10 ^ j" by (simp add: div_less_iff_less_mult)
    with False "1.IH" j have "length (show_nat (n div 10)) \<le> j" by simp
    with False k show ?thesis by (simp add: show_nat.simps [of n])
  qed
qed

lemma int_body_ok_show_nat: "int_body_ok (show_nat n)"
proof -
  have all: "\<forall>c\<in>set (show_nat n). is_digit c" by (blast intro: show_nat_digits)
  have "\<not> sublist ''__'' (show_nat n)"
  proof
    assume "sublist ''__'' (show_nat n)"
    then have "CHR ''_'' \<in> set (show_nat n)" by (auto dest: set_mono_sublist)
    with all show False by auto
  qed
  with all show ?thesis by (simp add: int_body_ok_def)
qed

lemma dropWhile_hd_id: "s \<noteq> [] \<Longrightarrow> \<not> P (hd s) \<Longrightarrow> dropWhile P s = s"
  by (cases s) auto

lemma py_strip_id:
  assumes "s \<noteq> []" and "\<not> py_space (hd s)" and "\<not> py_space (last s)"
  shows "py_strip s = s"
proof -
  have "dropWhile py_space s = s" using assms by (simp add: dropWhile_hd_id)
  moreover have "dropWhile py_space (rev s) = rev s"
    using assms by (simp add: dropWhile_hd_id hd_rev)
  ultimately show ?thesis by (simp add: py_strip_def)
qed

lemma py_int_show_nat:
  assumes "n < 10 ^ int_max_str_digits"
  shows "py_int (show_nat n) = Some (int n)" and "py_int (CHR ''-'' # show_nat n) = Some (- int n)"
proof -
  let ?s = "show_nat n"
  have dig: "\<forall>c\<in>set ?s. is_digit c" by (blast intro: show_nat_digits)
  have ne: "?s \<noteq> []" by simp
  then have hd: "is_digit (hd ?s)" and lst: "is_digit (last ?s)" using dig by auto
  have len: "length ?s \<le> int_max_str_digits"
    using assms by (rule length_show_nat) (simp add: int_max_str_digits_def)
  have nsign: "hd ?s \<noteq> CHR ''-''" "hd ?s \<noteq> CHR ''+''"
    using hd by (auto simp: is_digit_def decimal_digits_def)
  have filt: "filter is_digit ?s = ?s" using dig by (simp add: filter_id_conv)
  have strip1: "py_strip ?s = ?s" using ne hd lst by (simp add: py_strip_id digit_not_space)
  have strip2: "py_strip (CHR ''-'' # ?s) = CHR ''-'' # ?s"
    using lst by (intro py_strip_id) (auto simp: py_space_def is_digit_def decimal_digits_def)
  obtain c r where cr: "?s = c # r" using ne by (cases ?s) auto
  have ok: "int_body_ok (c # r)" and val: "digits_val (c # r) = n"
    using int_body_ok_show_nat [of n] digits_val_show_nat [of n] by (simp_all add: cr)
  show "py_int ?s = Some (int n)"
    using strip1 nsign filt len ok val by (simp add: py_int_def cr Let_def)
  show "py_int (CHR ''-'' # ?s) = Some (- int n)"
    using strip2 filt len by (simp add: py_int_def int_body_ok_show_nat digits_val_show_nat)
qed

lemma py_int_py_str_int:
  "\<bar>n\<bar> < 10 ^ int_max_str_digits \<Longrightarrow> py_int (py_str_int n) = Some n"
proof (cases "n < 0")
  case True
  moreover assume "\<bar>n\<bar> < 10 ^ int_max_str_digits"
  ultimately have "nat (- n) < 10 ^ int_max_str_digits" by (simp add: nat_less_iff)
  with True show ?thesis by (simp add: py_str_int_def py_int_show_nat(2))
next
  case False
  moreover assume "\<bar>n\<bar> < 10 ^ int_max_str_digits"
  ultimately have "nat n < 10 ^ int_max_str_digits" by (simp add: nat_less_iff)
  with False show ?thesis by (simp add: py_str_int_def py_int_show_nat(1))
qed

subsection \<open>fnmatch on patterns made of literals and stars\<close>

lemma no_wild_append [simp]: "no_wild (a @ b) \<longleftrightarrow> no_wild a \<and> no_wild b"
  by (auto simp: no_wild_def)

lemma no_wild_Cons [simp]:
  "no_wild (c # a) \<longleftrightarrow> c \<noteq> CHR ''*'' \<and> c \<noteq> CHR ''?'' \<and> c \<noteq> CHR ''['' \<and> no_wild a"
  by (auto simp: no_wild_def)

lemma no_wild_Nil [simp]: "no_wild []"
  by (simp add: no_wild_def)

lemma fnmatch_literal_prefix:
  "no_wild a \<Longrightarrow> fnmatch (a @ p) s \<longleftrightarrow> (\<exists>s'. s = a @ s' \<and> fnmatch p s')"
proof (induction a arbitrary: s)
  case Nil
  then show ?case by simp
next
  case (Cons x a)
  then have x: "x \<noteq> CHR ''*''" "x \<noteq> CHR ''?''" and a: "no_wild a" by simp_all
  show ?case
    using x Cons.IH [OF a] by (cases s) auto
qed

lemma fnmatch_star: "fnmatch (CHR ''*'' # p) s \<longleftrightarrow> (\<exists>x y. s = x @ y \<and> fnmatch p y)"
proof (induction s)
  case Nil
  then show ?case by simp
next
  case (Cons c cs)
  have "fnmatch (CHR ''*'' # p) (c # cs) \<longleftrightarrow> fnmatch p (c # cs) \<or> fnmatch (CHR ''*'' # p) cs"
    by simp
  also have "\<dots> \<longleftrightarrow> (\<exists>x y. c # cs = x @ y \<and> fnmatch p y)"
    using Cons.IH by (auto simp: Cons_eq_append_conv)
  finally show ?case .
qed

lemma fnmatch_literal: "no_wild a \<Longrightarrow> fnmatch a s \<longleftrightarrow> s = a"
  using fnmatch_literal_prefix [of a "[]" s] by simp

lemma fnmatch_prefix_star_suffix:
  "no_wild a \<Longrightarrow> no_wild b \<Longrightarrow> fnmatch (a @ CHR ''*'' # b) s \<longleftrightarrow> (\<exists>x. s = a @ x @ b)"
  by (auto simp: fnmatch_literal_prefix fnmatch_star fnmatch_literal)

end
