(* ===== verification/Filesystem.thy ===== *)
theory Filesystem
  imports Py_Strings
begin

text \<open>
  The file system as the loader sees it, and the library calls it makes:
  \<open>os.path.exists\<close>, \<open>os.path.isdir\<close>, \<open>os.listdir\<close>, \<open>glob.glob\<close>,
  \<open>os.makedirs\<close>, \<open>os.remove\<close>, \<open>pd.read_parquet\<close>, \<open>DataFrame.to_parquet\<close>
  and \<open>pd.concat\<close>.  The state is an association list from paths to nodes; the
  root \<open>[]\<close> is a directory that is always there.  A parquet file holds a table
  (a list of column names and a list of rows of type \<open>'r\<close>); writing a table and
  reading it back gives the same table, which is what \<open>to_parquet(index=False)\<close>
  followed by \<open>read_parquet\<close> does for the frames the loader writes.  A file
  that \<open>read_parquet\<close> cannot read (corrupt, not parquet) is \<open>Unreadable\<close>.
  The order of the association list is the order \<open>os.listdir\<close> and
  \<open>glob\<close> report, which Python leaves unspecified.
\<close>

record 'r table =
  columns :: "string list"
  rows :: "'r list"

datatype 'r node = Parquet "'r table" | Unreadable | Dir

type_synonym 'r fs = "(path \<times> 'r node) list"

subsection \<open>Queries\<close>

definition path_exists :: "'r fs \<Rightarrow> path \<Rightarrow> bool" where
  "path_exists fs p \<longleftrightarrow> p = [] \<or> map_of fs p \<noteq> None"

definition is_dir :: "'r fs \<Rightarrow> path \<Rightarrow> bool" where
  "is_dir fs p \<longleftrightarrow> p = [] \<or> map_of fs p = Some Dir"

text \<open>The names of the entries of directory \<open>d\<close>, in listing order.\<close>

definition children :: "'r fs \<Rightarrow> path \<Rightarrow> string list" where
  "children fs d = [last q. (q, _) \<leftarrow> fs, q \<noteq> [] \<and> butlast q = d]"

text \<open>\<open>os.listdir(d)\<close>: raises for a missing directory or a file.\<close>

definition listdir :: "path \<Rightarrow> (string list, 'r fs) io" where
  "listdir d fs = (if is_dir fs d then (Inr (children fs d), fs) else (Inl (OSError d), fs))"

text \<open>
  \<open>glob.glob(os.path.join(d, pat))\<close> with wildcards only in the last component:
  the entries of \<open>d\<close> whose names match, hidden names (a leading dot) left out
  unless the pattern starts with a dot; no result when \<open>d\<close> is not a directory.
\<close>

definition hidden :: "string \<Rightarrow> bool" where
  "hidden n \<longleftrightarrow> take 1 n = ''.''"

definition glob :: "'r fs \<Rightarrow> path \<Rightarrow> string \<Rightarrow> path list" where
  "glob fs d pat =
     (if is_dir fs d
      then [d @ [n]. n \<leftarrow> children fs d, fnmatch pat n \<and> (\<not> hidden n \<or> hidden pat)]
      else [])"

text \<open>The string of a path, the key by which \<open>list.sort()\<close> orders glob results.\<close>

definition path_str :: "path \<Rightarrow> string" where
  "path_str p = py_join ''/'' p"

definition sort_paths :: "path list \<Rightarrow> path list" where
  "sort_paths ps = sort_key path_str ps"

text \<open>\<open>list.sort(reverse=True)\<close>: CPython reverses, sorts stably, reverses back.\<close>

definition sort_paths_desc :: "path list \<Rightarrow> path list" where
  "sort_paths_desc ps = rev (sort_key path_str (rev ps))"

subsection \<open>Effects\<close>

definition read_parquet :: "path \<Rightarrow> ('r table, 'r fs) io" where
  "read_parquet p fs =
     (case map_of fs p of Some (Parquet t) \<Rightarrow> (Inr t, fs) | _ \<Rightarrow> (Inl (ReadError p), fs))"

definition to_parquet :: "path \<Rightarrow> 'r table \<Rightarrow> (unit, 'r fs) io" where
  "to_parquet p t fs =
     (if is_dir fs (butlast p) \<and> \<not> is_dir fs p
      then (Inr (), AList.update p (Parquet t) fs) else (Inl (WriteError p), fs))"

text \<open>\<open>os.remove(p)\<close>: removes a file; a directory or a missing path raises.\<close>

definition os_remove :: "path \<Rightarrow> (unit, 'r fs) io" where
  "os_remove p fs =
     (if path_exists fs p \<and> \<not> is_dir fs p
      then (Inr (), AList.delete p fs) else (Inl (OSError p), fs))"

text \<open>\<open>os.makedirs(p)\<close>: creates the missing directories from the top down; an
  existing file on the way, or \<open>p\<close> itself existing, raises.\<close>

fun mkdirs :: "path \<Rightarrow> string list \<Rightarrow> (unit, 'r fs) io" where
  "mkdirs pre [] fs = (Inr (), fs)"
| "mkdirs pre (c # cs) fs =
     (let q = pre @ [c] in
      case map_of fs q of
        None \<Rightarrow> mkdirs q cs ((q, Dir) # fs)
      | Some Dir \<Rightarrow> mkdirs q cs fs
      | Some _ \<Rightarrow> (Inl (OSError q), fs))"

definition makedirs :: "path \<Rightarrow> (unit, 'r fs) io" where
  "makedirs p fs = (if path_exists fs p then (Inl (OSError p), fs) else mkdirs [] p fs)"

text \<open>\<open>pd.concat(dfs, ignore_index=True)\<close>: rows in order, the union of the
  columns in order of appearance.  The code takes \<open>dfs[0]\<close> itself when there
  is one frame.\<close>

definition concat_tables :: "'r table list \<Rightarrow> 'r table" where
  "concat_tables ts = \<lparr>columns = remdups (concat (map columns ts)), rows = concat (map rows ts)\<rparr>"

definition combine :: "'r table list \<Rightarrow> 'r table" where
  "combine ts = (if length ts = 1 then hd ts else concat_tables ts)"

declare path_exists_def [eval_simps] is_dir_def [eval_simps] children_def [eval_simps]
  listdir_def [eval_simps] hidden_def [eval_simps] glob_def [eval_simps] path_str_def [eval_simps]
  sort_paths_def [eval_simps] sort_paths_desc_def [eval_simps] read_parquet_def [eval_simps]
  to_parquet_def [eval_simps] os_remove_def [eval_simps] makedirs_def [eval_simps]
  concat_tables_def [eval_simps] combine_def [eval_simps]

subsection \<open>Well-formedness\<close>

text \<open>Paths are keys at most once, and every entry sits in an existing directory.\<close>

definition fs_wf :: "'r fs \<Rightarrow> bool" where
  "fs_wf fs \<longleftrightarrow> distinct (map fst fs) \<and> (\<forall>p \<in> fst ` set fs. p \<noteq> [] \<and> is_dir fs (butlast p))"

lemma fs_wf_distinct: "fs_wf fs \<Longrightarrow> distinct (map fst fs)"
  by (simp add: fs_wf_def)

subsection \<open>Frame rules: what each effect changes\<close>

lemma to_parquet_cases:
  "to_parquet p t fs = (r, fs') \<Longrightarrow>
     (r = Inr () \<and> fs' = AList.update p (Parquet t) fs \<and> is_dir fs (butlast p) \<and> \<not> is_dir fs p)
   \<or> (r = Inl (WriteError p) \<and> fs' = fs)"
  by (auto simp: to_parquet_def split: if_splits)

lemma os_remove_cases:
  "os_remove p fs = (r, fs') \<Longrightarrow>
     (r = Inr () \<and> fs' = AList.delete p fs \<and> path_exists fs p \<and> \<not> is_dir fs p)
   \<or> (r = Inl (OSError p) \<and> fs' = fs)"
  by (auto simp: os_remove_def split: if_splits)

lemma read_parquet_state [simp]: "snd (read_parquet p fs) = fs"
  by (simp add: read_parquet_def split: option.splits node.splits)

lemma listdir_state [simp]: "snd (listdir d fs) = fs"
  by (simp add: listdir_def)

lemma read_parquet_pure [intro!]: "io_pure (read_parquet p)"
  by (simp add: io_pure_def)

lemma listdir_pure [intro!]: "io_pure (listdir d)"
  by (simp add: io_pure_def)

lemma read_parquet_Inr: "fst (read_parquet p fs) = Inr t \<longleftrightarrow> map_of fs p = Some (Parquet t)"
  by (simp add: read_parquet_def split: option.splits node.splits)

text \<open>Reading back what was just written gives the table.\<close>

lemma read_after_write:
  "to_parquet p t fs = (Inr (), fs') \<Longrightarrow> read_parquet p fs' = (Inr t, fs')"
  by (auto simp: to_parquet_def read_parquet_def update_conv' split: if_splits)

lemma mkdirs_frame:
  "mkdirs pre cs fs = (r, fs') \<Longrightarrow> map_of fs q \<noteq> None \<Longrightarrow> map_of fs' q = map_of fs q"
proof (induction pre cs fs rule: mkdirs.induct)
  case (2 pre c cs fs)
  then show ?case
    by (auto simp: Let_def split: option.splits node.splits if_splits)
qed simp

lemma mkdirs_new_dirs:
  "mkdirs pre cs fs = (r, fs') \<Longrightarrow> map_of fs' q \<noteq> map_of fs q \<Longrightarrow> map_of fs' q = Some Dir"
proof (induction pre cs fs rule: mkdirs.induct)
  case (2 pre c cs fs)
  show ?case
  proof (cases "q = pre @ [c]")
    case True
    with "2.prems" show ?thesis
      by (auto simp: Let_def split: option.splits node.splits dest: mkdirs_frame)
  next
    case False
    with 2 show ?thesis by (auto simp: Let_def split: option.splits node.splits)
  qed
qed simp

subsection \<open>Well-formedness is kept by every effect\<close>

lemma is_dir_update_file:
  "v \<noteq> Dir \<Longrightarrow> \<not> is_dir fs p \<Longrightarrow> is_dir (AList.update p v fs) q \<longleftrightarrow> is_dir fs q"
  by (auto simp: is_dir_def update_conv')

lemma to_parquet_wf:
  assumes "fs_wf fs" and "to_parquet p t fs = (r, fs')"
  shows "fs_wf fs'"
proof (cases "r = Inr ()")
  case True
  with assms(2) have fs': "fs' = AList.update p (Parquet t) fs"
    and par: "is_dir fs (butlast p)" and nd: "\<not> is_dir fs p"
    by (auto dest: to_parquet_cases)
  from nd have "p \<noteq> []" by (auto simp: is_dir_def)
  with assms(1) par nd show ?thesis
    unfolding fs' fs_wf_def
    by (auto simp: distinct_update is_dir_update_file dom_update)
next
  case False
  with assms(2) have "fs' = fs" by (auto dest: to_parquet_cases)
  with assms(1) show ?thesis by simp
qed

lemma is_dir_delete_file:
  "\<not> is_dir fs p \<Longrightarrow> is_dir (AList.delete p fs) q \<longleftrightarrow> is_dir fs q"
  by (auto simp: is_dir_def delete_conv')

lemma in_set_delete: "x \<in> set (AList.delete k al) \<Longrightarrow> x \<in> set al"
  by (simp add: AList.delete_eq)

lemma os_remove_wf:
  assumes "fs_wf fs" and "os_remove p fs = (r, fs')"
  shows "fs_wf fs'"
proof (cases "r = Inr ()")
  case True
  with assms(2) have fs': "fs' = AList.delete p fs" and nd: "\<not> is_dir fs p"
    by (auto dest: os_remove_cases)
  from assms(1) nd show ?thesis
    unfolding fs' fs_wf_def
    by (auto simp: distinct_delete is_dir_delete_file dest: in_set_delete)
next
  case False
  with assms(2) have "fs' = fs" by (auto dest: os_remove_cases)
  with assms(1) show ?thesis by simp
qed

lemma is_dir_add_dir: "is_dir fs q \<Longrightarrow> is_dir ((p, Dir) # fs) q"
  by (simp add: is_dir_def)

lemma mkdirs_wf:
  "mkdirs pre cs fs = (r, fs') \<Longrightarrow> fs_wf fs \<Longrightarrow> is_dir fs pre \<Longrightarrow> fs_wf fs'"
proof (induction pre cs fs rule: mkdirs.induct)
  case (1 pre fs)
  then show ?case by simp
next
  case (2 pre c cs fs)
  let ?q = "pre @ [c]"
  show ?case
  proof (cases "map_of fs ?q")
    case None
    have wf: "fs_wf ((?q, Dir) # fs)"
      using "2.prems"(2,3) None
      by (auto simp: fs_wf_def is_dir_add_dir map_of_eq_None_iff)
    have "is_dir ((?q, Dir) # fs) ?q" by (simp add: is_dir_def)
    with "2.IH"(1) [OF refl None] "2.prems"(1) None wf show ?thesis by (simp add: Let_def)
  next
    case (Some v)
    then show ?thesis
    proof (cases v)
      case Dir
      with Some have "is_dir fs ?q" by (simp add: is_dir_def)
      with "2.IH"(2) [OF refl Some Dir] "2.prems" Some Dir show ?thesis by simp
    qed (use "2.prems" Some in simp_all)
  qed
qed

lemma makedirs_wf: "makedirs p fs = (r, fs') \<Longrightarrow> fs_wf fs \<Longrightarrow> fs_wf fs'"
  by (auto simp: makedirs_def is_dir_def split: if_splits intro: mkdirs_wf)

text \<open>Dropping files (never directories) keeps well-formedness.\<close>

lemma filter_files_wf:
  assumes wf: "fs_wf fs" and keep: "\<forall>e\<in>set fs. \<not> P e \<longrightarrow> snd e \<noteq> Dir"
  shows "fs_wf (filter P fs)"
proof -
  have dist: "distinct (map fst (filter P fs))"
    using wf by (simp add: fs_wf_def distinct_map_filter)
  have "is_dir (filter P fs) q" if "is_dir fs q" for q
  proof (cases "q = []")
    case False
    with that have "(q, Dir) \<in> set fs" by (simp add: is_dir_def map_of_SomeD)
    with keep have "(q, Dir) \<in> set (filter P fs)" by auto
    with dist show ?thesis by (simp add: is_dir_def)
  qed (simp add: is_dir_def)
  with wf dist show ?thesis by (auto simp: fs_wf_def)
qed

subsection \<open>The view of one directory\<close>

text \<open>Everything a reader of directory \<open>d\<close> can observe: whether it exists and is
  a directory, and its entries in listing order with their nodes.\<close>

definition dir_view :: "'r fs \<Rightarrow> path \<Rightarrow> bool \<times> bool \<times> (string \<times> 'r node option) list" where
  "dir_view fs d = (path_exists fs d, is_dir fs d, map (\<lambda>n. (n, map_of fs (d @ [n]))) (children fs d))"

lemma children_Nil [simp]: "children [] d = []"
  by (simp add: children_def)

lemma children_Cons [simp]:
  "children ((q, v) # fs) d = (if q \<noteq> [] \<and> butlast q = d then [last q] else []) @ children fs d"
  by (simp add: children_def)

lemma in_children_iff: "n \<in> set (children fs d) \<longleftrightarrow> map_of fs (d @ [n]) \<noteq> None"
proof (induction fs)
  case (Cons e fs)
  obtain q v where e: "e = (q, v)" by (cases e)
  have "q \<noteq> [] \<and> butlast q = d \<and> last q = n \<longleftrightarrow> q = d @ [n]"
    by (auto simp: snoc_eq_iff_butlast)
  with Cons show ?case by (auto simp: e)
qed simp

lemma dir_view_children:
  assumes "dir_view fs d = dir_view fs' d"
  shows "children fs d = children fs' d"
proof -
  from assms have "map fst (map (\<lambda>n. (n, map_of fs (d @ [n]))) (children fs d))
      = map fst (map (\<lambda>n. (n, map_of fs' (d @ [n]))) (children fs' d))"
    by (simp add: dir_view_def)
  then show ?thesis by (simp add: comp_def)
qed

lemma dir_view_entry:
  assumes "dir_view fs d = dir_view fs' d" and "n \<in> set (children fs d)"
  shows "map_of fs (d @ [n]) = map_of fs' (d @ [n])"
proof -
  from assms(2) have "(n, map_of fs (d @ [n])) \<in> set (map (\<lambda>n. (n, map_of fs (d @ [n]))) (children fs d))"
    by simp
  with assms(1) have "(n, map_of fs (d @ [n])) \<in> set (map (\<lambda>n. (n, map_of fs' (d @ [n]))) (children fs' d))"
    by (simp add: dir_view_def)
  then show ?thesis by auto
qed

lemma glob_view:
  assumes "dir_view fs d = dir_view fs' d"
  shows "glob fs d pat = glob fs' d pat"
proof -
  have "children fs d = children fs' d" using assms by (rule dir_view_children)
  moreover have "is_dir fs d = is_dir fs' d" using assms by (simp add: dir_view_def)
  ultimately show ?thesis by (simp add: glob_def)
qed

lemma glob_in_children: "q \<in> set (glob fs d pat) \<Longrightarrow> \<exists>n. q = d @ [n] \<and> n \<in> set (children fs d)"
  by (auto simp: glob_def split: if_splits)

lemma children_update:
  "butlast p \<noteq> d \<Longrightarrow> children (AList.update p v fs) d = children fs d"
  by (induction fs) auto

lemma dir_view_update:
  "p \<noteq> d \<Longrightarrow> butlast p \<noteq> d \<Longrightarrow> dir_view (AList.update p v fs) d = dir_view fs d"
  by (auto simp: dir_view_def children_update path_exists_def is_dir_def update_conv')

lemma dir_view_Cons:
  "p \<noteq> d \<Longrightarrow> butlast p \<noteq> d \<Longrightarrow> dir_view ((p, v) # fs) d = dir_view fs d"
  by (auto simp: dir_view_def path_exists_def is_dir_def)

lemma map_of_filter_keep:
  "\<forall>e\<in>set fs. fst e = k \<longrightarrow> P e \<Longrightarrow> map_of (filter P fs) k = map_of fs k"
  by (induction fs) auto

lemma children_filter_keep:
  "\<forall>e\<in>set fs. fst e \<noteq> [] \<and> butlast (fst e) = d \<longrightarrow> P e \<Longrightarrow> children (filter P fs) d = children fs d"
  by (induction fs) auto

lemma dir_view_filter:
  assumes "\<forall>e\<in>set fs. fst e = d \<or> (fst e \<noteq> [] \<and> butlast (fst e) = d) \<longrightarrow> P e"
  shows "dir_view (filter P fs) d = dir_view fs d"
proof -
  have ch: "children (filter P fs) d = children fs d"
    using assms by (intro children_filter_keep) auto
  have "map_of (filter P fs) d = map_of fs d" using assms by (intro map_of_filter_keep) auto
  moreover have "map_of (filter P fs) (d @ [n]) = map_of fs (d @ [n])" for n
    using assms by (intro map_of_filter_keep) auto
  ultimately show ?thesis by (simp add: dir_view_def ch path_exists_def is_dir_def)
qed

subsection \<open>Ancestors, directory creation and removal of files\<close>

lemma wf_is_dir_butlast: "fs_wf fs \<Longrightarrow> is_dir fs p \<Longrightarrow> is_dir fs (butlast p)"
  by (cases "p = []") (auto simp: fs_wf_def is_dir_def dest: map_of_SomeD)

lemma wf_is_dir_take:
  assumes "fs_wf fs" and "is_dir fs p"
  shows "is_dir fs (take k p)"
proof -
  have "is_dir fs (take (length p - n) p)" for n
  proof (induction n)
    case 0
    from assms(2) show ?case by simp
  next
    case (Suc n)
    from assms(1) Suc.IH have "is_dir fs (butlast (take (length p - n) p))"
      by (rule wf_is_dir_butlast)
    then show ?case by (simp add: butlast_take)
  qed
  from this [of "length p - k"] show ?thesis
    by (cases "k \<le> length p") simp_all
qed

text \<open>\<open>os.makedirs\<close> below existing directories creates exactly the last one.\<close>

lemma mkdirs_last:
  "(\<forall>k. 0 < k \<longrightarrow> k \<le> length ds \<longrightarrow> is_dir fs (pre @ take k ds)) \<Longrightarrow> map_of fs (pre @ ds @ [c]) = None
   \<Longrightarrow> mkdirs pre (ds @ [c]) fs = (Inr (), (pre @ ds @ [c], Dir) # fs)"
proof (induction ds arbitrary: pre)
  case Nil
  then show ?case by simp
next
  case (Cons d ds)
  have "is_dir fs (pre @ [d])" using Cons.prems(1) [rule_format, of 1] by simp
  then have d: "map_of fs (pre @ [d]) = Some Dir" by (simp add: is_dir_def)
  have "\<forall>k. 0 < k \<longrightarrow> k \<le> length ds \<longrightarrow> is_dir fs ((pre @ [d]) @ take k ds)"
  proof (intro allI impI)
    fix k assume "0 < k" "k \<le> length ds"
    with Cons.prems(1) [rule_format, of "Suc k"] show "is_dir fs ((pre @ [d]) @ take k ds)" by simp
  qed
  with Cons.IH [of "pre @ [d]"] Cons.prems(2) d show ?case by simp
qed

lemma makedirs_child:
  assumes "fs_wf fs" and "is_dir fs d" and "\<not> path_exists fs (d @ [c])"
  shows "makedirs (d @ [c]) fs = (Inr (), (d @ [c], Dir) # fs)"
proof -
  have "\<forall>k. 0 < k \<longrightarrow> k \<le> length d \<longrightarrow> is_dir fs ([] @ take k d)"
    using wf_is_dir_take [OF assms(1,2)] by simp
  moreover have "map_of fs ([] @ d @ [c]) = None" using assms(3) by (simp add: path_exists_def)
  ultimately have "mkdirs [] (d @ [c]) fs = (Inr (), ([] @ d @ [c], Dir) # fs)" by (rule mkdirs_last)
  with assms(3) show ?thesis by (simp add: makedirs_def)
qed

lemma map_of_filter_SomeD:
  "distinct (map fst fs) \<Longrightarrow> map_of (filter P fs) k = Some v \<Longrightarrow> map_of fs k = Some v"
  by (meson map_of_SomeD map_of_is_SomeI filter_is_subset subsetD)

lemma is_dir_filter: "fs_wf fs \<Longrightarrow> \<forall>e\<in>set fs. \<not> P e \<longrightarrow> snd e \<noteq> Dir \<Longrightarrow> is_dir fs d \<Longrightarrow> is_dir (filter P fs) d"
  by (cases "d = []") (auto simp: is_dir_def fs_wf_def distinct_map_filter dest!: map_of_SomeD intro: map_of_is_SomeI)

lemma glob_memberD:
  "q \<in> set (glob fs d pat) \<Longrightarrow> \<exists>n. q = d @ [n] \<and> n \<in> set (children fs d) \<and> fnmatch pat n"
  by (auto simp: glob_def split: if_splits)

lemma sort_paths_desc_hd: "ps \<noteq> [] \<Longrightarrow> hd (sort_paths_desc ps) \<in> set ps"
proof -
  assume "ps \<noteq> []"
  moreover have "set (sort_paths_desc ps) = set ps" by (simp add: sort_paths_desc_def)
  ultimately show ?thesis by (metis hd_in_set set_empty)
qed

end
