(* ===== verification/Janitor.thy ===== *)
theory Janitor
  imports Filesystem
begin

text \<open>
  The cache janitor \<open>remove_old_cache(folder, older_than_days)\<close>
  (src/util.py:8-37).  It lists the folder once and walks the names in listing
  order: a name ending in \<open>.parquet\<close> whose second-to-last dot-separated field
  parses as an integer \<open>ts\<close> is removed when \<open>datetime.fromtimestamp(ts)\<close> is
  before \<open>now - older_than_days\<close>.  A \<open>ValueError\<close> or \<open>OSError\<close> skips the
  name; any other exception escapes, with the removals done so far kept.
  Instants are microseconds since the epoch (the resolution of \<open>datetime\<close>);
  local time is taken to be UTC.
\<close>

definition usec_per_day :: int where
  "usec_per_day = 86400 * 1000000"

text \<open>The write stamp of a cache file name (util.py:23-30): the name ends in
  \<open>.parquet\<close>, \<open>rsplit('.', 2)\<close> gives at least three fields and \<open>int()\<close>
  accepts the second-to-last.\<close>

definition cache_stamp :: "string \<Rightarrow> int option" where
  "cache_stamp n =
     (if \<not> py_endswith n ''.parquet'' then None
      else let parts = py_rsplit CHR ''.'' 2 n in
        if 3 \<le> length parts then py_int (parts ! (length parts - 2)) else None)"

text \<open>
  \<open>datetime.fromtimestamp(ts)\<close>: outside the C \<open>time_t\<close> range it raises
  \<open>OverflowError\<close>, which the janitor does not catch; outside the years 1..9999 it
  raises \<open>ValueError\<close> or \<open>OSError\<close>, which it catches; otherwise it is the
  instant \<open>ts\<close> seconds after the epoch.  In local time (UTC here) CPython also
  probes the instant one day earlier to detect a fold, so the whole first day
  of year 1 raises \<open>ValueError\<close> as well: the lowest accepted stamp is
  0001-01-02 00:00:00.
\<close>

datatype stamp_time = StampAt int | StampCaught | StampOverflow

definition min_datetime_ts :: int where
  "min_datetime_ts = -62135510400"  \<comment> \<open>0001-01-02 00:00:00\<close>

definition max_datetime_ts :: int where
  "max_datetime_ts = 253402300799"  \<comment> \<open>9999-12-31 23:59:59\<close>

definition py_fromtimestamp :: "int \<Rightarrow> stamp_time" where
  "py_fromtimestamp ts =
     (if ts < - (2 ^ 63) \<or> 2 ^ 63 \<le> ts then StampOverflow
      else if ts < min_datetime_ts \<or> max_datetime_ts < ts then StampCaught
      else StampAt (ts * 1000000))"

text \<open>The loop of util.py:22-37 over the listed names, against the threshold
  \<open>thr\<close>.  \<open>os.remove\<close> raises only \<open>OSError\<close>, which is caught.\<close>

fun janitor_loop :: "path \<Rightarrow> int \<Rightarrow> string list \<Rightarrow> (unit, 'r fs) io" where
  "janitor_loop folder thr [] fs = (Inr (), fs)"
| "janitor_loop folder thr (n # ns) fs =
     (case cache_stamp n of
        None \<Rightarrow> janitor_loop folder thr ns fs
      | Some ts \<Rightarrow>
          (case py_fromtimestamp ts of
             StampOverflow \<Rightarrow> (Inl OverflowError, fs)
           | StampCaught \<Rightarrow> janitor_loop folder thr ns fs
           | StampAt t \<Rightarrow>
               if t < thr then janitor_loop folder thr ns (snd (os_remove (folder @ [n]) fs))
               else janitor_loop folder thr ns fs))"

text \<open>\<open>remove_old_cache(folder, days)\<close> at the instant \<open>now\<close>.\<close>

definition remove_old_cache :: "path \<Rightarrow> nat \<Rightarrow> int \<Rightarrow> (unit, 'r fs) io" where
  "remove_old_cache folder days now fs =
     (if \<not> path_exists fs folder then (Inr (), fs)
      else io_bind (listdir folder) (janitor_loop folder (now - int days * usec_per_day)) fs)"

declare usec_per_day_def [eval_simps] cache_stamp_def [eval_simps] min_datetime_ts_def [eval_simps]
  max_datetime_ts_def [eval_simps] py_fromtimestamp_def [eval_simps] remove_old_cache_def [eval_simps]

subsection \<open>What the janitor removes\<close>

definition stamp_overflows :: "string \<Rightarrow> bool" where
  "stamp_overflows n \<longleftrightarrow> (case cache_stamp n of Some ts \<Rightarrow> py_fromtimestamp ts = StampOverflow | None \<Rightarrow> False)"

definition stamp_expired :: "int \<Rightarrow> string \<Rightarrow> bool" where
  "stamp_expired thr n \<longleftrightarrow>
     (case cache_stamp n of
        Some ts \<Rightarrow> (case py_fromtimestamp ts of StampAt t \<Rightarrow> t < thr | _ \<Rightarrow> False)
      | None \<Rightarrow> False)"

text \<open>The entries of \<open>fs\<close> that sweeping the names \<open>ns\<close> of \<open>folder\<close> removes:
  files (not directories) of the folder with an expired stamp.\<close>

definition swept :: "path \<Rightarrow> int \<Rightarrow> string list \<Rightarrow> path \<times> 'r node \<Rightarrow> bool" where
  "swept folder thr ns e \<longleftrightarrow>
     snd e \<noteq> Dir \<and> fst e \<noteq> [] \<and> butlast (fst e) = folder \<and> last (fst e) \<in> set ns
     \<and> stamp_expired thr (last (fst e))"

definition sweep :: "path \<Rightarrow> int \<Rightarrow> string list \<Rightarrow> 'r fs \<Rightarrow> 'r fs" where
  "sweep folder thr ns fs = filter (\<lambda>e. \<not> swept folder thr ns e) fs"

lemma sweep_Nil [simp]: "sweep folder thr [] fs = fs"
  by (simp add: sweep_def swept_def)

lemma sweep_not_expired:
  "\<not> stamp_expired thr n \<Longrightarrow> sweep folder thr (n # ns) fs = sweep folder thr ns fs"
  by (auto simp: sweep_def swept_def intro: filter_cong)

lemma sweep_expired:
  "stamp_expired thr n \<Longrightarrow>
   sweep folder thr (n # ns) fs =
     sweep folder thr ns (filter (\<lambda>e. \<not> (fst e = folder @ [n] \<and> snd e \<noteq> Dir)) fs)"
  by (auto simp: sweep_def swept_def intro: filter_cong)

text \<open>On a file system with distinct keys, a removal that may fail is a filter.\<close>

lemma os_remove_filter:
  assumes "distinct (map fst fs)" and "p \<noteq> []"
  shows "snd (os_remove p fs) = filter (\<lambda>e. \<not> (fst e = p \<and> snd e \<noteq> Dir)) fs"
proof (cases "path_exists fs p \<and> \<not> is_dir fs p")
  case True
  then obtain v where v: "map_of fs p = Some v" and nd: "v \<noteq> Dir"
    by (auto simp: path_exists_def is_dir_def)
  have "\<forall>e\<in>set fs. fst e = p \<longrightarrow> snd e \<noteq> Dir"
  proof
    fix e assume "e \<in> set fs"
    with assms(1) have "fst e = p \<longrightarrow> map_of fs p = Some (snd e)"
      by (cases e) (auto intro: map_of_is_SomeI)
    with v nd show "fst e = p \<longrightarrow> snd e \<noteq> Dir" by auto
  qed
  then have "AList.delete p fs = filter (\<lambda>e. \<not> (fst e = p \<and> snd e \<noteq> Dir)) fs"
    unfolding AList.delete_eq by (intro filter_cong) auto
  with True show ?thesis by (simp add: os_remove_def)
next
  case False
  then have "\<forall>e\<in>set fs. fst e = p \<longrightarrow> snd e = Dir"
    using assms
    by (auto simp: path_exists_def is_dir_def dest: map_of_is_SomeI eq_key_imp_eq_value)
  with False show ?thesis
    by (auto simp: os_remove_def intro: filter_id_conv [THEN iffD2])
qed

lemma stamp_cases:
  obtains (skip) "\<not> stamp_overflows n" "\<not> stamp_expired thr n"
      "janitor_loop folder thr (n # ns) fs = janitor_loop folder thr ns fs"
  | (overflow) "stamp_overflows n" "\<not> stamp_expired thr n"
      "janitor_loop folder thr (n # ns) fs = (Inl OverflowError, fs)"
  | (expired) "\<not> stamp_overflows n" "stamp_expired thr n"
      "janitor_loop folder thr (n # ns) fs =
         janitor_loop folder thr ns (snd (os_remove (folder @ [n]) fs))"
  by (cases "cache_stamp n"; cases "py_fromtimestamp (the (cache_stamp n))")
    (auto simp: stamp_overflows_def stamp_expired_def split: if_splits)

lemma janitor_loop_eq:
  "distinct (map fst fs) \<Longrightarrow>
   janitor_loop folder thr ns fs =
     (if list_ex stamp_overflows ns then Inl OverflowError else Inr (),
      sweep folder thr (takeWhile (\<lambda>n. \<not> stamp_overflows n) ns) fs)"
proof (induction ns arbitrary: fs)
  case Nil
  then show ?case by simp
next
  case (Cons n ns)
  show ?case
  proof (cases rule: stamp_cases [of n thr folder ns fs])
    case skip
    with Cons show ?thesis by (simp add: sweep_not_expired)
  next
    case overflow
    then show ?thesis by simp
  next
    case expired
    let ?fs1 = "filter (\<lambda>e. \<not> (fst e = folder @ [n] \<and> snd e \<noteq> Dir)) fs"
    have "snd (os_remove (folder @ [n]) fs) = ?fs1"
      using Cons.prems by (simp add: os_remove_filter)
    moreover have "distinct (map fst ?fs1)"
      using Cons.prems by (simp add: distinct_map_filter)
    ultimately show ?thesis
      using expired Cons.IH by (simp add: sweep_expired)
  qed
qed

subsection \<open>remove_old_cache: result, invariant, what it removes and keeps\<close>

abbreviation janitor_threshold :: "nat \<Rightarrow> int \<Rightarrow> int" where
  "janitor_threshold days now \<equiv> now - int days * usec_per_day"

lemma remove_old_cache_result:
  assumes "fs_wf fs"
  shows "remove_old_cache folder days now fs =
    (if \<not> path_exists fs folder then (Inr (), fs)
     else if \<not> is_dir fs folder then (Inl (OSError folder), fs)
     else (if list_ex stamp_overflows (children fs folder) then Inl OverflowError else Inr (),
           sweep folder (janitor_threshold days now)
             (takeWhile (\<lambda>n. \<not> stamp_overflows n) (children fs folder)) fs))"
  using assms
  by (simp add: remove_old_cache_def io_bind_def listdir_def janitor_loop_eq fs_wf_distinct)

lemma sweep_wf: "fs_wf fs \<Longrightarrow> fs_wf (sweep folder thr ns fs)"
  unfolding sweep_def by (rule filter_files_wf) (auto simp: swept_def)

lemma remove_old_cache_wf:
  "fs_wf fs \<Longrightarrow> fs_wf (snd (remove_old_cache folder days now fs))"
  by (simp add: remove_old_cache_result sweep_wf)

lemma child_in_children:
  "(p, v) \<in> set fs \<Longrightarrow> p \<noteq> [] \<Longrightarrow> last p \<in> set (children fs (butlast p))"
  by (force simp: children_def)

lemma wf_parent_exists:
  "fs_wf fs \<Longrightarrow> (p, v) \<in> set fs \<Longrightarrow> is_dir fs (butlast p) \<and> path_exists fs (butlast p)"
  by (force simp: fs_wf_def is_dir_def path_exists_def)

lemma remove_old_cache_no_expired:
  assumes wf: "fs_wf fs" and run: "remove_old_cache folder days now fs = (Inr (), fs')"
    and e: "(p, v) \<in> set fs'" "p \<noteq> []" "butlast p = folder" "v \<noteq> Dir"
  shows "\<not> stamp_expired (janitor_threshold days now) (last p)"
proof (cases "path_exists fs folder \<and> is_dir fs folder")
  case True
  with run wf have "\<not> list_ex stamp_overflows (children fs folder)"
    by (simp add: remove_old_cache_result split: if_splits)
  then have "takeWhile (\<lambda>n. \<not> stamp_overflows n) (children fs folder) = children fs folder"
    by (simp add: takeWhile_eq_all_conv list_ex_iff)
  with True run wf have fs': "fs' = sweep folder (janitor_threshold days now) (children fs folder) fs"
    by (simp add: remove_old_cache_result split: if_splits)
  from e fs' have "(p, v) \<in> set fs" and ns: "\<not> swept folder (janitor_threshold days now) (children fs folder) (p, v)"
    by (simp_all add: sweep_def)
  with e show ?thesis by (auto simp: swept_def dest: child_in_children)
next
  case False
  with run wf have "fs' = fs" by (auto simp: remove_old_cache_result split: if_splits)
  with e wf have "is_dir fs folder \<and> path_exists fs folder" by (auto dest: wf_parent_exists)
  with False show ?thesis by simp
qed

lemma remove_old_cache_keeps:
  assumes "fs_wf fs" and "e \<in> set fs"
    and "snd e = Dir \<or> fst e = [] \<or> butlast (fst e) \<noteq> folder
         \<or> \<not> stamp_expired (janitor_threshold days now) (last (fst e))"
  shows "e \<in> set (snd (remove_old_cache folder days now fs))"
  using assms by (auto simp: remove_old_cache_result sweep_def swept_def)

text \<open>C17: what the janitor removes.  On a well-formed tree where the folder is a
  directory whose listing holds no stamp outside the \<open>time_t\<close> range,
  \<open>remove_old_cache\<close> returns normally and afterwards a path is gone exactly
  when it is a file directly in the folder whose name carries a stamp older
  than \<open>now - days\<close>; every other path keeps its node.\<close>

theorem remove_old_cache_exact:
  assumes wf: "fs_wf fs" and d: "is_dir fs folder" and nov: "\<not> list_ex stamp_overflows (children fs folder)"
  shows "fst (remove_old_cache folder days now fs) = Inr ()
       \<and> map_of (snd (remove_old_cache folder days now fs)) q
           = (if q \<noteq> [] \<and> butlast q = folder \<and> stamp_expired (janitor_threshold days now) (last q)
                 \<and> map_of fs q \<noteq> Some Dir
              then None else map_of fs q)"
proof -
  let ?thr = "janitor_threshold days now"
  have tw: "takeWhile (\<lambda>n. \<not> stamp_overflows n) (children fs folder) = children fs folder"
    using nov by (simp add: takeWhile_eq_all_conv list_ex_iff)
  have ex: "path_exists fs folder" using d by (auto simp: is_dir_def path_exists_def)
  have r: "remove_old_cache folder days now fs = (Inr (), sweep folder ?thr (children fs folder) fs)"
    using remove_old_cache_result [OF wf, of folder days now] ex d tw nov by simp
  have "map_of (sweep folder ?thr (children fs folder) fs) q
          = (if q \<noteq> [] \<and> butlast q = folder \<and> stamp_expired ?thr (last q) \<and> map_of fs q \<noteq> Some Dir
             then None else map_of fs q)"
  proof (cases "map_of fs q")
    case None
    then show ?thesis by (simp add: sweep_def map_of_filter_distinct [OF fs_wf_distinct [OF wf]])
  next
    case (Some v)
    then have "q \<noteq> [] \<Longrightarrow> last q \<in> set (children fs (butlast q))"
      by (auto intro: child_in_children dest: map_of_SomeD)
    with Some show ?thesis
      by (auto simp: sweep_def swept_def map_of_filter_distinct [OF fs_wf_distinct [OF wf]])
  qed
  with r show ?thesis by simp
qed

text \<open>C18: an overflowing stamp stops the janitor midway.  When the first
  name of the listing whose stamp \<open>datetime.fromtimestamp\<close> cannot represent
  is at position \<open>k\<close>, \<open>remove_old_cache\<close> raises \<open>OverflowError\<close>, and the
  removals of the names before \<open>k\<close> stay done while no name after \<open>k\<close> is
  looked at.\<close>

theorem remove_old_cache_stops_at_overflow:
  assumes wf: "fs_wf fs" and d: "is_dir fs folder"
    and k: "k < length (children fs folder)" and ov: "stamp_overflows (children fs folder ! k)"
    and before: "\<forall>j<k. \<not> stamp_overflows (children fs folder ! j)"
  shows "remove_old_cache folder days now fs
           = (Inl OverflowError, sweep folder (janitor_threshold days now) (take k (children fs folder)) fs)"
proof -
  have tw: "takeWhile (\<lambda>n. \<not> stamp_overflows n) (children fs folder) = take k (children fs folder)"
    using before k ov by (intro takeWhile_eq_take_P_nth) auto
  have "list_ex stamp_overflows (children fs folder)"
    using k ov by (auto simp: list_ex_iff intro: nth_mem)
  moreover have "path_exists fs folder" using d by (auto simp: is_dir_def path_exists_def)
  ultimately show ?thesis using remove_old_cache_result [OF wf, of folder days now] d tw by simp
qed

end
