(* ===== verification/Kline_Loader.thy ===== *)
theory Kline_Loader
  imports Janitor
begin

text \<open>
  \<open>load_kline\<close> (src/util.py:236-391): validate the arguments, sweep the cache
  directory \<open>aggTrades_kline/_cache\<close>, serve every requested symbol from its
  newest cache entry if every symbol has one, and otherwise load every symbol
  from its source files \<open>{symbol}/{symbol}_kline_{tf}_*.parquet\<close>, write each
  loaded symbol back into the cache, and return the union sorted by
  \<open>(symbol, time)\<close>.  A kline row carries the columns the code and the annotator
  read; the instant \<open>now\<close> is microseconds since the epoch.
\<close>

record kline_row =
  symbol :: string
  time :: int
  Open :: real
  High :: real
  Low :: real
  Close :: real
  qty :: real

type_synonym ktable = "kline_row table"
type_synonym kfs = "kline_row fs"

definition valid_timeframes :: "string list" where
  "valid_timeframes = [''1m'', ''3m'', ''5m'', ''15m'', ''30m'', ''1h'', ''4h'', ''8h'', ''12h'', ''1d'']"

text \<open>util.py:273-276 (and 411-414).\<close>

definition kline_dir :: "path \<Rightarrow> string \<Rightarrow> string \<Rightarrow> string \<Rightarrow> path" where
  "kline_dir base source market market_sub =
     (if market = ''spot'' then base @ [source, market, ''aggTrades_kline'']
      else base @ [source, market, market_sub, ''aggTrades_kline''])"

definition cache_dir :: "path \<Rightarrow> path" where
  "cache_dir dir = dir @ [''_cache'']"

text \<open>\<open>'_'.join(map(str, years_for_cache))\<close> (util.py:290, 298); a year is
  modelled by its \<open>str()\<close> image.\<close>

definition cache_key_years :: "string list option \<Rightarrow> string" where
  "cache_key_years years = py_join ''_'' (case years of None \<Rightarrow> [''all''] | Some ys \<Rightarrow> ys)"

definition cache_pattern :: "string \<Rightarrow> string \<Rightarrow> string \<Rightarrow> string" where
  "cache_pattern sy tf ykey = sy @ ''_'' @ tf @ ''-'' @ ykey @ ''.*.parquet''"

definition cache_file_name :: "string \<Rightarrow> string \<Rightarrow> string \<Rightarrow> int \<Rightarrow> string" where
  "cache_file_name sy tf ykey ts = sy @ ''_'' @ tf @ ''-'' @ ykey @ ''.'' @ py_str_int ts @ ''.parquet''"

definition kline_pattern :: "string \<Rightarrow> string \<Rightarrow> string" where
  "kline_pattern sy tf = sy @ ''_kline_'' @ tf @ ''_*.parquet''"

text \<open>\<open>int(datetime.now().timestamp())\<close>: truncation towards zero.\<close>

definition unix_seconds :: "int \<Rightarrow> int" where
  "unix_seconds now = (if 0 \<le> now then now div 1000000 else - ((- now) div 1000000))"

text \<open>The year filter of util.py:339-347.\<close>

definition year_match :: "string list \<Rightarrow> string \<Rightarrow> bool" where
  "year_match ys fname \<longleftrightarrow>
     (\<exists>y\<in>set ys. py_in (''_'' @ y @ ''.'') fname \<or> py_in (''_'' @ y @ ''-'') fname)"

definition filter_years :: "string list option \<Rightarrow> path list \<Rightarrow> path list" where
  "filter_years years files =
     (case years of None \<Rightarrow> files | Some ys \<Rightarrow> filter (\<lambda>f. year_match ys (last f)) files)"

text \<open>\<open>df.sort_values(['symbol', 'time']).reset_index(drop=True)\<close>: pandas sorts
  on several keys with a stable lexicographic sort.\<close>

definition sort_klines :: "ktable \<Rightarrow> ktable" where
  "sort_klines t = t\<lparr>rows := sort_key (\<lambda>r. (symbol r, time r)) (rows t)\<rparr>"

subsection \<open>The cache lookup (util.py:293-318)\<close>

text \<open>\<open>Some tables\<close>: every symbol had an entry (\<open>all_cached\<close>); \<open>None\<close>: the
  loop broke at the first symbol without one.  A failing read escapes.\<close>

fun cache_lookup :: "path \<Rightarrow> string \<Rightarrow> string \<Rightarrow> string list \<Rightarrow> (ktable list option, kfs) io" where
  "cache_lookup cdir tf ykey [] fs = (Inr (Some []), fs)"
| "cache_lookup cdir tf ykey (sy # sys) fs =
     (let files = glob fs cdir (cache_pattern sy tf ykey) in
      if files = [] then (Inr None, fs)
      else io_bind (read_parquet (hd (sort_paths_desc files)))
             (\<lambda>t. io_bind (cache_lookup cdir tf ykey sys)
                    (\<lambda>r. io_return (map_option (Cons t) r))) fs)"

subsection \<open>Loading one symbol from its source files (util.py:324-373)\<close>

fun read_all :: "path list \<Rightarrow> ('r table list, 'r fs) io" where
  "read_all [] fs = (Inr [], fs)"
| "read_all (p # ps) fs =
     io_bind (read_parquet p) (\<lambda>t. io_bind (read_all ps) (\<lambda>ts. io_return (t # ts))) fs"

text \<open>util.py:325-366: \<open>None\<close> is a symbol skipped with a warning.\<close>

definition read_symbol_source :: "path \<Rightarrow> string \<Rightarrow> string list option \<Rightarrow> string \<Rightarrow> (ktable option, kfs) io" where
  "read_symbol_source dir tf years sy fs =
     (let sdir = dir @ [sy] in
      if \<not> path_exists fs sdir then (Inr None, fs)
      else let files = glob fs sdir (kline_pattern sy tf) in
        if files = [] then (Inr None, fs)
        else let files' = filter_years years files in
          if files' = [] then (Inr None, fs)
          else io_bind (read_all (sort_paths files'))
                 (\<lambda>dfs. io_return (if dfs = [] then None else Some (combine dfs))) fs)"

text \<open>util.py:368-373: the loaded frame is written to the cache under the write
  stamp \<open>ts\<close>.\<close>

definition load_symbol ::
  "path \<Rightarrow> string \<Rightarrow> string list option \<Rightarrow> string \<Rightarrow> int \<Rightarrow> string \<Rightarrow> (ktable option, kfs) io" where
  "load_symbol dir tf years ykey ts sy =
     io_bind (read_symbol_source dir tf years sy)
       (\<lambda>r. case r of
              None \<Rightarrow> io_return None
            | Some t \<Rightarrow>
                io_bind (to_parquet (cache_dir dir @ [cache_file_name sy tf ykey ts]) t)
                  (\<lambda>_. io_return (Some t)))"

fun load_symbols ::
  "path \<Rightarrow> string \<Rightarrow> string list option \<Rightarrow> string \<Rightarrow> int \<Rightarrow> string list \<Rightarrow> (ktable list, kfs) io" where
  "load_symbols dir tf years ykey ts [] fs = (Inr [], fs)"
| "load_symbols dir tf years ykey ts (sy # sys) fs =
     io_bind (load_symbol dir tf years ykey ts sy)
       (\<lambda>r. io_bind (load_symbols dir tf years ykey ts sys)
              (\<lambda>dfs. io_return (case r of None \<Rightarrow> dfs | Some t \<Rightarrow> t # dfs))) fs"

text \<open>util.py:321-391: the whole reload runs under \<open>try ... except Exception\<close>,
  so even the \<open>FileNotFoundError\<close> of an empty result leaves as a
  \<open>RuntimeError\<close>.\<close>

definition kline_reload ::
  "path \<Rightarrow> string \<Rightarrow> string list option \<Rightarrow> string \<Rightarrow> int \<Rightarrow> string list \<Rightarrow> (ktable, kfs) io" where
  "kline_reload dir tf years ykey ts sys =
     io_wrap ''Error loading kline files''
       (io_bind (load_symbols dir tf years ykey ts sys)
          (\<lambda>dfs. if dfs = [] then io_raise (FileNotFoundError NoDataForSymbols)
                 else io_return (sort_klines (combine dfs))))"

subsection \<open>load_kline\<close>

definition load_kline ::
  "path \<Rightarrow> string \<Rightarrow> string \<Rightarrow> string \<Rightarrow> string \<Rightarrow> string list option \<Rightarrow> string list option \<Rightarrow> int
   \<Rightarrow> (ktable, kfs) io" where
  "load_kline base source market market_sub timeframe years symbols now fs =
     (if timeframe \<notin> set valid_timeframes then (Inl (ValueError (InvalidTimeframe timeframe)), fs)
      else case symbols of
        None \<Rightarrow> (Inl (ValueError SymbolsRequired), fs)
      | Some sys \<Rightarrow>
        if sys = [] then (Inl (ValueError SymbolsRequired), fs)
        else let dir = kline_dir base source market market_sub in
        if \<not> path_exists fs dir then (Inl (FileNotFoundError (DirectoryNotFound dir)), fs)
        else let cdir = cache_dir dir in
          io_bind (if path_exists fs cdir then io_return () else makedirs cdir)
            (\<lambda>_. io_bind (remove_old_cache cdir 1 now)
              (\<lambda>_. let ykey = cache_key_years years; ts = unix_seconds now in
                 io_bind (cache_lookup cdir timeframe ykey sys)
                   (\<lambda>c. case c of
                          Some dfs \<Rightarrow> io_return (sort_klines (combine dfs))
                        | None \<Rightarrow> kline_reload dir timeframe years ykey ts sys))) fs)"

declare valid_timeframes_def [eval_simps] kline_dir_def [eval_simps] cache_dir_def [eval_simps]
  cache_key_years_def [eval_simps] cache_pattern_def [eval_simps] cache_file_name_def [eval_simps]
  kline_pattern_def [eval_simps] unix_seconds_def [eval_simps] year_match_def [eval_simps]
  filter_years_def [eval_simps] sort_klines_def [eval_simps] read_symbol_source_def [eval_simps]
  load_symbol_def [eval_simps] kline_reload_def [eval_simps] load_kline_def [eval_simps]

subsection \<open>The output is sorted; argument errors come first\<close>

lemma sort_klines_sorted: "sorted (map (\<lambda>r. (symbol r, time r)) (rows (sort_klines t)))"
  by (simp add: sort_klines_def sorted_sort_key)

lemma mset_sort_klines: "mset (rows (sort_klines t)) = mset (rows t)"
  by (simp add: sort_klines_def mset_sort)

lemma kline_reload_Inr: "fst (kline_reload dir tf years ykey ts sys fs) = Inr t \<Longrightarrow> \<exists>u. t = sort_klines u"
  unfolding kline_reload_def
  by (drule io_wrap_fst_Inr, drule io_bind_fst_Inr) (auto split: if_splits)

lemma load_kline_Inr_sorted:
  assumes "fst (load_kline base source market market_sub tf years symbols now fs) = Inr t"
  shows "\<exists>u. t = sort_klines u"
  using assms unfolding load_kline_def Let_def
  by (auto split: if_splits option.splits dest!: io_bind_fst_Inr kline_reload_Inr)

text \<open>C9: every table \<open>load_kline\<close> returns, from the cache or from the sources,
  has its rows sorted by \<open>(symbol, time)\<close> ascending.\<close>

theorem load_kline_sorted:
  assumes "fst (load_kline base source market market_sub tf years symbols now fs) = Inr t"
  shows "sorted (map (\<lambda>r. (symbol r, time r)) (rows t))"
  using load_kline_Inr_sorted [OF assms] sort_klines_sorted by auto

text \<open>C11: a timeframe outside the enumerated set raises \<open>ValueError\<close> before
  any file-system access: the state is returned unchanged.\<close>

lemma load_kline_invalid_timeframe:
  "tf \<notin> set valid_timeframes \<Longrightarrow>
   load_kline base source market market_sub tf years symbols now fs
     = (Inl (ValueError (InvalidTimeframe tf)), fs)"
  by (simp add: load_kline_def)

text \<open>C12: with a valid timeframe, a missing or empty symbol list raises
  \<open>ValueError\<close> before any file-system access.\<close>

lemma load_kline_symbols_required:
  "tf \<in> set valid_timeframes \<Longrightarrow> symbols = None \<or> symbols = Some [] \<Longrightarrow>
   load_kline base source market market_sub tf years symbols now fs = (Inl (ValueError SymbolsRequired), fs)"
  by (auto simp: load_kline_def)

subsection \<open>Cache file names\<close>

text \<open>The keys for which the cache naming is exact: a symbol without dots,
  slashes or wildcards that is not the cache directory's own name, and years
  given as decimal digits (the \<open>str()\<close> of non-negative \<open>int\<close>s).\<close>

definition symbol_ok :: "string \<Rightarrow> bool" where
  "symbol_ok s \<longleftrightarrow> s \<noteq> [] \<and> CHR ''.'' \<notin> set s \<and> CHR ''/'' \<notin> set s \<and> no_wild s \<and> s \<noteq> ''_cache''"

definition years_ok :: "string list option \<Rightarrow> bool" where
  "years_ok years \<longleftrightarrow>
     (case years of None \<Rightarrow> True | Some ys \<Rightarrow> \<forall>y\<in>set ys. y \<noteq> [] \<and> (\<forall>c\<in>set y. is_digit c))"

definition key_field_ok :: "string \<Rightarrow> bool" where
  "key_field_ok k \<longleftrightarrow> CHR ''.'' \<notin> set k \<and> CHR ''-'' \<notin> set k \<and> no_wild k"

lemma set_py_join: "set (py_join sep ws) \<subseteq> set sep \<union> \<Union> (set ` set ws)"
  by (induction sep ws rule: py_join.induct) auto

lemma timeframe_chars:
  "tf \<in> set valid_timeframes \<Longrightarrow>
   key_field_ok tf \<and> CHR ''_'' \<notin> set tf \<and> CHR ''.'' \<notin> set tf"
  by (auto simp: valid_timeframes_def key_field_ok_def)

lemma key_field_ok_iff: "key_field_ok k \<longleftrightarrow> (\<forall>c\<in>set k. c \<notin> set ''.-*?['')"
  unfolding key_field_ok_def no_wild_def by auto

lemma py_join_chars:
  "\<forall>c\<in>set sep. P c \<Longrightarrow> \<forall>w\<in>set ws. \<forall>c\<in>set w. P c \<Longrightarrow> \<forall>c\<in>set (py_join sep ws). P c"
  by (induction sep ws rule: py_join.induct) auto

lemma years_key_chars:
  assumes "years_ok years"
  shows "key_field_ok (cache_key_years years)"
proof -
  let ?P = "\<lambda>c. c \<notin> set ''.-*?[''"
  let ?ws = "case years of None \<Rightarrow> [''all''] | Some ys \<Rightarrow> ys"
  have ws: "\<forall>w\<in>set ?ws. \<forall>c\<in>set w. ?P c"
  proof (cases years)
    case (Some ys)
    have "?P c" if "is_digit c" for c
      using is_digit_not_punct [OF that] by auto
    with assms Some show ?thesis by (simp add: years_ok_def)
  qed simp
  have "?P CHR ''_''" by simp
  then have "\<forall>c\<in>set (py_join ''_'' ?ws). ?P c"
    using ws by (intro py_join_chars) simp_all
  then show ?thesis by (simp only: key_field_ok_iff cache_key_years_def)
qed

lemma py_str_int_no_dot: "CHR ''.'' \<notin> set (py_str_int n)"
proof -
  have "CHR ''.'' \<notin> set (show_nat m)" for m
    using show_nat_digits [of "CHR ''.''" m] is_digit_not_punct [of "CHR ''.''"] by auto
  then show ?thesis by (simp add: py_str_int_def)
qed

text \<open>A name the loader writes for one key matches the lookup pattern of another
  key only if the keys are equal, and always matches its own.\<close>

lemma cancel_common_suffix:
  "(\<exists>x. u @ c # v @ sfx = u' @ c # x @ sfx) \<longleftrightarrow> (\<exists>x. u @ c # v = u' @ c # x)"
proof
  assume "\<exists>x. u @ c # v @ sfx = u' @ c # x @ sfx"
  then obtain x where "(u @ c # v) @ sfx = (u' @ c # x) @ sfx" by auto
  then have "u @ c # v = u' @ c # x" by (simp only: append_same_eq)
  then show "\<exists>x. u @ c # v = u' @ c # x" by blast
next
  assume "\<exists>x. u @ c # v = u' @ c # x"
  then obtain x where "u @ c # v = u' @ c # x" by blast
  then have "u @ c # v @ sfx = u' @ c # x @ sfx" by (metis append.assoc append_Cons)
  then show "\<exists>x. u @ c # v @ sfx = u' @ c # x @ sfx" by blast
qed

lemma cache_name_matches:
  assumes s: "symbol_ok s" "symbol_ok s'"
    and tf: "tf \<in> set valid_timeframes" "tf' \<in> set valid_timeframes"
    and yk: "key_field_ok yk" "key_field_ok yk'"
  shows "fnmatch (cache_pattern s' tf' yk') (cache_file_name s tf yk ts) \<longleftrightarrow> s' = s \<and> tf' = tf \<and> yk' = yk"
proof -
  define a where "a = s @ ''_'' @ tf @ ''-'' @ yk"
  define a' where "a' = s' @ ''_'' @ tf' @ ''-'' @ yk'"
  have nw: "no_wild (a' @ ''.'')"
    using s tf yk timeframe_chars [OF tf(2)] by (simp add: a'_def symbol_ok_def key_field_ok_def)
  have pat: "cache_pattern s' tf' yk' = (a' @ ''.'') @ CHR ''*'' # ''.parquet''"
    by (simp add: cache_pattern_def a'_def)
  have name: "cache_file_name s tf yk ts = a @ CHR ''.'' # py_str_int ts @ ''.parquet''"
    by (simp add: cache_file_name_def a_def)
  have dots: "CHR ''.'' \<notin> set a" "CHR ''.'' \<notin> set a'"
    using s tf yk timeframe_chars [OF tf(1)] timeframe_chars [OF tf(2)]
    by (simp_all add: a_def a'_def symbol_ok_def key_field_ok_def)
  have "fnmatch (cache_pattern s' tf' yk') (cache_file_name s tf yk ts) \<longleftrightarrow>
        (\<exists>x. a @ CHR ''.'' # py_str_int ts @ ''.parquet'' = (a' @ ''.'') @ x @ ''.parquet'')"
    unfolding pat name by (rule fnmatch_prefix_star_suffix [OF nw]) simp
  also have "\<dots> \<longleftrightarrow> (\<exists>x. a @ CHR ''.'' # py_str_int ts = a' @ CHR ''.'' # x)"
    using cancel_common_suffix [of a "CHR ''.''" "py_str_int ts" "''.parquet''" a'] by simp
  also have "\<dots> \<longleftrightarrow> a = a'"
    using dots split_first_sep [of "CHR ''.''" a a'] by blast
  also have "\<dots> \<longleftrightarrow> s' = s \<and> tf' = tf \<and> yk' = yk"
  proof
    assume eq: "a = a'"
    have "CHR ''-'' \<notin> set yk" "CHR ''-'' \<notin> set yk'" using yk by (simp_all add: key_field_ok_def)
    with eq have 1: "s @ ''_'' @ tf = s' @ ''_'' @ tf'" and "yk = yk'"
      using split_last_sep [of "CHR ''-''" yk yk' "s @ ''_'' @ tf" "s' @ ''_'' @ tf'"]
      by (simp_all add: a_def a'_def)
    have "CHR ''_'' \<notin> set tf" "CHR ''_'' \<notin> set tf'" using tf by (simp_all add: timeframe_chars)
    with 1 have "s = s'" "tf = tf'"
      using split_last_sep [of "CHR ''_''" tf tf' s s'] by simp_all
    with \<open>yk = yk'\<close> show "s' = s \<and> tf' = tf \<and> yk' = yk" by simp
  qed (simp add: a_def a'_def)
  finally show ?thesis .
qed

text \<open>The janitor reads back the stamp the loader wrote.\<close>

lemma cache_stamp_cache_file_name:
  assumes "\<bar>ts\<bar> < 10 ^ int_max_str_digits"
  shows "cache_stamp (cache_file_name s tf yk ts) = Some ts"
proof -
  have name: "cache_file_name s tf yk ts = (s @ ''_'' @ tf @ ''-'' @ yk) @ CHR ''.'' # py_str_int ts @ CHR ''.'' # ''parquet''"
    by (simp add: cache_file_name_def)
  have "py_rsplit CHR ''.'' 2 (cache_file_name s tf yk ts) = [s @ ''_'' @ tf @ ''-'' @ yk, py_str_int ts, ''parquet'']"
    unfolding name by (rule py_rsplit_two_fields) (simp_all add: py_str_int_no_dot)
  moreover have "py_endswith (cache_file_name s tf yk ts) ''.parquet''"
    unfolding cache_file_name_def suffix_def
    by (rule exI [where x = "s @ ''_'' @ tf @ ''-'' @ yk @ ''.'' @ py_str_int ts"]) simp
  ultimately show ?thesis
    using assms by (simp add: cache_stamp_def py_int_py_str_int)
qed

lemma years_ok_key_inj:
  assumes "years_ok y1" "years_ok y2" "cache_key_years y1 = cache_key_years y2"
  shows "y1 = y2"
proof -
  have nus: "\<forall>w\<in>set ws. CHR ''_'' \<notin> set w" if "years_ok (Some ws)" for ws
    using that by (fastforce simp: years_ok_def)
  have split_back: "py_split CHR ''_'' (cache_key_years y) = (case y of None \<Rightarrow> [''all''] | Some ws \<Rightarrow> ws)"
    if "years_ok y" "y \<noteq> Some []" for y
  proof (cases y)
    case None
    then show ?thesis by (simp add: cache_key_years_def py_split_def)
  next
    case (Some ws)
    with that nus show ?thesis by (simp add: cache_key_years_def py_split_join)
  qed
  have all: "cache_key_years (Some ws) \<noteq> ''all''" if "years_ok (Some ws)" for ws
  proof
    assume "cache_key_years (Some ws) = ''all''"
    then have "CHR ''a'' \<in> set (py_join ''_'' ws)" by (simp add: cache_key_years_def)
    with that set_py_join [of "''_''" ws] show False
      by (fastforce simp: years_ok_def)
  qed
  have join_ne: "py_join sep ws \<noteq> []" if "ws \<noteq> []" "\<forall>w\<in>set ws. w \<noteq> []" for sep ws
    using that by (induction sep ws rule: py_join.induct) auto
  have empty: "cache_key_years y = [] \<longleftrightarrow> y = Some []" if "years_ok y" for y
  proof (cases y)
    case (Some ws)
    with that join_ne [of ws "''_''"] show ?thesis
      by (auto simp: cache_key_years_def years_ok_def)
  qed (simp add: cache_key_years_def)
  show ?thesis
  proof (cases "y1 = Some [] \<or> y2 = Some []")
    case True
    with assms empty show ?thesis by metis
  next
    case False
    with assms split_back [of y1] split_back [of y2] all show ?thesis
      by (cases y1; cases y2) (auto simp: cache_key_years_def)
  qed
qed

text \<open>C20: cache file names round-trip.  For a plain symbol, a valid timeframe,
  digit-string years and a stamp \<open>int()\<close> accepts, the janitor reads back the
  stamp of the name the loader writes, and the lookup pattern of a key matches
  that name exactly when the key is the one it was written for.\<close>

theorem cache_file_name_roundtrip:
  assumes s: "symbol_ok s" and tf: "tf \<in> set valid_timeframes" and y: "years_ok years"
    and ts: "\<bar>ts\<bar> < 10 ^ int_max_str_digits"
    and s': "symbol_ok s'" and tf': "tf' \<in> set valid_timeframes" and y': "years_ok years'"
  shows "cache_stamp (cache_file_name s tf (cache_key_years years) ts) = Some ts
       \<and> (fnmatch (cache_pattern s' tf' (cache_key_years years')) (cache_file_name s tf (cache_key_years years) ts)
            \<longleftrightarrow> s' = s \<and> tf' = tf \<and> years' = years)"
proof -
  have "fnmatch (cache_pattern s' tf' (cache_key_years years')) (cache_file_name s tf (cache_key_years years) ts)
          \<longleftrightarrow> s' = s \<and> tf' = tf \<and> cache_key_years years' = cache_key_years years"
    by (rule cache_name_matches [OF s s' tf tf' years_key_chars [OF y] years_key_chars [OF y']])
  also have "\<dots> \<longleftrightarrow> s' = s \<and> tf' = tf \<and> years' = years"
    using years_ok_key_inj [OF y' y] by auto
  finally show ?thesis using cache_stamp_cache_file_name [OF ts] by simp
qed

end
