(* ===== verification/Kline_Cache.thy ===== *)
theory Kline_Cache
  imports Kline_Loader
begin

text \<open>
  What the cache of \<open>load_kline\<close> promises and why it keeps the promise.  The
  contract \<open>kline_spec\<close> is the loader without a cache: the same argument
  checks, then every requested symbol loaded from its source files.  The cache
  invariant \<open>cache_inv\<close> says that every file in \<open>_cache\<close> that the lookup of
  a key can find holds what loading that key from the sources gives.  Under it
  \<open>load_kline\<close> returns exactly the contract's value, keeps the invariant, and
  changes nothing outside the cache directory.
\<close>

subsection \<open>The contract and the cache invariant\<close>

text \<open>Two file systems have the same sources under \<open>dir\<close> when \<open>dir\<close> itself and
  every symbol directory other than the cache look the same.\<close>

definition same_sources :: "path \<Rightarrow> kfs \<Rightarrow> kfs \<Rightarrow> bool" where
  "same_sources dir fs fs' \<longleftrightarrow>
     map_of fs dir = map_of fs' dir
     \<and> (\<forall>s. s \<noteq> ''_cache'' \<longrightarrow> dir_view fs (dir @ [s]) = dir_view fs' (dir @ [s]))"

text \<open>The sources loaded symbol by symbol, as the reload loop does, with no
  cache write: the first failing read is the result.\<close>

fun source_tables :: "path \<Rightarrow> string \<Rightarrow> string list option \<Rightarrow> string list \<Rightarrow> kfs \<Rightarrow> py_error + ktable list" where
  "source_tables dir tf years [] fs = Inr []"
| "source_tables dir tf years (s # ss) fs =
     (case fst (read_symbol_source dir tf years s fs) of
        Inl e \<Rightarrow> Inl e
      | Inr r \<Rightarrow> (case source_tables dir tf years ss fs of
                  Inl e \<Rightarrow> Inl e
                | Inr ts \<Rightarrow> Inr (case r of None \<Rightarrow> ts | Some t \<Rightarrow> t # ts)))"

text \<open>What \<open>load_kline\<close> promises: the argument checks, then the sorted union of
  what the sources hold.  The exceptions of the reload are wrapped as the code
  wraps them.\<close>

definition kline_spec ::
  "path \<Rightarrow> string \<Rightarrow> string \<Rightarrow> string \<Rightarrow> string \<Rightarrow> string list option \<Rightarrow> string list option \<Rightarrow> kfs
   \<Rightarrow> py_error + ktable" where
  "kline_spec base source market market_sub tf years symbols fs =
     (if tf \<notin> set valid_timeframes then Inl (ValueError (InvalidTimeframe tf))
      else case symbols of
        None \<Rightarrow> Inl (ValueError SymbolsRequired)
      | Some sys \<Rightarrow>
        if sys = [] then Inl (ValueError SymbolsRequired)
        else let dir = kline_dir base source market market_sub in
        if \<not> path_exists fs dir then Inl (FileNotFoundError (DirectoryNotFound dir))
        else case source_tables dir tf years sys fs of
          Inl e \<Rightarrow> Inl (RuntimeError ''Error loading kline files'' e)
        | Inr dfs \<Rightarrow>
            if dfs = [] then Inl (RuntimeError ''Error loading kline files'' (FileNotFoundError NoDataForSymbols))
            else Inr (sort_klines (combine dfs)))"

text \<open>An entry \<open>n\<close> of the cache directory of \<open>dir\<close> is sound with respect to
  the sources of \<open>fs0\<close> when it is a file whose stamp the janitor reads without
  overflow, and a parquet file holding, for every well-formed key whose lookup
  pattern matches \<open>n\<close>, what the sources give for that key.\<close>

definition cache_entry_ok :: "path \<Rightarrow> kfs \<Rightarrow> string \<Rightarrow> kline_row node \<Rightarrow> bool" where
  "cache_entry_ok dir fs0 n v \<longleftrightarrow>
     v \<noteq> Dir \<and> \<not> stamp_overflows n \<and>
     (\<forall>s tf years. symbol_ok s \<and> tf \<in> set valid_timeframes \<and> years_ok years
        \<and> fnmatch (cache_pattern s tf (cache_key_years years)) n \<longrightarrow>
        (\<exists>t. v = Parquet t \<and> fst (read_symbol_source dir tf years s fs0) = Inr (Some t)))"

definition cache_ok :: "path \<Rightarrow> kfs \<Rightarrow> kfs \<Rightarrow> bool" where
  "cache_ok dir fs0 fs \<longleftrightarrow>
     (\<forall>n v. map_of fs (cache_dir dir @ [n]) = Some v \<longrightarrow> cache_entry_ok dir fs0 n v)"

definition cache_inv :: "path \<Rightarrow> kfs \<Rightarrow> bool" where
  "cache_inv dir fs \<longleftrightarrow>
     fs_wf fs \<and> (path_exists fs dir \<longrightarrow> is_dir fs dir)
     \<and> (path_exists fs (cache_dir dir) \<longrightarrow> is_dir fs (cache_dir dir)) \<and> cache_ok dir fs fs"

text \<open>The clock reads an instant whose stamp \<open>datetime.fromtimestamp\<close> accepts.\<close>

text \<open>The state between the steps of \<open>load_kline\<close> once the cache directory is
  there: well-formed, the sources those of \<open>fs0\<close>, every cache entry sound, and
  every path other than the cache directory and its entries as in \<open>fs0\<close>.\<close>

definition cache_frame :: "path \<Rightarrow> kfs \<Rightarrow> kfs \<Rightarrow> bool" where
  "cache_frame dir fs0 fs \<longleftrightarrow>
     (\<forall>p. p \<noteq> cache_dir dir \<longrightarrow> butlast p \<noteq> cache_dir dir \<longrightarrow> map_of fs p = map_of fs0 p)"

definition cache_ready :: "path \<Rightarrow> kfs \<Rightarrow> kfs \<Rightarrow> bool" where
  "cache_ready dir fs0 fs \<longleftrightarrow>
     fs_wf fs \<and> is_dir fs (cache_dir dir) \<and> same_sources dir fs0 fs \<and> cache_ok dir fs0 fs
     \<and> cache_frame dir fs0 fs"

definition clock_ok :: "int \<Rightarrow> bool" where
  "clock_ok now \<longleftrightarrow> 0 \<le> now \<and> now < 2 ^ 63"

subsection \<open>Reading the sources depends only on the symbol's directory\<close>

lemma read_all_pure [intro!]: "io_pure (read_all ps :: ('r table list, 'r fs) io)"
proof (induction ps)
  case Nil
  show ?case by (simp add: io_pure_def)
next
  case (Cons p ps)
  have "io_pure (io_bind (read_parquet p :: ('r table, 'r fs) io)
          (\<lambda>t. io_bind (read_all ps) (\<lambda>ts. io_return (t # ts))))"
    using Cons.IH by blast
  then show ?case by (simp add: io_pure_def)
qed

lemma read_all_cong:
  "\<forall>p\<in>set ps. map_of fs p = map_of fs' p \<Longrightarrow> fst (read_all ps fs) = fst (read_all ps fs')"
proof (induction ps)
  case (Cons p ps)
  then show ?case
    by (simp add: io_bind_pure_fst read_all_pure read_parquet_pure read_parquet_def
        split: option.splits node.splits sum.splits)
qed simp

lemma read_symbol_source_pure [intro!]: "io_pure (read_symbol_source dir tf years s)"
proof -
  have "io_pure (io_bind (read_all ps) (\<lambda>dfs. io_return (f dfs)))" for ps and f :: "ktable list \<Rightarrow> ktable option"
    by blast
  then show ?thesis
    unfolding io_pure_def read_symbol_source_def Let_def by (simp add: io_pure_def)
qed

lemma read_symbol_source_fst:
  "fst (read_symbol_source dir tf years s fs) =
     (let files = filter_years years (glob fs (dir @ [s]) (kline_pattern s tf)) in
      if \<not> path_exists fs (dir @ [s]) \<or> files = [] then Inr None
      else case fst (read_all (sort_paths files) fs) of
        Inl e \<Rightarrow> Inl e
      | Inr dfs \<Rightarrow> Inr (if dfs = [] then None else Some (combine dfs)))"
  by (simp add: read_symbol_source_def Let_def io_bind_pure_fst read_all_pure filter_years_def
      split: option.splits sum.splits)

lemma set_filter_years: "set (filter_years years files) \<subseteq> set files"
  by (auto simp: filter_years_def split: option.splits)

lemma read_symbol_source_view:
  assumes v: "dir_view fs (dir @ [s]) = dir_view fs' (dir @ [s])"
  shows "fst (read_symbol_source dir tf years s fs) = fst (read_symbol_source dir tf years s fs')"
proof -
  let ?d = "dir @ [s]"
  define files where "files = filter_years years (glob fs ?d (kline_pattern s tf))"
  have ex: "path_exists fs ?d = path_exists fs' ?d" using v by (simp add: dir_view_def)
  have gl: "filter_years years (glob fs' ?d (kline_pattern s tf)) = files"
    unfolding files_def by (simp only: glob_view [OF v])
  have "\<forall>p\<in>set (sort_paths files). map_of fs p = map_of fs' p"
  proof
    fix p assume "p \<in> set (sort_paths files)"
    then have "p \<in> set (glob fs ?d (kline_pattern s tf))"
      using set_filter_years unfolding files_def sort_paths_def by fastforce
    then obtain n where p: "p = ?d @ [n]" and n: "n \<in> set (children fs ?d)"
      by (blast dest: glob_in_children)
    show "map_of fs p = map_of fs' p" unfolding p by (rule dir_view_entry [OF v n])
  qed
  then have "fst (read_all (sort_paths files) fs) = fst (read_all (sort_paths files) fs')"
    by (rule read_all_cong)
  then show ?thesis
    unfolding read_symbol_source_fst Let_def files_def [symmetric] gl ex by simp
qed

subsection \<open>The sources of a kline directory\<close>

lemma same_sources_refl [simp]: "same_sources dir fs fs"
  by (simp add: same_sources_def)

lemma same_sources_trans:
  "same_sources dir fs fs' \<Longrightarrow> same_sources dir fs' fs'' \<Longrightarrow> same_sources dir fs fs''"
  by (simp add: same_sources_def)

lemma same_sources_dir:
  "same_sources dir fs fs' \<Longrightarrow> path_exists fs dir = path_exists fs' dir \<and> is_dir fs dir = is_dir fs' dir"
  by (simp add: same_sources_def path_exists_def is_dir_def)

lemma read_symbol_source_same:
  "same_sources dir fs fs' \<Longrightarrow> s \<noteq> ''_cache'' \<Longrightarrow>
   fst (read_symbol_source dir tf years s fs) = fst (read_symbol_source dir tf years s fs')"
  unfolding same_sources_def by (blast intro: read_symbol_source_view)

text \<open>Writing a cache file, removing files of the cache directory and creating it
  leave the sources alone.\<close>

lemma cache_entry_not_source:
  assumes "s \<noteq> ''_cache''"
  shows "cache_dir dir @ [n] \<noteq> dir @ [s]" and "butlast (cache_dir dir @ [n]) \<noteq> dir @ [s]"
    and "cache_dir dir \<noteq> dir @ [s]" and "butlast (cache_dir dir) \<noteq> dir @ [s]"
  using assms by (simp_all add: cache_dir_def butlast_append)

lemma same_sources_update_cache:
  "same_sources dir fs (AList.update (cache_dir dir @ [n]) v fs)"
proof -
  have "dir_view (AList.update (cache_dir dir @ [n]) v fs) (dir @ [s]) = dir_view fs (dir @ [s])"
    if "s \<noteq> ''_cache''" for s
    using cache_entry_not_source [OF that] by (intro dir_view_update)
  moreover have "map_of (AList.update (cache_dir dir @ [n]) v fs) dir = map_of fs dir"
    by (simp add: update_conv' cache_dir_def)
  ultimately show ?thesis by (simp add: same_sources_def)
qed

lemma same_sources_Cons_cache:
  "same_sources dir fs ((cache_dir dir, v) # fs)"
proof -
  have "dir_view ((cache_dir dir, v) # fs) (dir @ [s]) = dir_view fs (dir @ [s])"
    if "s \<noteq> ''_cache''" for s
    using cache_entry_not_source [OF that] by (intro dir_view_Cons)
  then show ?thesis by (simp add: same_sources_def cache_dir_def)
qed

lemma butlast_neq_self: "butlast p = q @ [c] \<Longrightarrow> p \<noteq> q"
proof
  assume "butlast p = q @ [c]" and "p = q"
  then have "length (butlast q) = length (q @ [c])" by simp
  then show False by simp
qed

lemma same_sources_filter_cache:
  assumes "\<forall>e\<in>set fs. \<not> P e \<longrightarrow> fst e \<noteq> [] \<and> butlast (fst e) = cache_dir dir"
  shows "same_sources dir fs (filter P fs)"
proof -
  have "map_of (filter P fs) dir = map_of fs dir"
    using assms by (intro map_of_filter_keep) (auto simp: cache_dir_def dest: butlast_neq_self)
  moreover have "dir_view (filter P fs) (dir @ [s]) = dir_view fs (dir @ [s])" if "s \<noteq> ''_cache''" for s
  proof (rule dir_view_filter, intro ballI impI)
    fix e assume "e \<in> set fs" and "fst e = dir @ [s] \<or> fst e \<noteq> [] \<and> butlast (fst e) = dir @ [s]"
    with assms that show "P e" by (auto simp: cache_dir_def dest: butlast_neq_self)
  qed
  ultimately show ?thesis by (simp add: same_sources_def)
qed

subsection \<open>Soundness of the cache entries\<close>

lemma cache_ok_Cons_dir: "cache_ok dir fs0 fs \<Longrightarrow> cache_ok dir fs0 ((cache_dir dir, v) # fs)"
  by (simp add: cache_ok_def)

lemma cache_ok_filter:
  "distinct (map fst fs) \<Longrightarrow> cache_ok dir fs0 fs \<Longrightarrow> cache_ok dir fs0 (filter P fs)"
  unfolding cache_ok_def by (blast dest: map_of_filter_SomeD)

lemma cache_ok_same:
  assumes "same_sources dir fs0 fs1" and "cache_ok dir fs0 fs"
  shows "cache_ok dir fs1 fs"
proof -
  have "cache_entry_ok dir fs0 n v = cache_entry_ok dir fs1 n v" for n v
  proof -
    have "symbol_ok s \<Longrightarrow> fst (read_symbol_source dir tf years s fs0) = fst (read_symbol_source dir tf years s fs1)"
      for s tf years
      using assms(1) by (rule read_symbol_source_same) (simp add: symbol_ok_def)
    then show ?thesis unfolding cache_entry_ok_def by metis
  qed
  with assms(2) show ?thesis by (simp add: cache_ok_def)
qed

lemma cache_ok_children:
  "cache_ok dir fs0 fs \<Longrightarrow> n \<in> set (children fs (cache_dir dir)) \<Longrightarrow>
   \<exists>v. map_of fs (cache_dir dir @ [n]) = Some v \<and> cache_entry_ok dir fs0 n v"
  by (auto simp: cache_ok_def in_children_iff)

subsection \<open>The steps of load_kline\<close>

text \<open>util.py:282-284: the cache directory is there afterwards.\<close>

lemma prepare_cache_dir:
  assumes wf: "fs_wf fs" and d: "is_dir fs dir"
    and c: "path_exists fs (cache_dir dir) \<longrightarrow> is_dir fs (cache_dir dir)" and ok: "cache_ok dir fs fs"
  shows "\<exists>fs1. (if path_exists fs (cache_dir dir) then io_return () else makedirs (cache_dir dir)) fs = (Inr (), fs1)
           \<and> cache_ready dir fs fs1"
proof (cases "path_exists fs (cache_dir dir)")
  case True
  with assms show ?thesis by (simp add: cache_ready_def cache_frame_def)
next
  case False
  then have mk: "makedirs (cache_dir dir) fs = (Inr (), (cache_dir dir, Dir) # fs)"
    unfolding cache_dir_def by (rule makedirs_child [OF wf d])
  have "fs_wf ((cache_dir dir, Dir) # fs)" using makedirs_wf [OF mk wf] .
  moreover have "cache_ok dir fs ((cache_dir dir, Dir) # fs)" using ok by (rule cache_ok_Cons_dir)
  moreover have "cache_frame dir fs ((cache_dir dir, Dir) # fs)" by (simp add: cache_frame_def)
  ultimately show ?thesis using False mk same_sources_Cons_cache [of dir fs Dir]
    by (simp add: cache_ready_def is_dir_def)
qed

text \<open>util.py:287: the janitor only removes cache files, and no sound cache entry
  makes it overflow.\<close>

lemma janitor_sweeps:
  assumes rd: "cache_ready dir fs0 fs"
  shows "remove_old_cache (cache_dir dir) days now fs
           = (Inr (), sweep (cache_dir dir) (janitor_threshold days now) (children fs (cache_dir dir)) fs)"
proof -
  let ?c = "cache_dir dir"
  from rd have wf: "fs_wf fs" and c: "is_dir fs ?c" and ok: "cache_ok dir fs0 fs"
    by (simp_all add: cache_ready_def)
  have "\<not> stamp_overflows n" if "n \<in> set (children fs ?c)" for n
    using cache_ok_children [OF ok that] by (auto simp: cache_entry_ok_def)
  then have tw: "takeWhile (\<lambda>n. \<not> stamp_overflows n) (children fs ?c) = children fs ?c"
    and nov: "\<not> list_ex stamp_overflows (children fs ?c)"
    by (simp_all add: takeWhile_eq_all_conv list_ex_iff)
  have ex: "path_exists fs ?c" using c by (auto simp: is_dir_def path_exists_def)
  show ?thesis
    using remove_old_cache_result [OF wf, of ?c days now] ex c tw nov by simp
qed

lemma janitor_ready:
  assumes rd: "cache_ready dir fs0 fs"
  shows "\<exists>fs'. remove_old_cache (cache_dir dir) days now fs = (Inr (), fs') \<and> cache_ready dir fs0 fs'"
proof -
  let ?c = "cache_dir dir"
  let ?thr = "janitor_threshold days now"
  from rd have wf: "fs_wf fs" and c: "is_dir fs ?c" and ok: "cache_ok dir fs0 fs"
    and same: "same_sources dir fs0 fs"
    by (simp_all add: cache_ready_def)
  let ?fs' = "sweep ?c ?thr (children fs ?c) fs"
  have files: "\<forall>e\<in>set fs. \<not> \<not> swept ?c ?thr (children fs ?c) e \<longrightarrow> snd e \<noteq> Dir"
    and under: "\<forall>e\<in>set fs. \<not> \<not> swept ?c ?thr (children fs ?c) e \<longrightarrow> fst e \<noteq> [] \<and> butlast (fst e) = ?c"
    by (auto simp: swept_def)
  have "fs_wf ?fs'" using wf by (rule sweep_wf)
  moreover have "is_dir ?fs' ?c" unfolding sweep_def using wf files c by (rule is_dir_filter)
  moreover have "same_sources dir fs0 ?fs'"
    using same same_sources_filter_cache [OF under] unfolding sweep_def by (rule same_sources_trans)
  moreover have "cache_ok dir fs0 ?fs'"
    unfolding sweep_def using fs_wf_distinct [OF wf] ok by (rule cache_ok_filter)
  moreover have "cache_frame dir fs0 ?fs'"
  proof -
    have "map_of ?fs' p = map_of fs p" if "butlast p \<noteq> ?c" for p
      unfolding sweep_def using under that by (intro map_of_filter_keep) auto
    with rd show ?thesis by (simp add: cache_ready_def cache_frame_def)
  qed
  ultimately show ?thesis using janitor_sweeps [OF rd] by (auto simp: cache_ready_def)
qed

text \<open>util.py:293-309: on sound entries a full hit gives what the sources give.\<close>

lemma cache_lookup_sound:
  assumes ok: "cache_ok dir fs0 fs" and sys: "\<forall>s\<in>set sys. symbol_ok s"
    and tf: "tf \<in> set valid_timeframes" and y: "years_ok years"
  shows "\<exists>r. cache_lookup (cache_dir dir) tf (cache_key_years years) sys fs = (Inr r, fs)
           \<and> (\<forall>dfs. r = Some dfs \<longrightarrow> source_tables dir tf years sys fs0 = Inr dfs \<and> length dfs = length sys)"
  using sys
proof (induction sys)
  case Nil
  then show ?case by simp
next
  case (Cons s ss)
  let ?pat = "cache_pattern s tf (cache_key_years years)"
  let ?files = "glob fs (cache_dir dir) ?pat"
  from Cons obtain r where r: "cache_lookup (cache_dir dir) tf (cache_key_years years) ss fs = (Inr r, fs)"
    and rs: "\<forall>dfs. r = Some dfs \<longrightarrow> source_tables dir tf years ss fs0 = Inr dfs \<and> length dfs = length ss"
    by auto
  show ?case
  proof (cases "?files = []")
    case True
    then show ?thesis by simp
  next
    case False
    let ?p = "hd (sort_paths_desc ?files)"
    from sort_paths_desc_hd [OF False] obtain n where p: "?p = cache_dir dir @ [n]"
      and n: "n \<in> set (children fs (cache_dir dir))" and m: "fnmatch ?pat n"
      by (blast dest: glob_memberD)
    from cache_ok_children [OF ok n] obtain v where v: "map_of fs (cache_dir dir @ [n]) = Some v"
      and e: "cache_entry_ok dir fs0 n v" by blast
    have "symbol_ok s" using Cons.prems by simp
    with e tf y m obtain t where t: "v = Parquet t"
      and src: "fst (read_symbol_source dir tf years s fs0) = Inr (Some t)"
      unfolding cache_entry_ok_def by blast
    have rd: "read_parquet ?p fs = (Inr t, fs)" by (simp add: p v t read_parquet_def)
    show ?thesis
      using False rd r rs src by (auto simp: Let_def io_bind_def)
  qed
qed

text \<open>util.py:369-370: the entry written for a key is sound, because its name
  matches the lookup pattern of that key only.\<close>

lemma cache_ok_write:
  assumes ok: "cache_ok dir fs0 fs" and s: "symbol_ok s" and tf: "tf \<in> set valid_timeframes"
    and y: "years_ok years"
    and nov: "\<not> stamp_overflows (cache_file_name s tf (cache_key_years years) ts)"
    and src: "fst (read_symbol_source dir tf years s fs0) = Inr (Some t)"
  shows "cache_ok dir fs0
           (AList.update (cache_dir dir @ [cache_file_name s tf (cache_key_years years) ts]) (Parquet t) fs)"
proof -
  let ?n = "cache_file_name s tf (cache_key_years years) ts"
  have "cache_entry_ok dir fs0 ?n (Parquet t)"
    unfolding cache_entry_ok_def
  proof (intro conjI allI impI)
    fix s' tf' years'
    assume k: "symbol_ok s' \<and> tf' \<in> set valid_timeframes \<and> years_ok years'
      \<and> fnmatch (cache_pattern s' tf' (cache_key_years years')) ?n"
    then have "s' = s \<and> tf' = tf \<and> cache_key_years years' = cache_key_years years"
      using cache_name_matches [OF s _ tf _ years_key_chars [OF y] years_key_chars [of years']] by blast
    moreover have "years' = years" using years_ok_key_inj k y calculation by blast
    ultimately show "\<exists>t'. Parquet t = Parquet t' \<and> fst (read_symbol_source dir tf' years' s' fs0) = Inr (Some t')"
      using src by simp
  qed (use nov in simp_all)
  with ok show ?thesis by (simp add: cache_ok_def update_conv')
qed

text \<open>The four outcomes of one iteration of util.py:324-373.\<close>

lemma load_symbol_cases:
  obtains (err) e where "load_symbol dir tf years ykey ts s fs = (Inl e, fs)"
  | (none) "load_symbol dir tf years ykey ts s fs = (Inr None, fs)"
  | (written) t where "load_symbol dir tf years ykey ts s fs
      = (Inr (Some t), AList.update (cache_dir dir @ [cache_file_name s tf ykey ts]) (Parquet t) fs)"
  | (werr) "load_symbol dir tf years ykey ts s fs
      = (Inl (WriteError (cache_dir dir @ [cache_file_name s tf ykey ts])), fs)"
proof -
  have rs: "read_symbol_source dir tf years s fs = (fst (read_symbol_source dir tf years s fs), fs)"
    by (rule io_pure_apply [OF read_symbol_source_pure])
  show ?thesis
  proof (cases "fst (read_symbol_source dir tf years s fs)")
    case (Inl e)
    with rs err show ?thesis by (simp add: load_symbol_def io_bind_def)
  next
    case (Inr x)
    show ?thesis
    proof (cases x)
      case None
      with Inr rs none show ?thesis by (simp add: load_symbol_def io_bind_def)
    next
      case (Some t)
      let ?p = "cache_dir dir @ [cache_file_name s tf ykey ts]"
      show ?thesis
      proof (cases "is_dir fs (butlast ?p) \<and> \<not> is_dir fs ?p")
        case True
        with Inr Some rs written [of t] show ?thesis by (simp add: load_symbol_def io_bind_def to_parquet_def)
      next
        case False
        with Inr Some rs werr show ?thesis by (simp add: load_symbol_def io_bind_def to_parquet_def)
      qed
    qed
  qed
qed

text \<open>util.py:324-373, one symbol: the value is what the sources give; a loaded
  symbol is written to the cache.\<close>

lemma load_symbol_step:
  assumes rd: "cache_ready dir fs0 fs" and s: "symbol_ok s" and tf: "tf \<in> set valid_timeframes"
    and y: "years_ok years"
    and nov: "\<not> stamp_overflows (cache_file_name s tf (cache_key_years years) ts)"
  shows "\<exists>fs'. load_symbol dir tf years (cache_key_years years) ts s fs
                = (fst (read_symbol_source dir tf years s fs0), fs') \<and> cache_ready dir fs0 fs'"
proof -
  let ?p = "cache_dir dir @ [cache_file_name s tf (cache_key_years years) ts]"
  from rd have wf: "fs_wf fs" and c: "is_dir fs (cache_dir dir)" and same: "same_sources dir fs0 fs"
    and ok: "cache_ok dir fs0 fs"
    by (simp_all add: cache_ready_def)
  have "s \<noteq> ''_cache''" using s by (simp add: symbol_ok_def)
  with same have eq: "fst (read_symbol_source dir tf years s fs) = fst (read_symbol_source dir tf years s fs0)"
    by (simp add: read_symbol_source_same)
  have rs: "read_symbol_source dir tf years s fs = (fst (read_symbol_source dir tf years s fs0), fs)"
    using io_pure_apply [OF read_symbol_source_pure, of dir tf years s fs] eq by simp
  show ?thesis
  proof (cases "fst (read_symbol_source dir tf years s fs0)")
    case (Inl e)
    with rs rd show ?thesis by (simp add: load_symbol_def io_bind_def)
  next
    case (Inr r)
    show ?thesis
    proof (cases r)
      case None
      with Inr rs rd show ?thesis by (simp add: load_symbol_def io_bind_def)
    next
      case (Some t)
      have nd: "\<not> is_dir fs ?p"
        using ok by (auto simp: is_dir_def cache_ok_def cache_entry_ok_def)
      then have w: "to_parquet ?p t fs = (Inr (), AList.update ?p (Parquet t) fs)"
        using c by (simp add: to_parquet_def)
      have src: "fst (read_symbol_source dir tf years s fs0) = Inr (Some t)" using Inr Some by simp
      have "cache_ready dir fs0 (AList.update ?p (Parquet t) fs)"
        unfolding cache_ready_def
      proof (intro conjI)
        show "fs_wf (AList.update ?p (Parquet t) fs)" using to_parquet_wf [OF wf w] .
        show "is_dir (AList.update ?p (Parquet t) fs) (cache_dir dir)"
          using c nd by (simp add: is_dir_update_file)
        show "same_sources dir fs0 (AList.update ?p (Parquet t) fs)"
          using same same_sources_update_cache by (rule same_sources_trans)
        show "cache_ok dir fs0 (AList.update ?p (Parquet t) fs)"
          using ok s tf y nov src by (rule cache_ok_write)
        show "cache_frame dir fs0 (AList.update ?p (Parquet t) fs)"
          using rd by (auto simp: cache_ready_def cache_frame_def update_conv')
      qed
      with rs src w show ?thesis by (simp add: load_symbol_def io_bind_def)
    qed
  qed
qed

text \<open>A stamp taken from a valid clock is one the janitor reads back without
  overflow.\<close>

lemma clock_unix_seconds:
  assumes "clock_ok now"
  shows "0 \<le> unix_seconds now" and "unix_seconds now \<le> now" and "now - 1000000 < unix_seconds now * 1000000"
proof -
  have "now mod 1000000 < 1000000" by simp
  moreover have "now = now div 1000000 * 1000000 + now mod 1000000" by simp
  ultimately show "now - 1000000 < unix_seconds now * 1000000"
    using assms by (simp add: clock_ok_def unix_seconds_def)
qed (use assms in \<open>auto simp: clock_ok_def unix_seconds_def\<close>)

lemma clock_cache_stamp:
  assumes "clock_ok now"
  shows "cache_stamp (cache_file_name s tf k (unix_seconds now)) = Some (unix_seconds now)"
proof -
  have "(10::int) ^ 19 \<le> 10 ^ int_max_str_digits"
    by (rule power_increasing) (simp_all add: int_max_str_digits_def)
  moreover have "(2::int) ^ 63 < 10 ^ 19" by simp
  ultimately have "\<bar>unix_seconds now\<bar> < 10 ^ int_max_str_digits"
    using clock_unix_seconds [OF assms] assms by (simp add: clock_ok_def)
  then show ?thesis by (rule cache_stamp_cache_file_name)
qed

lemma clock_stamp_ok:
  assumes "clock_ok now"
  shows "\<not> stamp_overflows (cache_file_name s tf k (unix_seconds now))"
proof -
  have "py_fromtimestamp (unix_seconds now) \<noteq> StampOverflow"
    using clock_unix_seconds [OF assms] assms by (simp add: py_fromtimestamp_def clock_ok_def)
  with clock_cache_stamp [OF assms] show ?thesis by (simp add: stamp_overflows_def)
qed

text \<open>util.py:322-373: the reload loop gives what the sources give and keeps every
  cache entry sound.\<close>

lemma load_symbols_run:
  assumes "cache_ready dir fs0 fs" and "\<forall>s\<in>set sys. symbol_ok s" and tf: "tf \<in> set valid_timeframes"
    and y: "years_ok years" and nov: "\<forall>s. \<not> stamp_overflows (cache_file_name s tf (cache_key_years years) ts)"
  shows "\<exists>fs'. load_symbols dir tf years (cache_key_years years) ts sys fs
                = (source_tables dir tf years sys fs0, fs') \<and> cache_ready dir fs0 fs'"
  using assms(1,2)
proof (induction sys arbitrary: fs)
  case Nil
  then show ?case by simp
next
  case (Cons s ss)
  from Cons.prems have s: "symbol_ok s" and ss: "\<forall>s\<in>set ss. symbol_ok s" by simp_all
  from load_symbol_step [OF Cons.prems(1) s tf y nov [rule_format]] obtain fs1
    where st: "load_symbol dir tf years (cache_key_years years) ts s fs
                 = (fst (read_symbol_source dir tf years s fs0), fs1)"
      and rd1: "cache_ready dir fs0 fs1" by blast
  show ?case
  proof (cases "fst (read_symbol_source dir tf years s fs0)")
    case (Inl e)
    with st rd1 show ?thesis by (simp add: io_bind_def)
  next
    case (Inr r)
    from Cons.IH [OF rd1 ss] obtain fs2
      where st2: "load_symbols dir tf years (cache_key_years years) ts ss fs1
                    = (source_tables dir tf years ss fs0, fs2)"
        and rd2: "cache_ready dir fs0 fs2" by blast
    with st Inr show ?thesis by (simp add: io_bind_def split: sum.splits)
  qed
qed

lemma kline_reload_run:
  assumes "cache_ready dir fs0 fs" and "\<forall>s\<in>set sys. symbol_ok s" and "tf \<in> set valid_timeframes"
    and "years_ok years" and "\<forall>s. \<not> stamp_overflows (cache_file_name s tf (cache_key_years years) ts)"
  shows "\<exists>fs'. kline_reload dir tf years (cache_key_years years) ts sys fs
           = ((case source_tables dir tf years sys fs0 of
                 Inl e \<Rightarrow> Inl (RuntimeError ''Error loading kline files'' e)
               | Inr dfs \<Rightarrow>
                   if dfs = [] then Inl (RuntimeError ''Error loading kline files'' (FileNotFoundError NoDataForSymbols))
                   else Inr (sort_klines (combine dfs))), fs') \<and> cache_ready dir fs0 fs'"
proof -
  from load_symbols_run [OF assms] obtain fs'
    where st: "load_symbols dir tf years (cache_key_years years) ts sys fs = (source_tables dir tf years sys fs0, fs')"
      and rd: "cache_ready dir fs0 fs'" by blast
  with rd show ?thesis
    by (simp add: kline_reload_def io_wrap_def io_bind_def split: sum.splits)
qed

subsection \<open>load_kline implements the contract\<close>

lemma load_kline_run:
  assumes inv: "cache_inv (kline_dir base source market market_sub) fs" and clk: "clock_ok now"
    and sy: "\<forall>sys\<in>set_option symbols. \<forall>s\<in>set sys. symbol_ok s" and y: "years_ok years"
  shows "\<exists>fs'. load_kline base source market market_sub tf years symbols now fs
                = (kline_spec base source market market_sub tf years symbols fs, fs')
              \<and> (fs' = fs \<or> cache_ready (kline_dir base source market market_sub) fs fs')"
proof -
  let ?dir = "kline_dir base source market market_sub"
  let ?c = "cache_dir ?dir"
  show ?thesis
  proof (cases "tf \<in> set valid_timeframes \<and> symbols \<noteq> None \<and> symbols \<noteq> Some [] \<and> path_exists fs ?dir")
    case False
    then show ?thesis by (auto simp: load_kline_def kline_spec_def Let_def split: option.splits)
  next
    case True
    then obtain sys where tf: "tf \<in> set valid_timeframes" and sys: "symbols = Some sys" and ne: "sys \<noteq> []"
      and ex: "path_exists fs ?dir" by auto
    from sy sys have sok: "\<forall>s\<in>set sys. symbol_ok s" by simp
    from inv ex have wf: "fs_wf fs" and d: "is_dir fs ?dir"
      and c: "path_exists fs ?c \<longrightarrow> is_dir fs ?c" and ok: "cache_ok ?dir fs fs"
      by (simp_all add: cache_inv_def)
    from prepare_cache_dir [OF wf d c ok] obtain fs1
      where prep: "(if path_exists fs ?c then io_return () else makedirs ?c) fs = (Inr (), fs1)"
        and rd1: "cache_ready ?dir fs fs1" by blast
    from janitor_ready [OF rd1] obtain fs2
      where jan: "remove_old_cache ?c 1 now fs1 = (Inr (), fs2)" and rd2: "cache_ready ?dir fs fs2" by blast
    from rd2 have ok2: "cache_ok ?dir fs fs2" by (simp add: cache_ready_def)
    from cache_lookup_sound [OF ok2 sok tf y] obtain r
      where lk: "cache_lookup ?c tf (cache_key_years years) sys fs2 = (Inr r, fs2)"
        and hit: "\<forall>dfs. r = Some dfs \<longrightarrow> source_tables ?dir tf years sys fs = Inr dfs \<and> length dfs = length sys"
      by blast
    have pre: "load_kline base source market market_sub tf years symbols now fs
      = io_bind (cache_lookup ?c tf (cache_key_years years) sys)
          (\<lambda>c. case c of Some dfs \<Rightarrow> io_return (sort_klines (combine dfs))
                 | None \<Rightarrow> kline_reload ?dir tf years (cache_key_years years) (unix_seconds now) sys) fs2"
      using True sys prep jan by (simp add: load_kline_def Let_def io_bind_def)
    show ?thesis
    proof (cases r)
      case (Some dfs)
      with hit ne have "source_tables ?dir tf years sys fs = Inr dfs" and "dfs \<noteq> []" by auto
      with pre lk Some True sys rd2 show ?thesis by (simp add: kline_spec_def io_bind_def)
    next
      case None
      from kline_reload_run [OF rd2 sok tf y clock_stamp_ok [OF clk, THEN allI]] obtain fs3
        where rl: "kline_reload ?dir tf years (cache_key_years years) (unix_seconds now) sys fs2
          = ((case source_tables ?dir tf years sys fs of
                 Inl e \<Rightarrow> Inl (RuntimeError ''Error loading kline files'' e)
               | Inr dfs \<Rightarrow>
                   if dfs = [] then Inl (RuntimeError ''Error loading kline files'' (FileNotFoundError NoDataForSymbols))
                   else Inr (sort_klines (combine dfs))), fs3)"
          and rd3: "cache_ready ?dir fs fs3" by blast
      with pre lk None True sys show ?thesis by (simp add: kline_spec_def io_bind_def)
    qed
  qed
qed

lemma cache_ready_inv:
  assumes inv: "cache_inv dir fs" and rd: "cache_ready dir fs fs'"
  shows "cache_inv dir fs'"
proof -
  from rd have wf: "fs_wf fs'" and c: "is_dir fs' (cache_dir dir)" and same: "same_sources dir fs fs'"
    and ok: "cache_ok dir fs fs'"
    by (simp_all add: cache_ready_def)
  from same have d: "path_exists fs' dir = path_exists fs dir" "is_dir fs' dir = is_dir fs dir"
    by (simp_all add: same_sources_dir)
  have "cache_ok dir fs' fs'" using same ok by (rule cache_ok_same)
  with inv wf c d show ?thesis by (simp add: cache_inv_def)
qed

lemma source_tables_same:
  "same_sources dir fs fs' \<Longrightarrow> \<forall>s\<in>set sys. symbol_ok s \<Longrightarrow>
   source_tables dir tf years sys fs = source_tables dir tf years sys fs'"
proof (induction sys)
  case (Cons s ss)
  then have "s \<noteq> ''_cache''" by (simp add: symbol_ok_def)
  with Cons.prems(1) have "fst (read_symbol_source dir tf years s fs) = fst (read_symbol_source dir tf years s fs')"
    by (rule read_symbol_source_same)
  with Cons show ?case by (simp cong: sum.case_cong)
qed simp

lemma kline_spec_same:
  assumes "same_sources (kline_dir base source market market_sub) fs fs'"
    and "\<forall>sys\<in>set_option symbols. \<forall>s\<in>set sys. symbol_ok s"
  shows "kline_spec base source market market_sub tf years symbols fs = kline_spec base source market market_sub tf years symbols fs'"
  using assms same_sources_dir [OF assms(1)] source_tables_same [OF assms(1)]
  by (auto simp: kline_spec_def Let_def split: option.splits)

text \<open>The whole call: its value is the contract's, and its final state keeps the
  invariant, the sources and everything outside the cache directory.\<close>

lemma load_kline_state:
  assumes inv: "cache_inv (kline_dir base source market market_sub) fs" and "clock_ok now"
    and "\<forall>sys\<in>set_option symbols. \<forall>s\<in>set sys. symbol_ok s" and "years_ok years"
  shows "\<exists>fs'. load_kline base source market market_sub tf years symbols now fs
                = (kline_spec base source market market_sub tf years symbols fs, fs')
              \<and> cache_inv (kline_dir base source market market_sub) fs'
              \<and> same_sources (kline_dir base source market market_sub) fs fs'
              \<and> cache_frame (kline_dir base source market market_sub) fs fs'"
proof -
  from load_kline_run [OF assms] obtain fs'
    where run: "load_kline base source market market_sub tf years symbols now fs
                = (kline_spec base source market market_sub tf years symbols fs, fs')"
      and st: "fs' = fs \<or> cache_ready (kline_dir base source market market_sub) fs fs'" by blast
  from st show ?thesis
  proof
    assume "fs' = fs"
    with run inv show ?thesis by (intro exI [of _ fs']) (simp add: cache_frame_def)
  next
    assume rd: "cache_ready (kline_dir base source market market_sub) fs fs'"
    with run cache_ready_inv [OF inv rd] show ?thesis
      by (intro exI [of _ fs']) (simp add: cache_ready_def)
  qed
qed

lemma cache_lookup_pure [intro!]: "io_pure (cache_lookup cdir tf ykey sys)"
proof (induction sys)
  case Nil
  show ?case by (simp add: io_pure_def)
next
  case (Cons s ss)
  have "io_pure (io_bind (read_parquet p) (\<lambda>t. io_bind (cache_lookup cdir tf ykey ss)
          (\<lambda>r. io_return (map_option (Cons t) r))))" for p
    using Cons.IH by blast
  then show ?case by (simp add: io_pure_def Let_def)
qed

subsection \<open>Properties of load_kline\<close>

text \<open>C1: refinement.  On a data tree whose cache entries are sound, with a
  valid clock, symbols that are plain names and years given as digit strings,
  the value \<open>load_kline\<close> returns is the value of the cache-free contract
  \<open>kline_spec\<close> on the same tree: the cache is invisible.\<close>

theorem load_kline_refines_spec:
  assumes "cache_inv (kline_dir base source market market_sub) fs" and "clock_ok now"
    and "\<forall>sys\<in>set_option symbols. \<forall>s\<in>set sys. symbol_ok s" and "years_ok years"
  shows "fst (load_kline base source market market_sub tf years symbols now fs)
           = kline_spec base source market market_sub tf years symbols fs"
  using load_kline_state [OF assms, where tf = tf] by auto

text \<open>C2: invariant.  \<open>load_kline\<close> keeps the cache invariant: every entry it
  leaves in the cache directory holds what the sources give for every key
  whose lookup finds it.\<close>

theorem load_kline_keeps_cache_inv:
  assumes "cache_inv (kline_dir base source market market_sub) fs" and "clock_ok now"
    and "\<forall>sys\<in>set_option symbols. \<forall>s\<in>set sys. symbol_ok s" and "years_ok years"
  shows "cache_inv (kline_dir base source market market_sub)
           (snd (load_kline base source market market_sub tf years symbols now fs))"
  using load_kline_state [OF assms, where tf = tf] by auto

text \<open>C3: idempotence.  Calling \<open>load_kline\<close> again with the same arguments on
  the tree the first call left, at any later valid instant, gives the same
  value, whether it is served from the cache or reloaded.\<close>

theorem load_kline_idempotent:
  assumes inv: "cache_inv (kline_dir base source market market_sub) fs"
    and clk: "clock_ok now" and clk': "clock_ok now'"
    and sy: "\<forall>sys\<in>set_option symbols. \<forall>s\<in>set sys. symbol_ok s" and y: "years_ok years"
    and first: "load_kline base source market market_sub tf years symbols now fs = (r, fs')"
  shows "fst (load_kline base source market market_sub tf years symbols now' fs') = r"
proof -
  from load_kline_state [OF inv clk sy y, where tf = tf] first
  have r: "r = kline_spec base source market market_sub tf years symbols fs"
    and inv': "cache_inv (kline_dir base source market market_sub) fs'"
    and same: "same_sources (kline_dir base source market market_sub) fs fs'"
    by auto
  from load_kline_state [OF inv' clk' sy y, where tf = tf]
  have "fst (load_kline base source market market_sub tf years symbols now' fs')
          = kline_spec base source market market_sub tf years symbols fs'"
    by auto
  also have "\<dots> = r" using kline_spec_same [OF same sy] r by simp
  finally show ?thesis .
qed

text \<open>C4: frame.  \<open>load_kline\<close> changes nothing but the cache directory and its
  entries: every other path keeps its node.\<close>

theorem load_kline_frame:
  assumes "cache_inv (kline_dir base source market market_sub) fs" and "clock_ok now"
    and "\<forall>sys\<in>set_option symbols. \<forall>s\<in>set sys. symbol_ok s" and "years_ok years"
    and "p \<noteq> cache_dir (kline_dir base source market market_sub)"
    and "butlast p \<noteq> cache_dir (kline_dir base source market market_sub)"
  shows "map_of (snd (load_kline base source market market_sub tf years symbols now fs)) p = map_of fs p"
  using load_kline_state [OF assms(1-4), where tf = tf] assms(5,6) by (auto simp: cache_frame_def)

text \<open>C5: all-or-nothing.  When some requested symbol has no cache entry, the
  cache lookup never returns a full hit, so \<open>load_kline\<close> reloads every symbol
  from the sources.\<close>

theorem cache_lookup_miss:
  assumes "\<exists>s\<in>set sys. glob fs cdir (cache_pattern s tf ykey) = []"
  shows "fst (cache_lookup cdir tf ykey sys fs) \<noteq> Inr (Some dfs)"
  using assms
proof (induction sys arbitrary: dfs)
  case Nil
  then show ?case by simp
next
  case (Cons s ss)
  show ?case
  proof (cases "glob fs cdir (cache_pattern s tf ykey) = []")
    case True
    then show ?thesis by simp
  next
    case False
    with Cons.prems have "\<exists>s\<in>set ss. glob fs cdir (cache_pattern s tf ykey) = []" by auto
    then have "\<forall>d. fst (cache_lookup cdir tf ykey ss fs) \<noteq> Inr (Some d)" using Cons.IH by blast
    with False show ?thesis
      by (simp add: Let_def io_bind_pure_fst cache_lookup_pure read_parquet_pure split: sum.splits)
        (auto simp: map_option_case split: option.splits)
  qed
qed

text \<open>C10: no row lost or duplicated.  On a tree with a sound cache, every table
  \<open>load_kline\<close> returns holds exactly the rows of the per-symbol source tables,
  each as often as there, reordered by the sort.\<close>

theorem load_kline_rows_perm:
  assumes "cache_inv (kline_dir base source market market_sub) fs" and "clock_ok now"
    and "\<forall>s\<in>set sys. symbol_ok s" and "years_ok years"
    and run: "fst (load_kline base source market market_sub tf years (Some sys) now fs) = Inr t"
  shows "\<exists>dfs. source_tables (kline_dir base source market market_sub) tf years sys fs = Inr dfs
             \<and> mset (rows t) = mset (concat (map rows dfs))"
proof -
  from load_kline_state [OF assms(1,2) _ assms(4), of "Some sys" tf] assms(3) run
  have spec: "kline_spec base source market market_sub tf years (Some sys) fs = Inr t" by auto
  then obtain dfs where src: "source_tables (kline_dir base source market market_sub) tf years sys fs = Inr dfs"
    and ne: "dfs \<noteq> []" and t: "t = sort_klines (combine dfs)"
    by (auto simp: kline_spec_def Let_def split: if_splits sum.splits)
  have "rows (combine dfs) = concat (map rows dfs)"
    using ne by (cases dfs) (auto simp: combine_def concat_tables_def)
  with src t show ?thesis by (auto simp: mset_sort_klines)
qed

end
