(* ===== verification/Kline_Sweep.thy ===== *)
theory Kline_Sweep
  imports Kline_Cache
begin

text \<open>
  What a \<open>load_kline\<close> call leaves in the cache directory, and the behaviours of
  the cache naming and of the janitor that the specification does not
  describe.  A reload writes only the entries of the requested symbols under
  the current stamp (\<open>kline_reload_changes\<close>); after the janitor sweep and
  these writes no entry older than one day is left (\<open>cache_fresh\<close>).
\<close>

definition cache_fresh :: "path \<Rightarrow> int \<Rightarrow> kfs \<Rightarrow> bool" where
  "cache_fresh dir thr fs \<longleftrightarrow>
     (\<forall>n. map_of fs (cache_dir dir @ [n]) \<noteq> None \<longrightarrow> \<not> stamp_expired thr n)"

lemma load_symbol_changes:
  assumes "load_symbol dir tf years ykey ts s fs = (r, fs')" and "map_of fs' q \<noteq> map_of fs q"
  shows "q = cache_dir dir @ [cache_file_name s tf ykey ts]"
  using assms by (cases rule: load_symbol_cases [of dir tf years ykey ts s fs]) (auto simp: update_conv' split: if_splits)

lemma load_symbols_changes:
  "load_symbols dir tf years ykey ts sys fs = (r, fs') \<Longrightarrow> map_of fs' q \<noteq> map_of fs q \<Longrightarrow>
   \<exists>s\<in>set sys. q = cache_dir dir @ [cache_file_name s tf ykey ts]"
proof (induction sys arbitrary: fs r fs')
  case Nil
  then show ?case by simp
next
  case (Cons s ss)
  obtain r1 fs1 where st1: "load_symbol dir tf years ykey ts s fs = (r1, fs1)" by fastforce
  show ?case
  proof (cases r1)
    case (Inl e)
    with Cons.prems st1 load_symbol_changes [OF st1] show ?thesis by (simp add: io_bind_def)
  next
    case (Inr x)
    obtain r2 fs2 where st2: "load_symbols dir tf years ykey ts ss fs1 = (r2, fs2)" by fastforce
    with Cons.prems st1 Inr have fs': "fs' = fs2" by (simp add: io_bind_def split: sum.splits)
    show ?thesis
    proof (cases "map_of fs2 q = map_of fs1 q")
      case True
      with Cons.prems(2) fs' have "map_of fs1 q \<noteq> map_of fs q" by simp
      with load_symbol_changes [OF st1] show ?thesis by simp
    next
      case False
      with Cons.IH [OF st2] show ?thesis by auto
    qed
  qed
qed

lemma kline_reload_changes:
  "kline_reload dir tf years ykey ts sys fs = (r, fs') \<Longrightarrow> map_of fs' q \<noteq> map_of fs q \<Longrightarrow>
   \<exists>s\<in>set sys. q = cache_dir dir @ [cache_file_name s tf ykey ts]"
  by (auto simp: kline_reload_def io_wrap_def io_bind_def split: prod.splits sum.splits if_splits
      dest: load_symbols_changes)

lemma janitor_fresh:
  assumes rd: "cache_ready dir fs0 fs"
  shows "cache_fresh dir (janitor_threshold days now)
           (sweep (cache_dir dir) (janitor_threshold days now) (children fs (cache_dir dir)) fs)"
  unfolding cache_fresh_def
proof (intro allI impI)
  let ?c = "cache_dir dir"
  let ?thr = "janitor_threshold days now"
  fix n
  assume "map_of (sweep ?c ?thr (children fs ?c) fs) (?c @ [n]) \<noteq> None"
  then obtain v where "map_of (sweep ?c ?thr (children fs ?c) fs) (?c @ [n]) = Some v" by blast
  then have "(?c @ [n], v) \<in> set (sweep ?c ?thr (children fs ?c) fs)" by (rule map_of_SomeD)
  then have mem: "(?c @ [n], v) \<in> set fs" and ns: "\<not> swept ?c ?thr (children fs ?c) (?c @ [n], v)"
    by (simp_all add: sweep_def)
  from rd have wf: "fs_wf fs" and ok: "cache_ok dir fs0 fs" by (simp_all add: cache_ready_def)
  have "map_of fs (?c @ [n]) = Some v" using mem fs_wf_distinct [OF wf] by (simp add: map_of_is_SomeI)
  with ok have "v \<noteq> Dir" by (simp add: cache_ok_def cache_entry_ok_def)
  moreover have "n \<in> set (children fs ?c)" using child_in_children [OF mem] by simp
  ultimately show "\<not> stamp_expired ?thr n" using ns by (simp add: swept_def)
qed

lemma clock_stamp_fresh:
  assumes "clock_ok now"
  shows "\<not> stamp_expired (janitor_threshold 1 now) (cache_file_name s tf k (unix_seconds now))"
  using clock_cache_stamp [OF assms] clock_unix_seconds [OF assms]
  by (simp add: stamp_expired_def py_fromtimestamp_def usec_per_day_def)

lemma load_kline_fresh:
  assumes inv: "cache_inv (kline_dir base source market market_sub) fs" and clk: "clock_ok now"
    and sok: "\<forall>s\<in>set sys. symbol_ok s" and y: "years_ok years"
    and tf: "tf \<in> set valid_timeframes" and sys: "symbols = Some sys" and ne: "sys \<noteq> []"
    and ex: "path_exists fs (kline_dir base source market market_sub)"
  shows "cache_fresh (kline_dir base source market market_sub) (janitor_threshold 1 now)
           (snd (load_kline base source market market_sub tf years symbols now fs))"
proof -
  let ?dir = "kline_dir base source market market_sub"
  let ?c = "cache_dir ?dir"
  let ?thr = "janitor_threshold 1 now"
  from inv ex have wf: "fs_wf fs" and d: "is_dir fs ?dir"
    and c: "path_exists fs ?c \<longrightarrow> is_dir fs ?c" and ok: "cache_ok ?dir fs fs"
    by (simp_all add: cache_inv_def)
  from prepare_cache_dir [OF wf d c ok] obtain fs1
    where prep: "(if path_exists fs ?c then io_return () else makedirs ?c) fs = (Inr (), fs1)"
      and rd1: "cache_ready ?dir fs fs1" by blast
  let ?fs2 = "sweep ?c ?thr (children fs1 ?c) fs1"
  have jan: "remove_old_cache ?c 1 now fs1 = (Inr (), ?fs2)" by (rule janitor_sweeps [OF rd1])
  have fresh2: "cache_fresh ?dir ?thr ?fs2" by (rule janitor_fresh [OF rd1])
  from janitor_ready [OF rd1, of 1 now] jan have rd2: "cache_ready ?dir fs ?fs2" by auto
  from rd2 have ok2: "cache_ok ?dir fs ?fs2" by (simp add: cache_ready_def)
  from cache_lookup_sound [OF ok2 sok tf y] obtain r
    where lk: "cache_lookup ?c tf (cache_key_years years) sys ?fs2 = (Inr r, ?fs2)" by blast
  have pre: "load_kline base source market market_sub tf years symbols now fs
      = io_bind (cache_lookup ?c tf (cache_key_years years) sys)
          (\<lambda>c. case c of Some dfs \<Rightarrow> io_return (sort_klines (combine dfs))
                 | None \<Rightarrow> kline_reload ?dir tf years (cache_key_years years) (unix_seconds now) sys) ?fs2"
    using tf ex ne sys prep jan by (simp add: load_kline_def Let_def io_bind_def)
  show ?thesis
  proof (cases r)
    case (Some dfs)
    with pre lk fresh2 show ?thesis by (simp add: io_bind_def)
  next
    case None
    obtain x fs3 where rl: "kline_reload ?dir tf years (cache_key_years years) (unix_seconds now) sys ?fs2 = (x, fs3)"
      by fastforce
    have "cache_fresh ?dir ?thr fs3"
      unfolding cache_fresh_def
    proof (intro allI impI)
      fix n assume n: "map_of fs3 (?c @ [n]) \<noteq> None"
      show "\<not> stamp_expired ?thr n"
      proof (cases "map_of fs3 (?c @ [n]) = map_of ?fs2 (?c @ [n])")
        case True
        with n fresh2 show ?thesis by (simp add: cache_fresh_def)
      next
        case False
        from kline_reload_changes [OF rl False] obtain s
          where "n = cache_file_name s tf (cache_key_years years) (unix_seconds now)" by auto
        with clock_stamp_fresh [OF clk] show ?thesis by simp
      qed
    qed
    with pre lk None rl show ?thesis by (simp add: io_bind_def)
  qed
qed

subsection \<open>Properties\<close>

text \<open>C16: the janitor sweep of \<open>load_kline\<close>.  On a tree with a sound cache, a
  call that passes the argument checks and finds its directory leaves no cache
  entry older than one day behind: an entry whose stamp is before
  \<open>now - 1 day\<close> is gone afterwards.\<close>

theorem load_kline_sweeps_stale:
  assumes "cache_inv (kline_dir base source market market_sub) fs" and "clock_ok now"
    and "\<forall>s\<in>set sys. symbol_ok s" and "years_ok years"
    and "tf \<in> set valid_timeframes" and "symbols = Some sys" and "sys \<noteq> []"
    and "path_exists fs (kline_dir base source market market_sub)"
    and "stamp_expired (janitor_threshold 1 now) n"
  shows "map_of (snd (load_kline base source market market_sub tf years symbols now fs))
           (cache_dir (kline_dir base source market market_sub) @ [n]) = None"
  using load_kline_fresh [OF assms(1-8)] assms(9) unfolding cache_fresh_def by blast

text \<open>C19: an entry of the cache directory whose stamp lies outside the
  \<open>time_t\<close> range makes \<open>datetime.fromtimestamp\<close> raise \<open>OverflowError\<close>, which
  the janitor does not catch: every \<open>load_kline\<close> on that directory fails.\<close>

theorem load_kline_overflow:
  assumes "fs_wf fs" and "tf \<in> set valid_timeframes" and "symbols = Some sys" and "sys \<noteq> []"
    and "path_exists fs (kline_dir base source market market_sub)"
    and "is_dir fs (cache_dir (kline_dir base source market market_sub))"
    and "n \<in> set (children fs (cache_dir (kline_dir base source market market_sub)))"
    and "stamp_overflows n"
  shows "fst (load_kline base source market market_sub tf years symbols now fs) = Inl OverflowError"
proof -
  let ?c = "cache_dir (kline_dir base source market market_sub)"
  have "path_exists fs ?c" using assms(6) by (auto simp: is_dir_def path_exists_def)
  moreover have "list_ex stamp_overflows (children fs ?c)" using assms(7,8) by (auto simp: list_ex_iff)
  ultimately have "fst (remove_old_cache ?c 1 now fs) = Inl OverflowError"
    using remove_old_cache_result [OF assms(1), of ?c 1 now] assms(6) by simp
  then obtain fs' where jan: "remove_old_cache ?c 1 now fs = (Inl OverflowError, fs')"
    by (metis prod.collapse)
  with assms(2-5) \<open>path_exists fs ?c\<close> show ?thesis
    by (simp add: load_kline_def Let_def io_bind_def)
qed

text \<open>C21: when none of the requested symbols has a source directory, the
  \<open>FileNotFoundError\<close> of util.py:376 is raised inside the \<open>try\<close> of
  util.py:321 and leaves as a \<open>RuntimeError\<close>, not as the not-found error the
  specification names.\<close>

theorem load_kline_no_data:
  assumes "cache_inv (kline_dir base source market market_sub) fs" and "clock_ok now"
    and "\<forall>s\<in>set sys. symbol_ok s" and "years_ok years"
    and "tf \<in> set valid_timeframes" and "sys \<noteq> []"
    and "path_exists fs (kline_dir base source market market_sub)"
    and "\<forall>s\<in>set sys. \<not> path_exists fs (kline_dir base source market market_sub @ [s])"
  shows "fst (load_kline base source market market_sub tf years (Some sys) now fs)
           = Inl (RuntimeError ''Error loading kline files'' (FileNotFoundError NoDataForSymbols))"
proof -
  have "source_tables (kline_dir base source market market_sub) tf years sys fs = Inr []"
    using assms(8) by (induction sys) (simp_all add: read_symbol_source_def)
  moreover have "\<forall>sys'\<in>set_option (Some sys). \<forall>s\<in>set sys'. symbol_ok s" using assms(3) by simp
  ultimately show ?thesis
    using load_kline_state [OF assms(1,2) _ assms(4), where tf = tf and symbols = "Some sys"] assms(5-7)
    by (auto simp: kline_spec_def)
qed

end
