(* ===== verification/Kline_Reuse.thy ===== *)
theory Kline_Reuse
  imports Kline_Cache
begin

text \<open>
  The cache makes progress: a successful \<open>load_kline\<close> call leaves, for every
  requested symbol that has source data, an entry that the lookup of the same
  key finds, so the lookup of util.py:293-309 on the resulting tree is a full
  hit: a repeated call is served from the cache as long as the janitor keeps
  these entries.
\<close>

lemma cache_lookup_None:
  "cache_lookup cdir tf k sys fs = (Inr None, fs') \<Longrightarrow> \<exists>s\<in>set sys. glob fs cdir (cache_pattern s tf k) = []"
proof (induction sys arbitrary: fs')
  case (Cons s ss)
  show ?case
  proof (cases "glob fs cdir (cache_pattern s tf k) = []")
    case False
    with Cons.prems obtain t where "cache_lookup cdir tf k ss fs = (Inr None, fs')"
      by (auto simp: Let_def io_bind_def read_parquet_def split: option.splits node.splits sum.splits prod.splits)
    with Cons.IH show ?thesis by auto
  qed simp
qed simp

lemma cache_file_in_glob:
  assumes s: "symbol_ok s" and tf: "tf \<in> set valid_timeframes" and y: "years_ok years"
    and d: "is_dir fs cdir" and e: "map_of fs (cdir @ [cache_file_name s tf (cache_key_years years) ts]) \<noteq> None"
  shows "glob fs cdir (cache_pattern s tf (cache_key_years years)) \<noteq> []"
proof -
  let ?n = "cache_file_name s tf (cache_key_years years) ts"
  have "?n \<in> set (children fs cdir)" using e by (simp add: in_children_iff)
  moreover have "fnmatch (cache_pattern s tf (cache_key_years years)) ?n"
    using cache_name_matches [OF s s tf tf years_key_chars [OF y] years_key_chars [OF y]] by simp
  moreover have "\<not> hidden ?n"
    using s by (cases s) (auto simp: hidden_def symbol_ok_def cache_file_name_def)
  ultimately show ?thesis using d by (auto simp: glob_def filter_empty_conv)
qed

lemma load_symbol_written:
  "load_symbol dir tf years ykey ts s fs = (Inr (Some t), fs') \<Longrightarrow>
   map_of fs' (cache_dir dir @ [cache_file_name s tf ykey ts]) = Some (Parquet t)"
  by (cases rule: load_symbol_cases [of dir tf years ykey ts s fs]) (auto simp: update_conv')

lemma load_symbol_keeps:
  "load_symbol dir tf years ykey ts s fs = (r, fs') \<Longrightarrow> map_of fs q \<noteq> None \<Longrightarrow> map_of fs' q \<noteq> None"
  by (cases rule: load_symbol_cases [of dir tf years ykey ts s fs]) (auto simp: update_conv')

lemma load_symbols_keeps:
  "load_symbols dir tf years ykey ts sys fs = (r, fs') \<Longrightarrow> map_of fs q \<noteq> None \<Longrightarrow> map_of fs' q \<noteq> None"
proof (induction sys arbitrary: fs r fs')
  case (Cons s ss)
  obtain r1 fs1 where st1: "load_symbol dir tf years ykey ts s fs = (r1, fs1)" by fastforce
  have k1: "map_of fs1 q \<noteq> None" using load_symbol_keeps [OF st1 Cons.prems(2)] .
  show ?case
  proof (cases r1)
    case (Inl e)
    with Cons.prems st1 k1 show ?thesis by (simp add: io_bind_def)
  next
    case (Inr x)
    obtain r2 fs2 where st2: "load_symbols dir tf years ykey ts ss fs1 = (r2, fs2)" by fastforce
    with Cons.prems st1 Inr have "fs' = fs2" by (simp add: io_bind_def split: sum.splits)
    with Cons.IH [OF st2 k1] show ?thesis by simp
  qed
qed simp

lemma load_symbols_writes:
  assumes "cache_ready dir fs0 fs" and "\<forall>s\<in>set sys. symbol_ok s" and tf: "tf \<in> set valid_timeframes"
    and y: "years_ok years" and nov: "\<forall>s. \<not> stamp_overflows (cache_file_name s tf (cache_key_years years) ts)"
    and "load_symbols dir tf years (cache_key_years years) ts sys fs = (Inr dfs, fs')"
    and "s \<in> set sys" and src: "fst (read_symbol_source dir tf years s fs0) = Inr (Some t)"
  shows "map_of fs' (cache_dir dir @ [cache_file_name s tf (cache_key_years years) ts]) \<noteq> None"
  using assms(1,2,6,7)
proof (induction sys arbitrary: fs dfs fs')
  case (Cons s1 ss)
  from Cons.prems(2) have s1: "symbol_ok s1" and ss: "\<forall>s\<in>set ss. symbol_ok s" by simp_all
  from load_symbol_step [OF Cons.prems(1) s1 tf y nov [rule_format]] obtain fs1
    where st1: "load_symbol dir tf years (cache_key_years years) ts s1 fs
                 = (fst (read_symbol_source dir tf years s1 fs0), fs1)"
      and rd1: "cache_ready dir fs0 fs1" by blast
  from Cons.prems(3) st1 obtain x dfs2 where x: "fst (read_symbol_source dir tf years s1 fs0) = Inr x"
    and st2: "load_symbols dir tf years (cache_key_years years) ts ss fs1 = (Inr dfs2, fs')"
    by (auto simp: io_bind_def split: sum.splits prod.splits)
  show ?case
  proof (cases "s = s1")
    case True
    with src x st1 have "load_symbol dir tf years (cache_key_years years) ts s1 fs = (Inr (Some t), fs1)" by simp
    then have "map_of fs1 (cache_dir dir @ [cache_file_name s tf (cache_key_years years) ts]) \<noteq> None"
      using True by (simp add: load_symbol_written)
    with st2 show ?thesis by (rule load_symbols_keeps)
  next
    case False
    with Cons.prems(4) have "s \<in> set ss" by simp
    with Cons.IH [OF rd1 ss st2] show ?thesis .
  qed
qed simp

text \<open>C6: progress of the cache.  After a successful \<open>load_kline\<close> call on a
  tree with a sound cache, valid clock, plain symbols and digit-string years,
  where every requested symbol has source data, the cache lookup of the same
  key on the resulting tree is a full hit: a repeated call is served from the
  cache as long as the janitor keeps these entries.\<close>

theorem load_kline_populates_cache:
  assumes inv: "cache_inv (kline_dir base source market market_sub) fs" and clk: "clock_ok now"
    and sok: "\<forall>s\<in>set sys. symbol_ok s" and y: "years_ok years" and sys: "symbols = Some sys"
    and data: "\<forall>s\<in>set sys. \<exists>t. fst (read_symbol_source (kline_dir base source market market_sub) tf years s fs)
                                   = Inr (Some t)"
    and run: "load_kline base source market market_sub tf years symbols now fs = (Inr u, fs')"
  shows "\<exists>dfs. cache_lookup (cache_dir (kline_dir base source market market_sub)) tf (cache_key_years years) sys fs'
                = (Inr (Some dfs), fs')"
proof -
  let ?dir = "kline_dir base source market market_sub"
  let ?c = "cache_dir ?dir"
  have tf: "tf \<in> set valid_timeframes" and ne: "sys \<noteq> []" and ex: "path_exists fs ?dir"
    using run sys by (auto simp: load_kline_def Let_def split: if_splits)
  from inv ex have wf: "fs_wf fs" and d: "is_dir fs ?dir"
    and c: "path_exists fs ?c \<longrightarrow> is_dir fs ?c" and ok: "cache_ok ?dir fs fs"
    by (simp_all add: cache_inv_def)
  from prepare_cache_dir [OF wf d c ok] obtain fs1
    where prep: "(if path_exists fs ?c then io_return () else makedirs ?c) fs = (Inr (), fs1)"
      and rd1: "cache_ready ?dir fs fs1" by blast
  from janitor_ready [OF rd1] obtain fs2
    where jan: "remove_old_cache ?c 1 now fs1 = (Inr (), fs2)" and rd2: "cache_ready ?dir fs fs2" by blast
  from rd2 have ok2: "cache_ok ?dir fs fs2" by (simp add: cache_ready_def)
  from cache_lookup_sound [OF ok2 sok tf y] obtain r
    where lk: "cache_lookup ?c tf (cache_key_years years) sys fs2 = (Inr r, fs2)" by blast
  have pre: "load_kline base source market market_sub tf years symbols now fs
      = io_bind (cache_lookup ?c tf (cache_key_years years) sys)
          (\<lambda>c. case c of Some dfs \<Rightarrow> io_return (sort_klines (combine dfs))
                 | None \<Rightarrow> kline_reload ?dir tf years (cache_key_years years) (unix_seconds now) sys) fs2"
    using tf ex ne sys prep jan by (simp add: load_kline_def Let_def io_bind_def)
  show ?thesis
  proof (cases r)
    case (Some dfs)
    with pre lk run show ?thesis by (simp add: io_bind_def)
  next
    case None
    with pre lk run have rl: "kline_reload ?dir tf years (cache_key_years years) (unix_seconds now) sys fs2 = (Inr u, fs')"
      by (simp add: io_bind_def)
    then obtain dfs where ls: "load_symbols ?dir tf years (cache_key_years years) (unix_seconds now) sys fs2 = (Inr dfs, fs')"
      by (auto simp: kline_reload_def io_wrap_def io_bind_def split: prod.splits sum.splits if_splits)
    from load_symbols_run [OF rd2 sok tf y clock_stamp_ok [OF clk, THEN allI]] ls
    have rd3: "cache_ready ?dir fs fs'" by auto
    then have ok3: "cache_ok ?dir fs fs'" and c3: "is_dir fs' ?c" by (simp_all add: cache_ready_def)
    have "glob fs' ?c (cache_pattern s tf (cache_key_years years)) \<noteq> []" if s: "s \<in> set sys" for s
    proof -
      from data s obtain t where "fst (read_symbol_source ?dir tf years s fs) = Inr (Some t)" by blast
      from load_symbols_writes [OF rd2 sok tf y clock_stamp_ok [OF clk, THEN allI] ls s this]
      show ?thesis using sok s tf y c3 by (intro cache_file_in_glob) simp_all
    qed
    note full = this
    from cache_lookup_sound [OF ok3 sok tf y] obtain r'
      where lk3: "cache_lookup ?c tf (cache_key_years years) sys fs' = (Inr r', fs')" by blast
    have "r' \<noteq> None"
    proof
      assume "r' = None"
      with lk3 cache_lookup_None obtain s where "s \<in> set sys"
        and "glob fs' ?c (cache_pattern s tf (cache_key_years years)) = []" by blast
      with full show False by blast
    qed
    with lk3 show ?thesis by auto
  qed
qed

end
