(* ===== verification/Moving_Average.thy ===== *)
theory Moving_Average
  imports Kline_Loader
begin

text \<open>
  The moving-average annotator \<open>load_ticker_set_sma\<close> (src/sma.py:7-31): load the
  klines with \<open>load_kline\<close>, then add the columns \<open>ma7\<close>, \<open>ma25\<close> and \<open>ma99\<close>,
  each \<open>df.groupby('symbol')['Close'].transform(lambda x: x.rolling(window=w,
  min_periods=1).mean())\<close>.  A pandas rolling mean with \<open>min_periods=1\<close> at
  position \<open>k\<close> of a series is the mean of its last \<open>min(w, k+1)\<close> values
  (\<open>rolling_mean\<close>); \<open>transform\<close> applies it to the \<open>Close\<close> series of each
  symbol in row order and puts each value back at its row (\<open>group_transform\<close>).
  Assigning a new column appends it; assigning an existing one keeps its
  position (\<open>add_column\<close>).  \<open>Close\<close> is a real number, so the NaN handling of
  pandas does not arise.
\<close>

text \<open>A row of the annotated table: the kline row and the three new columns.\<close>

record sma_row = kline_row +
  ma7 :: real
  ma25 :: real
  ma99 :: real

definition mean :: "real list \<Rightarrow> real" where
  "mean xs = sum_list xs / real (length xs)"

text \<open>\<open>Series.rolling(window=w, min_periods=1).mean()\<close>.\<close>

definition rolling_mean :: "nat \<Rightarrow> real list \<Rightarrow> real list" where
  "rolling_mean w xs = map (\<lambda>i. mean (drop (Suc i - w) (take (Suc i) xs))) [0..<length xs]"

text \<open>\<open>df.groupby(key)[val].transform(f)\<close>: row \<open>i\<close> gets the value of \<open>f\<close> on
  its group's series at its own position in the group.\<close>

definition group_transform :: "('a \<Rightarrow> 'k) \<Rightarrow> ('a \<Rightarrow> real) \<Rightarrow> (real list \<Rightarrow> real list) \<Rightarrow> 'a list \<Rightarrow> real list" where
  "group_transform key val f rs =
     map (\<lambda>i. let grp = filter (\<lambda>r. key r = key (rs ! i)) rs in
               f (map val grp) ! length (filter (\<lambda>r. key r = key (rs ! i)) (take i rs)))
       [0..<length rs]"

text \<open>\<open>df[c] = ...\<close> on the column list.\<close>

definition add_column :: "string \<Rightarrow> string list \<Rightarrow> string list" where
  "add_column c cs = (if c \<in> set cs then cs else cs @ [c])"

text \<open>sma.py:27-29.\<close>

definition sma_table :: "ktable \<Rightarrow> sma_row table" where
  "sma_table t =
     (let rs = rows t;
          m7 = group_transform symbol Close (rolling_mean 7) rs;
          m25 = group_transform symbol Close (rolling_mean 25) rs;
          m99 = group_transform symbol Close (rolling_mean 99) rs in
      \<lparr>columns = add_column ''ma99'' (add_column ''ma25'' (add_column ''ma7'' (columns t))),
       rows = map (\<lambda>(r, a, b, c). kline_row.extend r (sma_row.fields a b c)) (zip rs (zip m7 (zip m25 m99)))\<rparr>)"

text \<open>sma.py:7-31.\<close>

definition load_ticker_set_sma ::
  "path \<Rightarrow> string \<Rightarrow> string \<Rightarrow> string \<Rightarrow> string \<Rightarrow> string list option \<Rightarrow> string list option \<Rightarrow> int
   \<Rightarrow> (sma_row table, kfs) io" where
  "load_ticker_set_sma base source market market_sub ticker years symbols now =
     io_bind (load_kline base source market market_sub ticker years symbols now) (\<lambda>df. io_return (sma_table df))"


text \<open>The last \<open>w\<close> elements of a list (all of them if there are fewer).\<close>

definition trailing :: "nat \<Rightarrow> 'a list \<Rightarrow> 'a list" where
  "trailing w xs = drop (length xs - w) xs"

lemma length_group_transform [simp]: "length (group_transform key val f rs) = length rs"
  by (simp add: group_transform_def)

lemma filter_take_prefix:
  "take (length (filter P (take n xs))) (filter P xs) = filter P (take n xs)"
proof -
  have "filter P xs = filter P (take n xs) @ filter P (drop n xs)"
    by (metis append_take_drop_id filter_append)
  then show ?thesis by (metis append_eq_conv_conj)
qed

lemma group_position:
  assumes "i < length rs"
  shows "length (filter (\<lambda>r. key r = key (rs ! i)) (take (Suc i) rs))
           = Suc (length (filter (\<lambda>r. key r = key (rs ! i)) (take i rs)))"
  using assms by (simp add: take_Suc_conv_app_nth)

lemma group_rolling_nth:
  assumes i: "i < length rs"
  shows "group_transform key val (rolling_mean w) rs ! i
           = mean (trailing w (map val (filter (\<lambda>r. key r = key (rs ! i)) (take (Suc i) rs))))"
proof -
  let ?P = "\<lambda>r. key r = key (rs ! i)"
  let ?k = "length (filter ?P (take i rs))"
  let ?h = "filter ?P (take (Suc i) rs)"
  have len: "length ?h = Suc ?k" using i by (rule group_position)
  have pre: "take (Suc ?k) (filter ?P rs) = ?h"
    using filter_take_prefix [of ?P "Suc i" rs] len by simp
  have "Suc ?k \<le> length (filter ?P rs)"
    using len pre by (metis length_take min.absorb_iff2 nle_le)
  then have k: "?k < length (map val (filter ?P rs))" by simp
  have "rolling_mean w (map val (filter ?P rs)) ! ?k
          = mean (drop (Suc ?k - w) (take (Suc ?k) (map val (filter ?P rs))))"
    using k by (simp add: rolling_mean_def)
  also have "take (Suc ?k) (map val (filter ?P rs)) = map val ?h"
    by (simp add: take_map pre)
  finally show ?thesis
    using i len by (simp add: group_transform_def trailing_def)
qed

lemma rows_sma_table_length [simp]: "length (rows (sma_table t)) = length (rows t)"
  by (simp add: sma_table_def Let_def)

lemma rows_sma_table_nth:
  assumes "i < length (rows t)"
  shows "rows (sma_table t) ! i
           = kline_row.extend (rows t ! i)
               (sma_row.fields (group_transform symbol Close (rolling_mean 7) (rows t) ! i)
                  (group_transform symbol Close (rolling_mean 25) (rows t) ! i)
                  (group_transform symbol Close (rolling_mean 99) (rows t) ! i))"
  using assms by (simp add: sma_table_def Let_def)

lemma extend_fields [simp]:
  "symbol (kline_row.extend r (sma_row.fields a b c)) = symbol r"
  "time (kline_row.extend r (sma_row.fields a b c)) = time r"
  "Close (kline_row.extend r (sma_row.fields a b c)) = Close r"
  "ma7 (kline_row.extend r (sma_row.fields a b c)) = a"
  "ma25 (kline_row.extend r (sma_row.fields a b c)) = b"
  "ma99 (kline_row.extend r (sma_row.fields a b c)) = c"
  "kline_row.truncate (kline_row.extend r (sma_row.fields a b c)) = r"
  by (simp_all add: kline_row.defs sma_row.defs)

lemma sma_table_nth_fields:
  assumes "i < length (rows t)"
  shows "symbol (rows (sma_table t) ! i) = symbol (rows t ! i)"
    and "Close (rows (sma_table t) ! i) = Close (rows t ! i)"
  using assms by (simp_all add: rows_sma_table_nth)

text \<open>The rows of one symbol's block in a table sorted by symbol: the rows of
  that symbol up to row \<open>i\<close> are the block's rows from its start \<open>j\<close>.\<close>

lemma sorted_block_filter:
  fixes f :: "'a \<Rightarrow> 'b::linorder"
  assumes s: "sorted (map f rs)" and i: "i < length rs" and ji: "j \<le> i"
    and blk: "\<forall>k. j \<le> k \<and> k \<le> i \<longrightarrow> f (rs ! k) = f (rs ! i)"
    and start: "j = 0 \<or> f (rs ! (j - 1)) \<noteq> f (rs ! i)"
  shows "filter (\<lambda>r. f r = f (rs ! i)) (take (Suc i) rs) = drop j (take (Suc i) rs)"
proof -
  have before: "f (rs ! k) \<noteq> f (rs ! i)" if "k < j" for k
  proof
    assume eq: "f (rs ! k) = f (rs ! i)"
    from that start have ne: "f (rs ! (j - 1)) \<noteq> f (rs ! i)" by auto
    have "map f rs ! k \<le> map f rs ! (j - 1)" "map f rs ! (j - 1) \<le> map f rs ! i"
      using that ji i by (intro sorted_nth_mono [OF s]; simp)+
    with that ji i have "f (rs ! k) \<le> f (rs ! (j - 1))" "f (rs ! (j - 1)) \<le> f (rs ! i)" by simp_all
    with eq ne show False by simp
  qed
  have "\<forall>x\<in>set (take j rs). f x \<noteq> f (rs ! i)"
  proof
    fix x assume "x \<in> set (take j rs)"
    then obtain k where "k < length (take j rs)" "x = take j rs ! k" by (auto simp: in_set_conv_nth)
    with before show "f x \<noteq> f (rs ! i)" by simp
  qed
  then have "filter (\<lambda>r. f r = f (rs ! i)) (take j rs) = []" by (simp add: filter_empty_conv)
  moreover have "\<forall>x\<in>set (drop j (take (Suc i) rs)). f x = f (rs ! i)"
  proof
    fix x assume "x \<in> set (drop j (take (Suc i) rs))"
    then obtain m where m: "m < length (drop j (take (Suc i) rs))" "x = drop j (take (Suc i) rs) ! m"
      by (auto simp: in_set_conv_nth)
    with i have x: "x = rs ! (j + m)" and le: "j \<le> j + m \<and> j + m \<le> i" by simp_all
    from blk le have "f (rs ! (j + m)) = f (rs ! i)" by blast
    with x show "f x = f (rs ! i)" by simp
  qed
  then have "filter (\<lambda>r. f r = f (rs ! i)) (drop j (take (Suc i) rs)) = drop j (take (Suc i) rs)"
    by (simp add: filter_id_conv)
  moreover have "take (Suc i) rs = take j rs @ drop j (take (Suc i) rs)"
    using ji by (metis append_take_drop_id le_SucI min.absorb1 take_take)
  ultimately show ?thesis by (metis append_Nil filter_append)
qed

lemma trailing_drop_take:
  "j \<le> i \<Longrightarrow> i < length rs \<Longrightarrow>
   trailing w (drop j (take (Suc i) rs)) = drop (max j (Suc i - w)) (take (Suc i) rs)"
proof -
  assume "j \<le> i" "i < length rs"
  then have "Suc i - j - w + j = max j (Suc i - w)" unfolding max_def by arith
  with \<open>i < length rs\<close> show ?thesis by (simp add: trailing_def add.commute)
qed

lemma sorted_pair_fst: "sorted (map (\<lambda>r. (f r, g r)) rs) \<Longrightarrow> sorted (map f rs)"
  by (induction rs) (auto simp: less_eq_prod_def)

lemma sma_table_nth_ma:
  assumes "i < length (rows t)"
  shows "ma7 (rows (sma_table t) ! i) = group_transform symbol Close (rolling_mean 7) (rows t) ! i"
    and "ma25 (rows (sma_table t) ! i) = group_transform symbol Close (rolling_mean 25) (rows t) ! i"
    and "ma99 (rows (sma_table t) ! i) = group_transform symbol Close (rolling_mean 99) (rows t) ! i"
  using assms by (simp_all add: rows_sma_table_nth)

lemma load_ticker_set_sma_Inr:
  "fst (load_ticker_set_sma base source market market_sub tf years symbols now fs) = Inr t' \<Longrightarrow>
   \<exists>t. fst (load_kline base source market market_sub tf years symbols now fs) = Inr t \<and> t' = sma_table t"
  unfolding load_ticker_set_sma_def by (drule io_bind_fst_Inr) auto

subsection \<open>Properties of the annotator\<close>

text \<open>C13: each moving average of row \<open>i\<close> is the mean of the \<open>Close\<close> values of
  the last 7, 25 or 99 rows of the same symbol up to and including row \<open>i\<close>
  (fewer at the start): no row of another symbol enters the window.\<close>

theorem sma_table_window:
  assumes "i < length (rows t)"
  shows "ma7 (rows (sma_table t) ! i)
           = mean (trailing 7 (map Close (filter (\<lambda>r. symbol r = symbol (rows t ! i)) (take (Suc i) (rows t)))))
       \<and> ma25 (rows (sma_table t) ! i)
           = mean (trailing 25 (map Close (filter (\<lambda>r. symbol r = symbol (rows t ! i)) (take (Suc i) (rows t)))))
       \<and> ma99 (rows (sma_table t) ! i)
           = mean (trailing 99 (map Close (filter (\<lambda>r. symbol r = symbol (rows t ! i)) (take (Suc i) (rows t)))))"
  using assms by (simp add: sma_table_nth_ma group_rolling_nth)

text \<open>C14: on the table \<open>load_ticker_set_sma\<close> returns, sorted by symbol, the
  moving averages of row \<open>i\<close> in the block of its symbol that starts at row
  \<open>j\<close> are the means of the \<open>Close\<close> values of rows \<open>max(j, i-6)..i\<close>,
  \<open>max(j, i-24)..i\<close> and \<open>max(j, i-98)..i\<close>.\<close>

theorem load_ticker_set_sma_block:
  assumes run: "fst (load_ticker_set_sma base source market market_sub tf years symbols now fs) = Inr t'"
    and i: "i < length (rows t')" and ji: "j \<le> i"
    and blk: "\<forall>k. j \<le> k \<and> k \<le> i \<longrightarrow> symbol (rows t' ! k) = symbol (rows t' ! i)"
    and start: "j = 0 \<or> symbol (rows t' ! (j - 1)) \<noteq> symbol (rows t' ! i)"
  shows "ma7 (rows t' ! i) = mean (map Close (drop (max j (i - 6)) (take (Suc i) (rows t'))))
       \<and> ma25 (rows t' ! i) = mean (map Close (drop (max j (i - 24)) (take (Suc i) (rows t'))))
       \<and> ma99 (rows t' ! i) = mean (map Close (drop (max j (i - 98)) (take (Suc i) (rows t'))))"
proof -
  from load_ticker_set_sma_Inr [OF run] obtain t where
    ld: "fst (load_kline base source market market_sub tf years symbols now fs) = Inr t" and t': "t' = sma_table t"
    by blast
  from load_kline_Inr_sorted [OF ld] obtain u where "t = sort_klines u" by blast
  then have "sorted (map symbol (rows t))" using sort_klines_sorted by (metis sorted_pair_fst)
  let ?rs = "rows t"
  have i': "i < length ?rs" using i t' by simp
  have sym: "symbol (rows t' ! k) = symbol (?rs ! k)" if "k < length ?rs" for k
    using that t' by (simp add: sma_table_nth_fields)
  have blk': "\<forall>k. j \<le> k \<and> k \<le> i \<longrightarrow> symbol (?rs ! k) = symbol (?rs ! i)"
    using blk i' sym by (metis le_less_trans)
  have start': "j = 0 \<or> symbol (?rs ! (j - 1)) \<noteq> symbol (?rs ! i)"
    using start i' ji sym by (metis diff_le_self le_less_trans)
  have hist: "filter (\<lambda>r. symbol r = symbol (?rs ! i)) (take (Suc i) ?rs) = drop j (take (Suc i) ?rs)"
    by (rule sorted_block_filter) fact+
  have closes: "map Close (drop m (take (Suc i) ?rs)) = map Close (drop m (take (Suc i) (rows t')))" for m
    using i' t' by (intro nth_equalityI) (simp_all add: sma_table_nth_fields)
  have win: "trailing w (map Close (drop j (take (Suc i) ?rs)))
               = map Close (drop (max j (Suc i - w)) (take (Suc i) (rows t')))" for w
  proof -
    have "trailing w (map Close (drop j (take (Suc i) ?rs))) = map Close (trailing w (drop j (take (Suc i) ?rs)))"
      by (simp add: trailing_def drop_map)
    also have "\<dots> = map Close (drop (max j (Suc i - w)) (take (Suc i) ?rs))"
      by (simp only: trailing_drop_take [OF ji i'])
    finally show ?thesis by (simp only: closes)
  qed
  show ?thesis
    using i' t' win [of 7] win [of 25] win [of 99] hist
    by (simp add: sma_table_nth_ma group_rolling_nth)
qed

text \<open>C15: the docstring of \<open>load_ticker_set_sma\<close> says that \<open>symbols=None\<close>
  loads all symbols; the call raises the \<open>ValueError\<close> of \<open>load_kline\<close>.\<close>

theorem load_ticker_set_sma_no_symbols:
  "tf \<in> set valid_timeframes \<Longrightarrow>
   load_ticker_set_sma base source market market_sub tf years None now fs = (Inl (ValueError SymbolsRequired), fs)"
  by (simp add: load_ticker_set_sma_def load_kline_def io_bind_def)


end
