(* ===== verification/Resolver.thy ===== *)
theory Resolver
  imports Kline_Loader
begin

text \<open>
  The file resolver of src/util.py: \<open>find_latest_file\<close> (util.py:41-86), which
  picks among the files matching a pattern the one whose name ends in the
  latest date; the loaders built on it, \<open>load_parquet\<close> (util.py:88-183) and
  \<open>load_funding_rate\<close> (util.py:188-221); and the symbol enumeration
  \<open>load_kline_symbols\<close> (util.py:394-423).  Dates are naive \<open>datetime\<close>s.
  \<open>datetime.strptime\<close> is modelled for the two formats the code uses, with the
  regular expressions of CPython's \<open>_strptime\<close>; \<open>datetime.fromisoformat\<close>,
  whose accepted inputs depend on the Python version, is a parameter of the
  definitions, and every property holds for any choice of it.
\<close>

subsection \<open>Dates\<close>

text \<open>A naive \<open>datetime\<close>: year, month, day, hour, minute, second, microsecond.
  Naive datetimes compare field by field.\<close>

datatype datetime = DateTime int int int int int int int

fun dt_fields :: "datetime \<Rightarrow> int \<times> int \<times> int \<times> int \<times> int \<times> int \<times> int" where
  "dt_fields (DateTime y m d h mi s us) = (y, m, d, h, mi, s, us)"

instantiation datetime :: linorder
begin

definition less_eq_datetime :: "datetime \<Rightarrow> datetime \<Rightarrow> bool" where
  "less_eq_datetime x y \<longleftrightarrow> dt_fields x \<le> dt_fields y"

definition less_datetime :: "datetime \<Rightarrow> datetime \<Rightarrow> bool" where
  "less_datetime x y \<longleftrightarrow> dt_fields x < dt_fields y"

instance
proof
  have inj: "dt_fields x = dt_fields y \<Longrightarrow> x = y" for x y by (cases x; cases y) simp
  fix x y z :: datetime
  show "x < y \<longleftrightarrow> x \<le> y \<and> \<not> y \<le> x" by (simp add: less_eq_datetime_def less_datetime_def less_le_not_le)
  show "x \<le> x" by (simp add: less_eq_datetime_def)
  show "x \<le> y \<Longrightarrow> y \<le> z \<Longrightarrow> x \<le> z" by (simp add: less_eq_datetime_def)
  show "x \<le> y \<Longrightarrow> y \<le> x \<Longrightarrow> x = y" by (simp add: less_eq_datetime_def inj)
  show "x \<le> y \<or> y \<le> x" by (simp add: less_eq_datetime_def linear)
qed

end

definition is_leap :: "int \<Rightarrow> bool" where
  "is_leap y \<longleftrightarrow> y mod 4 = 0 \<and> (y mod 100 \<noteq> 0 \<or> y mod 400 = 0)"

definition days_in_month :: "int \<Rightarrow> int \<Rightarrow> int" where
  "days_in_month y m =
     (if m = 2 then (if is_leap y then 29 else 28)
      else if m \<in> {4, 6, 9, 11} then 30 else 31)"

definition digit_int :: "char \<Rightarrow> int" where
  "digit_int c = int (digit_val c)"

text \<open>The alternatives of the \<open>%m\<close> directive, \<open>1[0-2]|0[1-9]|[1-9]\<close>, in
  the order the regular expression tries them.\<close>

definition month_alts :: "string \<Rightarrow> (int \<times> string) list" where
  "month_alts s =
     (case s of c1 # c2 # r \<Rightarrow> if c1 = CHR ''1'' \<and> c2 \<in> set ''012'' then [(10 + digit_int c2, r)] else [] | _ \<Rightarrow> [])
     @ (case s of c1 # c2 # r \<Rightarrow> if c1 = CHR ''0'' \<and> c2 \<in> set ''123456789'' then [(digit_int c2, r)] else [] | _ \<Rightarrow> [])
     @ (case s of c # r \<Rightarrow> if c \<in> set ''123456789'' then [(digit_int c, r)] else [] | _ \<Rightarrow> [])"

text \<open>The alternatives of \<open>%d\<close>, \<open>3[01]|[12]\<d>|0[1-9]|[1-9]| [1-9]\<close>.\<close>

definition day_alts :: "string \<Rightarrow> (int \<times> string) list" where
  "day_alts s =
     (case s of c1 # c2 # r \<Rightarrow> if c1 = CHR ''3'' \<and> c2 \<in> set ''01'' then [(30 + digit_int c2, r)] else [] | _ \<Rightarrow> [])
     @ (case s of c1 # c2 # r \<Rightarrow> if c1 \<in> set ''12'' \<and> is_digit c2 then [(10 * digit_int c1 + digit_int c2, r)] else [] | _ \<Rightarrow> [])
     @ (case s of c1 # c2 # r \<Rightarrow> if c1 = CHR ''0'' \<and> c2 \<in> set ''123456789'' then [(digit_int c2, r)] else [] | _ \<Rightarrow> [])
     @ (case s of c # r \<Rightarrow> if c \<in> set ''123456789'' then [(digit_int c, r)] else [] | _ \<Rightarrow> [])
     @ (case s of c1 # c2 # r \<Rightarrow> if c1 = CHR '' '' \<and> c2 \<in> set ''123456789'' then [(digit_int c2, r)] else [] | _ \<Rightarrow> [])"

text \<open>\<open>datetime.strptime(s, '%Y%m%d')\<close> (\<open>sep = []\<close>) and
  \<open>datetime.strptime(s, '%Y-%m-%d')\<close> (\<open>sep = ''-''\<close>): the first match of the
  format's regular expression, then \<open>unconverted data remains\<close> if it does
  not reach the end, then the calendar check of \<open>datetime.date\<close>.  \<open>None\<close> is
  the \<open>ValueError\<close>.\<close>

definition strptime_ymd :: "string \<Rightarrow> string \<Rightarrow> datetime option" where
  "strptime_ymd sep s =
     (if length s < 4 \<or> \<not> (\<forall>c\<in>set (take 4 s). is_digit c) \<or> take (length sep) (drop 4 s) \<noteq> sep
      then None
      else let y = int (digits_val (take 4 s));
               cands = [(m, d, rest). (m, r) \<leftarrow> month_alts (drop (4 + length sep) s), take (length sep) r = sep,
                                     (d, rest) \<leftarrow> day_alts (drop (length sep) r)] in
        case cands of
          [] \<Rightarrow> None
        | (m, d, rest) # _ \<Rightarrow>
            if rest \<noteq> [] then None
            else if y < 1 \<or> d > days_in_month y m then None
            else Some (DateTime y m d 0 0 0 0))"

text \<open>The date tokens of the file-naming convention: \<open>YYYYMMDD\<close> and
  \<open>YYYY-MM-DD\<close>, zero-padded.\<close>

definition zpad :: "nat \<Rightarrow> nat \<Rightarrow> string" where
  "zpad k n = replicate (k - length (show_nat n)) (CHR ''0'') @ show_nat n"

definition ymd_token :: "string \<Rightarrow> int \<Rightarrow> int \<Rightarrow> int \<Rightarrow> string" where
  "ymd_token sep y m d = zpad 4 (nat y) @ sep @ zpad 2 (nat m) @ sep @ zpad 2 (nat d)"

text \<open>The end date of a file name (util.py:62-81): \<open>.parquet\<close> removed, split at
  \<open>_\<close>, the last of at least four fields parsed by its length.
  \<open>datetime.fromisoformat\<close> differs between Python versions; it is the
  parameter \<open>fromiso\<close> (\<open>None\<close> its \<open>ValueError\<close>).\<close>

definition end_date ::
  "(string \<Rightarrow> datetime option) \<Rightarrow> string \<Rightarrow> datetime option" where
  "end_date fromiso tok =
     (if length tok = 8 then strptime_ymd [] tok
      else if length tok = 10 then strptime_ymd ''-'' tok
      else fromiso (py_replace ''_'' ''-'' tok))"

definition file_date :: "(string \<Rightarrow> datetime option) \<Rightarrow> string \<Rightarrow> datetime option" where
  "file_date fromiso fname =
     (let parts = py_split CHR ''_'' (py_replace ''.parquet'' [] fname) in
      if 4 \<le> length parts then end_date fromiso (last parts) else None)"

text \<open>The loop of util.py:61-81: a file replaces the current one only when its
  date is strictly later.\<close>

fun latest_loop ::
  "(string \<Rightarrow> datetime option) \<Rightarrow> path list \<Rightarrow> (path \<times> datetime) option \<Rightarrow> (path \<times> datetime) option" where
  "latest_loop fromiso [] acc = acc"
| "latest_loop fromiso (p # ps) acc =
     latest_loop fromiso ps
       (case file_date fromiso (last p) of
          None \<Rightarrow> acc
        | Some d \<Rightarrow> (case acc of None \<Rightarrow> Some (p, d) | Some (q, e) \<Rightarrow> if e < d then Some (p, d) else acc))"

text \<open>\<open>find_latest_file(os.path.join(d, pat))\<close> (util.py:41-86).\<close>

definition find_latest_file ::
  "(string \<Rightarrow> datetime option) \<Rightarrow> path \<Rightarrow> string \<Rightarrow> (path, 'r fs) io" where
  "find_latest_file fromiso d pat fs =
     (let files = glob fs d pat in
      if files = [] then (Inl (FileNotFoundError (NoFilesMatching (d @ [pat]))), fs)
      else case latest_loop fromiso files None of
        None \<Rightarrow> (Inl (FileNotFoundError (NoValidFiles (d @ [pat]))), fs)
      | Some (p, _) \<Rightarrow> (Inr p, fs))"

subsection \<open>load_parquet and load_funding_rate\<close>

text \<open>\<open>str.lower()\<close> and \<open>str.upper()\<close> on ASCII letters.  A column name is
  renamed only when its \<open>lower()\<close> is one of five ASCII words, which holds
  exactly when its ASCII-lowered form is (\<open>str.lower\<close> maps no other 8-bit
  character to an ASCII letter), and every character of such a name is an
  ASCII letter.\<close>

definition ascii_lower :: "char \<Rightarrow> char" where
  "ascii_lower c = (case map_of (zip ''ABCDEFGHIJKLMNOPQRSTUVWXYZ'' ''abcdefghijklmnopqrstuvwxyz'') c of
                      Some c' \<Rightarrow> c' | None \<Rightarrow> c)"

definition ascii_upper :: "char \<Rightarrow> char" where
  "ascii_upper c = (case map_of (zip ''abcdefghijklmnopqrstuvwxyz'' ''ABCDEFGHIJKLMNOPQRSTUVWXYZ'') c of
                      Some c' \<Rightarrow> c' | None \<Rightarrow> c)"

definition py_capitalize :: "string \<Rightarrow> string" where
  "py_capitalize s = (case s of [] \<Rightarrow> [] | c # cs \<Rightarrow> ascii_upper c # map ascii_lower cs)"

text \<open>util.py:178-180: \<open>df.rename(columns={c: c.capitalize() ...})\<close>.\<close>

definition rename_ohlcv :: "string list \<Rightarrow> string list" where
  "rename_ohlcv cs =
     map (\<lambda>c. if map ascii_lower c \<in> set [''open'', ''high'', ''low'', ''close'', ''volume'']
              then py_capitalize c else c) cs"

text \<open>The directory of a dataset (util.py:111-114).\<close>

definition dataset_dir :: "path \<Rightarrow> string \<Rightarrow> string \<Rightarrow> string \<Rightarrow> string \<Rightarrow> string \<Rightarrow> path" where
  "dataset_dir base source market market_sub data_type sy =
     (if market = ''spot'' then base @ [source, market, data_type, sy]
      else base @ [source, market, market_sub, data_type, sy])"

text \<open>The aggTrades year filter of util.py:129-136: a plain substring test.\<close>

definition agg_year_filter :: "string list option \<Rightarrow> path list \<Rightarrow> path list" where
  "agg_year_filter years files =
     (case years of None \<Rightarrow> files | Some ys \<Rightarrow> filter (\<lambda>f. \<exists>y\<in>set ys. py_in y (last f)) files)"

text \<open>util.py:163-167; an f-string renders \<open>detail=None\<close> as \<open>None\<close>.\<close>

definition latest_pattern :: "string \<Rightarrow> string \<Rightarrow> string \<Rightarrow> string \<Rightarrow> string option \<Rightarrow> string" where
  "latest_pattern source market data_type sy detail =
     (if data_type = ''depth'' then sy @ ''_'' @ source @ ''_'' @ market @ ''_*_*.parquet''
      else if data_type = ''trades'' \<or> data_type = ''metrics'' then sy @ ''_'' @ data_type @ ''_*_*.parquet''
      else sy @ ''_'' @ (case detail of None \<Rightarrow> ''None'' | Some dt \<Rightarrow> dt) @ ''_*_*.parquet'')"

text \<open>\<open>load_parquet\<close> (util.py:88-183).\<close>

definition load_parquet ::
  "(string \<Rightarrow> datetime option) \<Rightarrow> path \<Rightarrow> string \<Rightarrow> string \<Rightarrow> string \<Rightarrow> string \<Rightarrow> string option
   \<Rightarrow> string option \<Rightarrow> string list option \<Rightarrow> ('r table, 'r fs) io" where
  "load_parquet fromiso base source market market_sub data_type symb detail years fs =
     (case symb of
        None \<Rightarrow> (Inl (ValueError SymbolRequired), fs)
      | Some sy \<Rightarrow>
        let dir = dataset_dir base source market market_sub data_type sy in
        if \<not> path_exists fs dir then (Inl (FileNotFoundError (DirectoryNotFound dir)), fs)
        else if data_type = ''aggTrades'' then
          let pat = sy @ ''_'' @ data_type @ ''_*.parquet'';
              files = glob fs dir pat in
          if files = [] then (Inl (FileNotFoundError (NoFilesMatching (dir @ [pat]))), fs)
          else let files' = agg_year_filter years files in
          if files' = [] then (Inl (FileNotFoundError (NoFilesForYears dir)), fs)
          else io_wrap ''Error loading parquet files''
                 (io_bind (read_all (sort_paths files')) (\<lambda>dfs. io_return (combine dfs))) fs
        else
          io_bind (find_latest_file fromiso dir (latest_pattern source market data_type sy detail))
            (\<lambda>p. io_wrap (''Error loading parquet file '' @ path_str p)
                   (io_bind (read_parquet p) (\<lambda>df. io_return (df\<lparr>columns := rename_ohlcv (columns df)\<rparr>)))) fs)"

text \<open>\<open>load_funding_rate\<close> (util.py:188-221).\<close>

definition load_funding_rate ::
  "(string \<Rightarrow> datetime option) \<Rightarrow> path \<Rightarrow> string \<Rightarrow> string option \<Rightarrow> ('r table, 'r fs) io" where
  "load_funding_rate fromiso base source symb fs =
     (case symb of
        None \<Rightarrow> (Inl (ValueError SymbolRequired), fs)
      | Some sy \<Rightarrow>
        let dir = base @ [source, ''future'', ''um'', ''fundingRate'', sy] in
        if \<not> path_exists fs dir then (Inl (FileNotFoundError (DirectoryNotFound dir)), fs)
        else io_bind (find_latest_file fromiso dir (sy @ ''_fundingRate_*_*.parquet''))
               (\<lambda>p. io_wrap (''Error loading funding rate parquet file '' @ path_str p) (read_parquet p)) fs)"

subsection \<open>load_kline_symbols\<close>

text \<open>util.py:394-423: the subdirectories of the kline directory other than
  \<open>_cache\<close>, sorted.  \<open>os.listdir\<close> raises on a file.\<close>

definition load_kline_symbols :: "path \<Rightarrow> string \<Rightarrow> string \<Rightarrow> string \<Rightarrow> (string list, 'r fs) io" where
  "load_kline_symbols base source market market_sub fs =
     (let dir = kline_dir base source market market_sub in
      if \<not> path_exists fs dir then (Inl (FileNotFoundError (DirectoryNotFound dir)), fs)
      else io_bind (listdir dir)
             (\<lambda>ns. io_return (sort [d \<leftarrow> ns. is_dir fs (dir @ [d]) \<and> d \<noteq> ''_cache''])) fs)"

subsection \<open>The latest file\<close>

lemma latest_loop_Some: "latest_loop f ps (Some x) \<noteq> None"
  by (induction ps arbitrary: x) (auto split: option.splits prod.splits)

lemma latest_loop_None:
  "latest_loop f ps None = None \<longleftrightarrow> (\<forall>q\<in>set ps. file_date f (last q) = None)"
  by (induction ps) (auto simp: latest_loop_Some split: option.splits)

lemma latest_loop_member:
  "latest_loop f ps acc = Some (p, e) \<Longrightarrow> acc = Some (p, e) \<or> (p \<in> set ps \<and> file_date f (last p) = Some e)"
  by (induction ps arbitrary: acc) (fastforce split: option.splits if_splits)+

lemma latest_loop_max:
  "latest_loop f ps acc = Some (p, e) \<Longrightarrow>
   (\<forall>q\<in>set ps. \<forall>e'. file_date f (last q) = Some e' \<longrightarrow> e' \<le> e) \<and> (\<forall>q e0. acc = Some (q, e0) \<longrightarrow> e0 \<le> e)"
proof (induction ps arbitrary: acc)
  case Nil
  then show ?case by simp
next
  case (Cons p' ps)
  show ?case
  proof (cases "file_date f (last p')")
    case None
    with Cons show ?thesis by auto
  next
    case (Some d)
    note dd = this
    show ?thesis
    proof (cases acc)
      case None
      with dd Cons.prems Cons.IH [of "Some (p', d)"] show ?thesis by auto
    next
      case (Some a)
      obtain q e0 where a: "a = (q, e0)" by (cases a)
      show ?thesis
      proof (cases "e0 < d")
        case True
        with dd Some a Cons.prems Cons.IH [of "Some (p', d)"] show ?thesis by auto
      next
        case False
        with dd Some a Cons.prems Cons.IH [of acc] show ?thesis by auto
      qed
    qed
  qed
qed

lemma find_latest_file_state [simp]: "snd (find_latest_file fromiso d pat fs) = fs"
  by (simp add: find_latest_file_def Let_def split: option.splits)

lemma find_latest_file_pure [intro!]: "io_pure (find_latest_file fromiso d pat)"
  by (simp add: io_pure_def)

lemma find_latest_file_Inr:
  assumes "fst (find_latest_file fromiso d pat fs) = Inr p"
  shows "p \<in> set (glob fs d pat) \<and>
         (\<exists>e. file_date fromiso (last p) = Some e
              \<and> (\<forall>q\<in>set (glob fs d pat). \<forall>e'. file_date fromiso (last q) = Some e' \<longrightarrow> e' \<le> e))"
proof -
  from assms obtain e where l: "latest_loop fromiso (glob fs d pat) None = Some (p, e)"
    by (auto simp: find_latest_file_def Let_def split: if_splits option.splits)
  from latest_loop_member [OF l] latest_loop_max [OF l] show ?thesis by auto
qed

subsection \<open>Date tokens\<close>

lemma digits_val_zeros: "digits_val (replicate k (CHR ''0'') @ s) = digits_val s"
proof -
  have "foldl (\<lambda>acc c. 10 * acc + digit_val c) 0 (replicate k (CHR ''0'')) = 0"
    by (induction k) (simp_all add: digit_val_def decimal_digits_def)
  then show ?thesis by (simp add: digits_val_def)
qed

lemma zpad_props:
  assumes "n < 10 ^ k" and "0 < k"
  shows "length (zpad k n) = k" and "digits_val (zpad k n) = n" and "\<forall>c\<in>set (zpad k n). is_digit c"
proof -
  have "length (show_nat n) \<le> k" using assms by (rule length_show_nat)
  then show "length (zpad k n) = k" by (simp add: zpad_def)
  show "digits_val (zpad k n) = n" by (simp add: zpad_def digits_val_zeros digits_val_show_nat)
  show "\<forall>c\<in>set (zpad k n). is_digit c"
  proof
    fix c assume "c \<in> set (zpad k n)"
    then have "c = CHR ''0'' \<or> c \<in> set (show_nat n)" by (auto simp: zpad_def)
    then show "is_digit c"
    proof
      assume "c = CHR ''0''"
      then show ?thesis by (simp add: is_digit_def decimal_digits_def)
    qed (rule show_nat_digits)
  qed
qed

lemma month_alts_zpad:
  assumes "1 \<le> m" and "m \<le> 12"
  shows "\<exists>xs. month_alts (zpad 2 (nat m) @ r) = (m, r) # xs"
proof -
  from assms have "m \<in> set [1..12]" by simp
  then show ?thesis
    by (simp add: upto.simps; elim disjE; simp add: zpad_def month_alts_def digit_int_def eval_simps)
qed

lemma day_alts_zpad:
  assumes "1 \<le> d" and "d \<le> 31"
  shows "\<exists>xs. day_alts (zpad 2 (nat d)) = (d, []) # xs"
proof -
  from assms have "d \<in> set [1..31]" by simp
  then show ?thesis
    by (simp add: upto.simps; elim disjE; simp add: zpad_def day_alts_def digit_int_def eval_simps)
qed

lemma days_in_month_le: "days_in_month y m \<le> 31"
  by (simp add: days_in_month_def)

lemma distinct_children: "distinct (map fst fs) \<Longrightarrow> distinct (children fs d)"
proof (induction fs)
  case (Cons e fs)
  obtain q v where e: "e = (q, v)" by (cases e)
  have "last q \<notin> set (children fs d)" if "q \<noteq> []" "butlast q = d"
  proof
    assume "last q \<in> set (children fs d)"
    then have "map_of fs (d @ [last q]) \<noteq> None" by (simp add: in_children_iff)
    moreover have "d @ [last q] = q" using that by (metis append_butlast_last_id)
    ultimately show False using Cons.prems e by (simp add: map_of_eq_None_iff [symmetric])
  qed
  with Cons e show ?case by auto
qed simp

lemma latest_loop_first:
  "latest_loop f ps acc = Some (p, e) \<Longrightarrow>
     (acc = Some (p, e) \<and> (\<forall>q\<in>set ps. \<forall>e'. file_date f (last q) = Some e' \<longrightarrow> e' \<le> e))
   \<or> (\<exists>i<length ps. ps ! i = p \<and> file_date f (last p) = Some e
        \<and> (\<forall>j<i. \<forall>e'. file_date f (last (ps ! j)) = Some e' \<longrightarrow> e' < e)
        \<and> (\<forall>q e0. acc = Some (q, e0) \<longrightarrow> e0 < e))"
proof (induction ps arbitrary: acc)
  case Nil
  then show ?case by simp
next
  case (Cons p0 ps)
  define acc' where "acc' = (case file_date f (last p0) of None \<Rightarrow> acc
      | Some d \<Rightarrow> (case acc of None \<Rightarrow> Some (p0, d) | Some (q, e) \<Rightarrow> if e < d then Some (p0, d) else acc))"
  have run: "latest_loop f ps acc' = Some (p, e)" using Cons.prems by (simp add: acc'_def)
  from Cons.IH [OF run] show ?case
  proof
    assume a: "acc' = Some (p, e) \<and> (\<forall>q\<in>set ps. \<forall>e'. file_date f (last q) = Some e' \<longrightarrow> e' \<le> e)"
    show ?case
    proof (cases "acc' = acc")
      case True
      with a have "\<forall>e'. file_date f (last p0) = Some e' \<longrightarrow> e' \<le> e"
        by (auto simp: acc'_def split: option.splits if_splits)
      with a True show ?thesis by auto
    next
      case False
      then obtain d where d: "file_date f (last p0) = Some d" and acc': "acc' = Some (p0, d)"
        and lt: "\<forall>q e0. acc = Some (q, e0) \<longrightarrow> e0 < d"
        by (auto simp: acc'_def split: option.splits if_splits)
      with a have "p = p0" "e = d" by simp_all
      with d lt show ?thesis by (intro disjI2 exI [of _ 0]) auto
    qed
  next
    assume "\<exists>i<length ps. ps ! i = p \<and> file_date f (last p) = Some e
        \<and> (\<forall>j<i. \<forall>e'. file_date f (last (ps ! j)) = Some e' \<longrightarrow> e' < e)
        \<and> (\<forall>q e0. acc' = Some (q, e0) \<longrightarrow> e0 < e)"
    then obtain i where i: "i < length ps" "ps ! i = p" "file_date f (last p) = Some e"
      and before: "\<forall>j<i. \<forall>e'. file_date f (last (ps ! j)) = Some e' \<longrightarrow> e' < e"
      and accl: "\<forall>q e0. acc' = Some (q, e0) \<longrightarrow> e0 < e" by blast
    have p0: "\<forall>e'. file_date f (last p0) = Some e' \<longrightarrow> e' < e"
      using accl by (fastforce simp: acc'_def split: option.splits if_splits)
    have acc: "\<forall>q e0. acc = Some (q, e0) \<longrightarrow> e0 < e"
      using accl by (fastforce simp: acc'_def split: option.splits if_splits)
    have "\<forall>j<Suc i. \<forall>e'. file_date f (last ((p0 # ps) ! j)) = Some e' \<longrightarrow> e' < e"
      using before p0 by (auto simp: less_Suc_eq_0_disj)
    with i acc show ?case by (intro disjI2 exI [of _ "Suc i"]) auto
  qed
qed

lemma read_all_Inr:
  "read_all ps fs = (Inr dfs, fs') \<Longrightarrow> fs' = fs \<and> list_all2 (\<lambda>p df. map_of fs p = Some (Parquet df)) ps dfs"
proof (induction ps arbitrary: dfs fs')
  case (Cons p ps)
  then show ?case
    by (auto simp: io_bind_def read_parquet_def split: prod.splits sum.splits option.splits node.splits)
qed simp

lemma py_replace_parquet_suffix:
  "CHR ''.'' \<notin> set s \<Longrightarrow> py_replace ''.parquet'' [] (s @ ''.parquet'') = s"
  by (induction s) simp_all

lemma ymd_token_chars:
  assumes "1 \<le> y" "y \<le> 9999" "1 \<le> m" "m \<le> 12" "1 \<le> d" "d \<le> 31" "sep = [] \<or> sep = ''-''"
  shows "length (ymd_token sep y m d) = (if sep = [] then 8 else 10)"
    and "\<forall>c\<in>set (ymd_token sep y m d). c \<noteq> CHR ''_'' \<and> c \<noteq> CHR ''.''"
proof -
  have y4: "nat y < 10 ^ 4" and m2: "nat m < 10 ^ 2" and d2: "nat d < 10 ^ 2" using assms by simp_all
  note zy = zpad_props [OF y4, simplified] and zm = zpad_props [OF m2, simplified]
    and zd = zpad_props [OF d2, simplified]
  show "length (ymd_token sep y m d) = (if sep = [] then 8 else 10)"
    using assms(7) zy(1) zm(1) zd(1) by (auto simp: ymd_token_def)
  have "\<forall>c\<in>set (ymd_token sep y m d). is_digit c \<or> c = CHR ''-''"
    using assms(7) zy(3) zm(3) zd(3) by (auto simp: ymd_token_def)
  then show "\<forall>c\<in>set (ymd_token sep y m d). c \<noteq> CHR ''_'' \<and> c \<noteq> CHR ''.''"
    using is_digit_not_punct by fastforce
qed

subsection \<open>Properties of the resolver\<close>

text \<open>C22: a table \<open>load_parquet\<close> returns for a non-aggTrades data type is the
  content of one file matching the data type's pattern, with the OHLCV columns
  renamed, and that file carries the latest end date of all matching files
  whose name has a parseable date.\<close>

theorem load_parquet_reads_latest:
  assumes run: "fst (load_parquet fromiso base source market market_sub data_type (Some sy) detail years fs) = Inr t"
    and dt: "data_type \<noteq> ''aggTrades''"
  shows "\<exists>p t0. p \<in> set (glob fs (dataset_dir base source market market_sub data_type sy)
                           (latest_pattern source market data_type sy detail))
           \<and> map_of fs p = Some (Parquet t0) \<and> t = t0\<lparr>columns := rename_ohlcv (columns t0)\<rparr>
           \<and> (\<exists>e. file_date fromiso (last p) = Some e
                  \<and> (\<forall>q\<in>set (glob fs (dataset_dir base source market market_sub data_type sy)
                                   (latest_pattern source market data_type sy detail)).
                       \<forall>e'. file_date fromiso (last q) = Some e' \<longrightarrow> e' \<le> e))"
proof -
  let ?dir = "dataset_dir base source market market_sub data_type sy"
  let ?pat = "latest_pattern source market data_type sy detail"
  have ex: "path_exists fs ?dir"
    using run by (rule contrapos_pp) (simp add: load_parquet_def)
  have body: "load_parquet fromiso base source market market_sub data_type (Some sy) detail years fs
    = io_bind (find_latest_file fromiso ?dir ?pat)
        (\<lambda>p. io_wrap (''Error loading parquet file '' @ path_str p)
               (io_bind (read_parquet p) (\<lambda>df. io_return (df\<lparr>columns := rename_ohlcv (columns df)\<rparr>)))) fs"
    using ex dt by (simp add: load_parquet_def Let_def)
  obtain r where fl: "find_latest_file fromiso ?dir ?pat fs = (r, fs)"
    using find_latest_file_state by (metis prod.collapse)
  show ?thesis
  proof (cases r)
    case (Inl e)
    with run body fl show ?thesis by (simp add: io_bind_def)
  next
    case (Inr p)
    from fl Inr have p: "fst (find_latest_file fromiso ?dir ?pat fs) = Inr p" by simp
    show ?thesis
    proof (cases "map_of fs p")
      case (Some v)
      show ?thesis
      proof (cases v)
        case (Parquet t0)
        with Some run body fl Inr have "t = t0\<lparr>columns := rename_ohlcv (columns t0)\<rparr>"
          by (simp add: io_bind_def io_wrap_def read_parquet_def)
        with find_latest_file_Inr [OF p] Some Parquet show ?thesis by blast
      qed (use Some run body fl Inr in \<open>simp_all add: io_bind_def io_wrap_def read_parquet_def\<close>)
    qed (use run body fl Inr in \<open>simp add: io_bind_def io_wrap_def read_parquet_def\<close>)
  qed
qed

text \<open>C26: a read failure of the funding-rate file is wrapped with its path.
  When \<open>find_latest_file\<close> picks a file that \<open>pd.read_parquet\<close> cannot read,
  \<open>load_funding_rate\<close> raises \<open>RuntimeError\<close> whose message names that file
  and wraps the read error, and changes nothing.\<close>

theorem load_funding_rate_wraps_read_error:
  assumes ex: "path_exists fs (base @ [source, ''future'', ''um'', ''fundingRate'', sy])"
    and latest: "fst (find_latest_file fromiso (base @ [source, ''future'', ''um'', ''fundingRate'', sy])
                       (sy @ ''_fundingRate_*_*.parquet'') fs) = Inr p"
    and bad: "\<forall>t. map_of fs p \<noteq> Some (Parquet t)"
  shows "load_funding_rate fromiso base source (Some sy) fs
           = (Inl (RuntimeError (''Error loading funding rate parquet file '' @ path_str p) (ReadError p)), fs)"
proof -
  have fl: "find_latest_file fromiso (base @ [source, ''future'', ''um'', ''fundingRate'', sy])
              (sy @ ''_fundingRate_*_*.parquet'') fs = (Inr p, fs)"
    using latest find_latest_file_state by (metis prod.collapse)
  have "read_parquet p fs = (Inl (ReadError p), fs)"
    using bad by (auto simp: read_parquet_def split: option.splits node.splits)
  with ex fl show ?thesis by (simp add: load_funding_rate_def Let_def io_bind_def io_wrap_def)
qed

text \<open>C24: ties go to the listing order.  The file \<open>find_latest_file\<close> returns
  has the latest end date, and it is the first file in \<open>glob\<close> order with
  that date: every earlier file has an unparseable or strictly earlier end date.\<close>

theorem find_latest_file_first_latest:
  assumes "fst (find_latest_file fromiso d pat fs) = Inr p"
  shows "\<exists>i e. i < length (glob fs d pat) \<and> glob fs d pat ! i = p \<and> file_date fromiso (last p) = Some e
           \<and> (\<forall>q\<in>set (glob fs d pat). \<forall>e'. file_date fromiso (last q) = Some e' \<longrightarrow> e' \<le> e)
           \<and> (\<forall>j<i. \<forall>e'. file_date fromiso (last (glob fs d pat ! j)) = Some e' \<longrightarrow> e' < e)"
proof -
  from assms obtain e where l: "latest_loop fromiso (glob fs d pat) None = Some (p, e)"
    by (auto simp: find_latest_file_def Let_def split: if_splits option.splits)
  from latest_loop_first [OF l] latest_loop_max [OF l] show ?thesis by blast
qed

text \<open>C25: when files match but none has a parseable end date,
  \<open>find_latest_file\<close> raises \<open>FileNotFoundError\<close>.\<close>

theorem find_latest_file_no_valid:
  assumes "glob fs d pat \<noteq> []" and "\<forall>q\<in>set (glob fs d pat). file_date fromiso (last q) = None"
  shows "find_latest_file fromiso d pat fs = (Inl (FileNotFoundError (NoValidFiles (d @ [pat]))), fs)"
proof -
  have "latest_loop fromiso (glob fs d pat) None = None" using assms(2) by (simp add: latest_loop_None)
  with assms(1) show ?thesis by (simp add: find_latest_file_def)
qed

text \<open>C27: \<open>load_parquet\<close> without a symbol raises \<open>ValueError\<close> and leaves the
  file system untouched.\<close>

theorem load_parquet_symbol_required:
  "load_parquet fromiso base source market market_sub data_type None detail years fs
     = (Inl (ValueError SymbolRequired), fs)"
  by (simp add: load_parquet_def)

text \<open>\<open>strptime\<close> with \<open>'%Y%m%d'\<close> or \<open>'%Y-%m-%d'\<close> reads back every
  calendar date of the years 1 to 9999 from its zero-padded token.\<close>

lemma strptime_ymd_token:
  assumes y: "1 \<le> y" "y \<le> 9999" and m: "1 \<le> m" "m \<le> 12" and d: "1 \<le> d" "d \<le> days_in_month y m"
  shows "strptime_ymd sep (ymd_token sep y m d) = Some (DateTime y m d 0 0 0 0)"
proof -
  have y4: "nat y < 10 ^ 4" using y by simp
  note yp = zpad_props [OF y4, simplified]
  obtain xs where mo: "month_alts (zpad 2 (nat m) @ sep @ zpad 2 (nat d)) = (m, sep @ zpad 2 (nat d)) # xs"
    using month_alts_zpad [OF m] by blast
  have "d \<le> 31" using d days_in_month_le order_trans by blast
  then obtain ys where da: "day_alts (zpad 2 (nat d)) = (d, []) # ys"
    using day_alts_zpad [OF d(1)] by blast
  have tok: "ymd_token sep y m d = zpad 4 (nat y) @ sep @ zpad 2 (nat m) @ sep @ zpad 2 (nat d)"
    by (simp add: ymd_token_def)
  have "take 4 (ymd_token sep y m d) = zpad 4 (nat y)" "drop (4 + length sep) (ymd_token sep y m d) = zpad 2 (nat m) @ sep @ zpad 2 (nat d)"
    "take (length sep) (drop 4 (ymd_token sep y m d)) = sep" "4 \<le> length (ymd_token sep y m d)"
    using yp by (simp_all add: tok)
  with yp mo da y d show ?thesis by (simp add: strptime_ymd_def)
qed

text \<open>C28: round trip of the dated file names.  For a name made of at least
  three fields without \<open>_\<close> or \<open>.\<close> followed by a zero-padded end date
  \<open>YYYYMMDD\<close> or \<open>YYYY-MM-DD\<close> and \<open>.parquet\<close>, the end date
  \<open>find_latest_file\<close> reads (util.py:62-74: strip \<open>.parquet\<close>, split at
  \<open>_\<close>, parse the last field by its length) is that date, whatever
  \<open>datetime.fromisoformat\<close> does.\<close>

theorem file_date_dated_name:
  assumes y: "1 \<le> y" "y \<le> 9999" and m: "1 \<le> m" "m \<le> 12" and d: "1 \<le> d" "d \<le> days_in_month y m"
    and sep: "sep = [] \<or> sep = ''-''"
    and ws: "3 \<le> length ws" "\<forall>w\<in>set ws. CHR ''_'' \<notin> set w \<and> CHR ''.'' \<notin> set w"
  shows "file_date fromiso (py_join ''_'' (ws @ [ymd_token sep y m d]) @ ''.parquet'')
           = Some (DateTime y m d 0 0 0 0)"
proof -
  let ?tok = "ymd_token sep y m d"
  have d31: "d \<le> 31" using d(2) days_in_month_le order_trans by blast
  note tc = ymd_token_chars [OF y m d(1) d31 sep]
  have fields: "\<forall>w\<in>set (ws @ [?tok]). CHR ''_'' \<notin> set w \<and> CHR ''.'' \<notin> set w"
    using ws(2) tc(2) by auto
  have "CHR ''.'' \<notin> set (py_join ''_'' (ws @ [?tok]))"
    using set_py_join [of "''_''" "ws @ [?tok]"] fields by auto
  then have "py_replace ''.parquet'' [] (py_join ''_'' (ws @ [?tok]) @ ''.parquet'') = py_join ''_'' (ws @ [?tok])"
    by (rule py_replace_parquet_suffix)
  moreover have "py_split CHR ''_'' (py_join [CHR ''_''] (ws @ [?tok])) = ws @ [?tok]"
    using fields by (intro py_split_join) auto
  moreover have "end_date fromiso ?tok = Some (DateTime y m d 0 0 0 0)"
    using sep tc(1) strptime_ymd_token [OF y m d] by (auto simp: end_date_def)
  ultimately show ?thesis using ws(1) by (simp add: file_date_def Let_def)
qed

text \<open>C29: \<open>load_kline_symbols\<close> lists, sorted and without repetition, exactly
  the subdirectories of the kline directory other than \<open>_cache\<close>, and changes
  nothing.\<close>

theorem load_kline_symbols_dirs:
  assumes wf: "fs_wf fs" and run: "load_kline_symbols base source market market_sub fs = (Inr ss, fs')"
  shows "fs' = fs \<and> sorted ss \<and> distinct ss
         \<and> set ss = {n. is_dir fs (kline_dir base source market market_sub @ [n]) \<and> n \<noteq> ''_cache''}"
proof -
  let ?dir = "kline_dir base source market market_sub"
  from run have ex: "path_exists fs ?dir" and isd: "is_dir fs ?dir"
    by (auto simp: load_kline_symbols_def Let_def io_bind_def listdir_def split: if_splits)
  have "load_kline_symbols base source market market_sub fs
          = (Inr (sort [n \<leftarrow> children fs ?dir. is_dir fs (?dir @ [n]) \<and> n \<noteq> ''_cache'']), fs)"
    using ex isd by (simp add: load_kline_symbols_def Let_def io_bind_def listdir_def)
  with run have ss: "ss = sort [n \<leftarrow> children fs ?dir. is_dir fs (?dir @ [n]) \<and> n \<noteq> ''_cache'']"
    and fs': "fs' = fs"
    by auto
  have "is_dir fs (?dir @ [n]) \<Longrightarrow> n \<in> set (children fs ?dir)" for n
    by (simp add: is_dir_def in_children_iff)
  then have "set ss = {n. is_dir fs (?dir @ [n]) \<and> n \<noteq> ''_cache''}" by (auto simp: ss)
  moreover have "distinct ss" using distinct_children [OF fs_wf_distinct [OF wf]] by (simp add: ss)
  ultimately show ?thesis by (simp add: ss fs')
qed

text \<open>C23: the aggTrades branch of \<open>load_parquet\<close> (util.py:121-160).  When it
  returns a table, it has read, in ascending path order, exactly the files
  matching \<open>{symbol}_aggTrades_*.parquet\<close> whose name contains one of the
  requested years anywhere as a substring (all of them without \<open>years\<close>),
  at least one, and the table is the single file's frame or their
  concatenation; the file system is unchanged.\<close>

theorem load_parquet_agg_combines:
  assumes run: "load_parquet fromiso base source market market_sub ''aggTrades'' (Some sy) detail years fs = (Inr t, fs')"
  shows "fs' = fs
     \<and> (\<exists>ps dfs. ps \<noteq> [] \<and> sorted (map path_str ps)
          \<and> mset ps = mset [p \<leftarrow> glob fs (dataset_dir base source market market_sub ''aggTrades'' sy) (sy @ ''_aggTrades_*.parquet''). case years of None \<Rightarrow> True | Some ys \<Rightarrow> \<exists>y\<in>set ys. py_in y (last p)]
          \<and> list_all2 (\<lambda>p df. map_of fs p = Some (Parquet df)) ps dfs
          \<and> t = combine dfs)"
proof -
  let ?dir = "dataset_dir base source market market_sub ''aggTrades'' sy"
  define files where "files = glob fs ?dir (sy @ ''_aggTrades_*.parquet'')"
  let ?ps = "sort_paths (agg_year_filter years files)"
  from run have ne: "agg_year_filter years files \<noteq> []"
    and rd: "io_wrap ''Error loading parquet files'' (io_bind (read_all ?ps) (\<lambda>dfs. io_return (combine dfs))) fs = (Inr t, fs')"
    by (auto simp: load_parquet_def files_def Let_def split: if_splits)
  from rd obtain dfs where "read_all ?ps fs = (Inr dfs, fs')" and t: "t = combine dfs"
    by (auto simp: io_wrap_def io_bind_def split: prod.splits sum.splits)
  then have "fs' = fs" and all: "list_all2 (\<lambda>p df. map_of fs p = Some (Parquet df)) ?ps dfs"
    by (simp_all add: read_all_Inr)
  moreover have "mset ?ps = mset [p \<leftarrow> files. case years of None \<Rightarrow> True | Some ys \<Rightarrow> \<exists>y\<in>set ys. py_in y (last p)]"
    by (cases years) (simp_all add: sort_paths_def agg_year_filter_def)
  moreover have "?ps \<noteq> []" using ne by (metis length_0_conv length_sort sort_paths_def)
  moreover have "sorted (map path_str ?ps)" by (simp add: sort_paths_def)
  ultimately show ?thesis using t unfolding files_def by blast
qed

end
