(* ===== verification/Chart.thy ===== *)
theory Chart
  imports Moving_Average Resolver
begin

text \<open>
  The candlestick chart \<open>plot_ohlcv\<close> (src/util_plot.py:6-199).  It normalises
  the column names of a frame, adds the moving averages the frame lacks,
  centres a window of \<open>data_bars\<close> bars on each side of a centre time, keeps the
  rows of that window, and builds a two-row figure: candles and moving
  averages above, volume bars below, with axis ranges taken from the
  \<open>show_bars\<close> view.

  A frame is its list of columns in order, each a name and a typed column of
  values: times (wall-clock nanoseconds of their zone, with a flag for a
  timezone-aware column), reals, or strings.  \<open>df[c]\<close> raises \<open>KeyError\<close> for a
  missing name; a name that occurs twice, which pandas answers with a frame
  instead of a series, is the error \<open>DuplicateColumn\<close>; a string or time column
  where a number is needed (the \<open>.rolling().mean()\<close>, \<open>.min() * 0.998\<close>) is
  \<open>NotNumeric\<close>, \<open>.dt\<close> on a non-time column is \<open>NotDatetime\<close>.  Timestamps and
  timedeltas are int64 nanoseconds: an arithmetic result outside
  \<open>[-(2^63-1), 2^63-1]\<close> raises \<open>OutOfBounds\<close>, and \<open>NaT\<close> (the maximum of an
  empty column) is \<open>None\<close>, absorbing in arithmetic and false in comparisons.
  \<open>pd.to_datetime\<close> is the parameter \<open>to_dt\<close> (\<open>None\<close>: it raises).  The figure
  keeps the traces, the centre line, the annotation, the title and the axis
  ranges; the fixed styling (colours of the candles, height, template) and
  the \<open>print\<close> calls are left out.
\<close>

datatype chart_error =
    KeyError string
  | DuplicateColumn string
  | NotNumeric string
  | NotDatetime string
  | OutOfBounds
  | ParserError string

datatype column = TimeCol "int list" bool | NumCol "real list" | StrCol "string list"

type_synonym frame = "(string \<times> column) list"

definition chart_bind :: "chart_error + 'a \<Rightarrow> ('a \<Rightarrow> chart_error + 'b) \<Rightarrow> chart_error + 'b" where
  "chart_bind m f = (case m of Inl e \<Rightarrow> Inl e | Inr a \<Rightarrow> f a)"

subsection \<open>Timestamps and timedeltas\<close>

definition ns_ok :: "int \<Rightarrow> bool" where
  "ns_ok v \<longleftrightarrow> - (2 ^ 63 - 1) \<le> v \<and> v \<le> 2 ^ 63 - 1"

text \<open>util_plot.py:25-37: the bar length of a ticker, one minute by default.\<close>

definition ticker_map :: "(string \<times> int) list" where
  "ticker_map =
     [(''1m'', 60 * 10 ^ 9), (''3m'', 3 * 60 * 10 ^ 9), (''5m'', 5 * 60 * 10 ^ 9),
      (''15m'', 15 * 60 * 10 ^ 9), (''30m'', 30 * 60 * 10 ^ 9), (''1h'', 3600 * 10 ^ 9),
      (''4h'', 4 * 3600 * 10 ^ 9), (''8h'', 8 * 3600 * 10 ^ 9), (''12h'', 12 * 3600 * 10 ^ 9),
      (''1d'', 86400 * 10 ^ 9)]"

definition ticker_delta :: "string \<Rightarrow> int" where
  "ticker_delta t = (case map_of ticker_map t of Some d \<Rightarrow> d | None \<Rightarrow> 60 * 10 ^ 9)"

text \<open>\<open>td * n\<close> for a \<open>Timedelta\<close> and an \<open>int\<close>.\<close>

definition td_mul :: "int \<Rightarrow> int \<Rightarrow> chart_error + int" where
  "td_mul td n = (if ns_ok (td * n) then Inr (td * n) else Inl OutOfBounds)"

text \<open>\<open>t + d\<close> for a \<open>Timestamp\<close> or \<open>NaT\<close> and a \<open>Timedelta\<close>.\<close>

definition ts_shift :: "int option \<Rightarrow> int \<Rightarrow> chart_error + int option" where
  "ts_shift c d =
     (case c of None \<Rightarrow> Inr None
      | Some t \<Rightarrow> if ns_ok (t + d) then Inr (Some (t + d)) else Inl OutOfBounds)"

text \<open>\<open>(lo <= t) & (t <= hi)\<close>: false against \<open>NaT\<close>.\<close>

definition in_range :: "int option \<Rightarrow> int option \<Rightarrow> int \<Rightarrow> bool" where
  "in_range lo hi t = (case (lo, hi) of (Some a, Some b) \<Rightarrow> a \<le> t \<and> t \<le> b | _ \<Rightarrow> False)"

subsection \<open>Frames\<close>

definition col_get :: "frame \<Rightarrow> string \<Rightarrow> chart_error + column" where
  "col_get df c = (case [v. (n, v) \<leftarrow> df, n = c] of
                     [] \<Rightarrow> Inl (KeyError c) | [v] \<Rightarrow> Inr v | _ \<Rightarrow> Inl (DuplicateColumn c))"

definition num_get :: "frame \<Rightarrow> string \<Rightarrow> chart_error + real list" where
  "num_get df c = chart_bind (col_get df c) (\<lambda>v. case v of NumCol xs \<Rightarrow> Inr xs | _ \<Rightarrow> Inl (NotNumeric c))"

definition time_get :: "frame \<Rightarrow> chart_error + int list \<times> bool" where
  "time_get df = chart_bind (col_get df ''time'')
     (\<lambda>v. case v of TimeCol ts tz \<Rightarrow> Inr (ts, tz) | _ \<Rightarrow> Inl (NotDatetime ''time''))"

definition has_col :: "frame \<Rightarrow> string \<Rightarrow> bool" where
  "has_col df c \<longleftrightarrow> c \<in> set (map fst df)"

definition rename_cols :: "(string \<Rightarrow> string) \<Rightarrow> frame \<Rightarrow> frame" where
  "rename_cols f df = map (\<lambda>(n, v). (f n, v)) df"

text \<open>\<open>df[keep]\<close>: the rows whose keep entry is true, in every column.\<close>

definition keep_rows :: "bool list \<Rightarrow> 'a list \<Rightarrow> 'a list" where
  "keep_rows keep xs = [x. (x, b) \<leftarrow> zip xs keep, b]"

fun col_select :: "bool list \<Rightarrow> column \<Rightarrow> column" where
  "col_select keep (TimeCol ts tz) = TimeCol (keep_rows keep ts) tz"
| "col_select keep (NumCol xs) = NumCol (keep_rows keep xs)"
| "col_select keep (StrCol ss) = StrCol (keep_rows keep ss)"

definition frame_select :: "bool list \<Rightarrow> frame \<Rightarrow> frame" where
  "frame_select keep df = map (\<lambda>(n, v). (n, col_select keep v)) df"

subsection \<open>Normalising the frame (util_plot.py:40-82)\<close>

text \<open>util_plot.py:43-55: the OHLC and volume names in any case.\<close>

definition std_name :: "string \<Rightarrow> string" where
  "std_name c =
     (let l = map ascii_lower c in
      if l = ''open'' then ''open'' else if l = ''high'' then ''high''
      else if l = ''low'' then ''low'' else if l = ''close'' then ''close''
      else if l \<in> set [''volume'', ''qty'', ''quantity''] then ''volume'' else c)"

text \<open>util_plot.py:70-78: the moving-average names in any case.\<close>

definition ma_name :: "string \<Rightarrow> string" where
  "ma_name c =
     (let l = map ascii_lower c in
      if l = ''ma7'' then ''MA7'' else if l = ''ma25'' then ''MA25''
      else if l = ''ma99'' then ''MA99'' else c)"

text \<open>util_plot.py:62-67, one line: \<open>df[n] = df['close'].rolling(window=w,
  min_periods=1).mean()\<close> unless \<open>n\<close> or \<open>up\<close> is a column; the guard makes
  \<open>n\<close> new, so the assignment appends it.\<close>

definition add_ma :: "string \<Rightarrow> string \<Rightarrow> nat \<Rightarrow> frame \<Rightarrow> chart_error + frame" where
  "add_ma n up w df =
     (if has_col df n \<or> has_col df up then Inr df
      else chart_bind (num_get df ''close'') (\<lambda>xs. Inr (df @ [(n, NumCol (rolling_mean w xs))])))"

text \<open>util_plot.py:81-82: \<open>tz_localize(None)\<close> keeps the wall-clock times and drops
  the zone.\<close>

definition strip_tz :: "frame \<Rightarrow> frame" where
  "strip_tz df = map (\<lambda>(n, v). if n = ''time'' then (case v of TimeCol ts _ \<Rightarrow> (n, TimeCol ts False) | _ \<Rightarrow> (n, v))
                              else (n, v)) df"

definition plot_frame :: "string \<Rightarrow> frame \<Rightarrow> chart_error + frame" where
  "plot_frame time_col df =
     (let d1 = rename_cols std_name df;
          d2 = (if time_col \<noteq> ''time'' \<and> has_col d1 time_col
                then rename_cols (\<lambda>n. if n = time_col then ''time'' else n) d1 else d1) in
      chart_bind (add_ma ''ma7'' ''MA7'' 7 d2) (\<lambda>d3.
      chart_bind (add_ma ''ma25'' ''MA25'' 25 d3) (\<lambda>d4.
      chart_bind (add_ma ''ma99'' ''MA99'' 99 d4) (\<lambda>d5.
      let d6 = rename_cols ma_name d5 in
      chart_bind (time_get d6) (\<lambda>(ts, tz). Inr (if tz then strip_tz d6 else d6))))))"

subsection \<open>The figure (util_plot.py:84-199)\<close>

datatype trace =
    Candlestick "int list" "real list" "real list" "real list" "real list"
  | Scatter string string "int list" "real list"  \<comment> \<open>name, line colour, x, y\<close>
  | Bar "int list" "real list" "string list"  \<comment> \<open>x, y, marker colours\<close>

record figure =
  traces :: "trace list"
  vline :: "int option"
  annotation :: string
  title :: string
  x_range :: "int option \<times> int option"
  y_range :: "real \<times> real"
  vol_range :: "real \<times> real"

definition py_str_opt :: "string option \<Rightarrow> string" where
  "py_str_opt s = (case s of Some x \<Rightarrow> x | None \<Rightarrow> ''None'')"

text \<open>util_plot.py:85-91: the centre time, \<open>NaT\<close> for an empty frame.\<close>

definition center_of :: "(string \<Rightarrow> int option) \<Rightarrow> string option \<Rightarrow> int list \<Rightarrow> chart_error + int option" where
  "center_of to_dt go_to_time ts =
     (case go_to_time of
        None \<Rightarrow> Inr (if ts = [] then None else Some (Max (set ts)))
      | Some s \<Rightarrow> (case to_dt s of None \<Rightarrow> Inl (ParserError s) | Some c \<Rightarrow> Inr (Some c)))"

text \<open>util_plot.py:94-99: the data window and the view window.\<close>

definition window :: "int option \<Rightarrow> int \<Rightarrow> int \<Rightarrow> chart_error + int option \<times> int option" where
  "window c td bars =
     chart_bind (td_mul td bars) (\<lambda>d. chart_bind (ts_shift c (- d)) (\<lambda>lo.
     chart_bind (td_mul td bars) (\<lambda>d'. chart_bind (ts_shift c d') (\<lambda>hi. Inr (lo, hi)))))"

text \<open>util_plot.py:139-161: a line for each moving-average column present.\<close>

definition ma_trace :: "frame \<Rightarrow> int list \<Rightarrow> string \<times> string \<Rightarrow> chart_error + trace list" where
  "ma_trace dv x nc =
     (if has_col dv (fst nc) then chart_bind (num_get dv (fst nc)) (\<lambda>ys. Inr [Scatter (fst nc) (snd nc) x ys])
      else Inr [])"

text \<open>util_plot.py:163-170: volume bars, green where the candle closes at or
  above its open.\<close>

definition volume_trace :: "frame \<Rightarrow> int list \<Rightarrow> chart_error + trace list" where
  "volume_trace dv x =
     (if has_col dv ''volume'' then
        chart_bind (num_get dv ''close'') (\<lambda>cl. chart_bind (num_get dv ''open'') (\<lambda>opn.
        let colors = map (\<lambda>(c, op). if op \<le> c then ''green'' else ''red'') (zip cl opn) in
        chart_bind (num_get dv ''volume'') (\<lambda>vs. Inr [Bar x vs colors])))
      else Inr [])"

definition plot_ohlcv ::
  "(string \<Rightarrow> int option) \<Rightarrow> frame \<Rightarrow> string \<Rightarrow> string option \<Rightarrow> string \<Rightarrow> string option
   \<Rightarrow> int \<Rightarrow> int \<Rightarrow> chart_error + figure option" where
  "plot_ohlcv to_dt df time_col go_to_time ticker symb data_bars show_bars =
     (let td = ticker_delta ticker in
      chart_bind (plot_frame time_col df) (\<lambda>dp.
      chart_bind (time_get dp) (\<lambda>(ts, _).
      chart_bind (center_of to_dt go_to_time ts) (\<lambda>c.
      chart_bind (window c td data_bars) (\<lambda>(ds, de).
      chart_bind (window c td show_bars) (\<lambda>(vs, ve).
      let dv = frame_select (map (in_range ds de) ts) dp in
      chart_bind (time_get dv) (\<lambda>(x, _).
      if x = [] then Inr None else
      let mvis = map (in_range vs ve) x;
          dvis = (if list_ex id mvis then frame_select mvis dv else dv) in
      chart_bind (num_get dvis ''low'') (\<lambda>lows.
      chart_bind (num_get dvis ''high'') (\<lambda>highs.
      chart_bind (if has_col dvis ''volume'' then chart_bind (num_get dvis ''volume'') (\<lambda>v. Inr (Max (set v) * 1.1))
                  else Inr 1) (\<lambda>vol_max.
      chart_bind (num_get dv ''open'') (\<lambda>opn.
      chart_bind (num_get dv ''high'') (\<lambda>h.
      chart_bind (num_get dv ''low'') (\<lambda>l.
      chart_bind (num_get dv ''close'') (\<lambda>cl.
      chart_bind (ma_trace dv x (''MA7'', ''yellow'')) (\<lambda>t7.
      chart_bind (ma_trace dv x (''MA25'', ''purple'')) (\<lambda>t25.
      chart_bind (ma_trace dv x (''MA99'', ''rgb(40, 86, 89)'')) (\<lambda>t99.
      chart_bind (volume_trace dv x) (\<lambda>tv.
      Inr (Some
        \<lparr>traces = [Candlestick x opn h l cl] @ t7 @ t25 @ t99 @ tv,
         vline = c,
         annotation = ''Target: '' @ py_str_opt go_to_time,
         title = (case symb of Some s \<Rightarrow> if s = [] then [] else s @ '' '' | None \<Rightarrow> [])
                 @ ticker @ '' OHLCV - '' @ py_str_opt go_to_time,
         x_range = (vs, ve),
         y_range = (Min (set lows) * 0.998, Max (set highs) * 1.002),
         vol_range = (0, vol_max)\<rparr>)))))))))))))))))))"


subsection \<open>Specification helpers\<close>

text \<open>The x values of a trace; a frame whose columns all have \<open>n\<close> rows; a
  trace whose arrays have one entry per x value; a window whose bounds stay
  inside the timestamp range.\<close>

fun trace_x :: "trace \<Rightarrow> int list" where
  "trace_x (Candlestick x _ _ _ _) = x"
| "trace_x (Scatter _ _ x _) = x"
| "trace_x (Bar x _ _) = x"

definition window_ok :: "int \<Rightarrow> int \<Rightarrow> int \<Rightarrow> bool" where
  "window_ok c td n \<longleftrightarrow> ns_ok (td * n) \<and> ns_ok (c - td * n) \<and> ns_ok (c + td * n)"

fun col_len :: "column \<Rightarrow> nat" where
  "col_len (TimeCol ts _) = length ts"
| "col_len (NumCol xs) = length xs"
| "col_len (StrCol ss) = length ss"

definition frame_wf :: "nat \<Rightarrow> frame \<Rightarrow> bool" where
  "frame_wf n df \<longleftrightarrow> (\<forall>p\<in>set df. col_len (snd p) = n)"

fun trace_wf :: "trace \<Rightarrow> bool" where
  "trace_wf (Candlestick x op h l c) \<longleftrightarrow>
     length op = length x \<and> length h = length x \<and> length l = length x \<and> length c = length x"
| "trace_wf (Scatter _ _ x y) \<longleftrightarrow> length y = length x"
| "trace_wf (Bar x y cs) \<longleftrightarrow> length y = length x \<and> length cs = length x"

text \<open>A column name that is not a moving-average name in any case.\<close>

definition ma_free :: "string \<Rightarrow> bool" where
  "ma_free n \<longleftrightarrow> map ascii_lower n \<notin> {''ma7'', ''ma25'', ''ma99''}"

subsection \<open>Frames under selection and renaming\<close>

declare ns_ok_def [eval_simps] ticker_map_def [eval_simps] ticker_delta_def [eval_simps]
  td_mul_def [eval_simps] ts_shift_def [eval_simps] in_range_def [eval_simps] col_get_def [eval_simps]
  num_get_def [eval_simps] time_get_def [eval_simps] has_col_def [eval_simps] rename_cols_def [eval_simps]
  keep_rows_def [eval_simps] frame_select_def [eval_simps] std_name_def [eval_simps] ma_name_def [eval_simps]
  add_ma_def [eval_simps] strip_tz_def [eval_simps] plot_frame_def [eval_simps] py_str_opt_def [eval_simps]
  center_of_def [eval_simps] window_def [eval_simps] ma_trace_def [eval_simps] volume_trace_def [eval_simps]
  plot_ohlcv_def [eval_simps] window_ok_def [eval_simps] frame_wf_def [eval_simps]
  ascii_lower_def [eval_simps] rolling_mean_def [eval_simps] mean_def [eval_simps]

lemma chart_bind_simps [simp]:
  "chart_bind (Inl e) f = Inl e" "chart_bind (Inr a) f = f a"
  by (simp_all add: chart_bind_def)

lemma chart_bind_Inr_iff [simp]: "chart_bind m f = Inr b \<longleftrightarrow> (\<exists>a. m = Inr a \<and> f a = Inr b)"
  by (cases m) (simp_all add: chart_bind_def)

lemma keep_rows_map: "keep_rows (map P xs) xs = filter P xs"
  by (induction xs) (simp_all add: keep_rows_def)

lemma case_list_single:
  "(case L of [] \<Rightarrow> a | [v] \<Rightarrow> b v | _ \<Rightarrow> d) = (if L = [] then a else if length L = 1 then b (hd L) else d)"
  by (cases L rule: remdups_adj.cases) simp_all

lemma col_get_alt:
  "col_get df c = (let L = [v. (n, v) \<leftarrow> df, n = c] in
     if L = [] then Inl (KeyError c) else if length L = 1 then Inr (hd L) else Inl (DuplicateColumn c))"
  unfolding col_get_def Let_def by (rule case_list_single)

lemma col_get_select: "col_get (frame_select k df) c = chart_bind (col_get df c) (\<lambda>v. Inr (col_select k v))"
proof -
  have "[v. (n, v) \<leftarrow> frame_select k df, n = c] = map (col_select k) [v. (n, v) \<leftarrow> df, n = c]"
    by (induction df) (auto simp: frame_select_def)
  then show ?thesis
    unfolding col_get_alt Let_def by (simp add: chart_bind_def hd_map)
qed

lemma time_get_select:
  "time_get (frame_select k df) = chart_bind (time_get df) (\<lambda>(ts, tz). Inr (keep_rows k ts, tz))"
  by (auto simp: time_get_def col_get_select chart_bind_def split: sum.splits column.splits)

lemma num_get_select:
  "num_get (frame_select k df) c = chart_bind (num_get df c) (\<lambda>xs. Inr (keep_rows k xs))"
  by (auto simp: num_get_def col_get_select chart_bind_def split: sum.splits column.splits)

lemma map_fst_select [simp]: "map fst (frame_select k df) = map fst df"
  by (induction df) (auto simp: frame_select_def)

lemma has_col_select [simp]: "has_col (frame_select k df) c = has_col df c"
  by (simp add: has_col_def)

lemma window_Some:
  "window (Some t) td n = Inr (lo, hi) \<Longrightarrow> lo = Some (t - td * n) \<and> hi = Some (t + td * n)"
  by (auto simp: window_def ts_shift_def td_mul_def split: if_splits)

lemma window_None: "window None td n = Inr (lo, hi) \<Longrightarrow> lo = None \<and> hi = None"
  by (auto simp: window_def ts_shift_def td_mul_def split: if_splits)

lemma in_rangeE:
  assumes "in_range lo hi t"
  obtains a b where "lo = Some a" "hi = Some b" "a \<le> t" "t \<le> b"
  using assms by (auto simp: in_range_def split: option.splits)

lemma ma_trace_x: "ma_trace dv x nc = Inr ts \<Longrightarrow> tr \<in> set ts \<Longrightarrow> trace_x tr = x"
  by (auto simp: ma_trace_def split: if_splits)

lemma volume_trace_x: "volume_trace dv x = Inr ts \<Longrightarrow> tr \<in> set ts \<Longrightarrow> trace_x tr = x"
  by (auto simp: volume_trace_def Let_def split: if_splits)

lemma plot_ohlcv_SomeE:
  assumes "plot_ohlcv to_dt df tc go ticker sy db sb = Inr (Some fig)"
  obtains dp ts tz c ds de vs ve x xz lows highs vm opn h l cl t7 t25 t99 tv where
    "plot_frame tc df = Inr dp" "time_get dp = Inr (ts, tz)" "center_of to_dt go ts = Inr c"
    "window c (ticker_delta ticker) db = Inr (ds, de)" "window c (ticker_delta ticker) sb = Inr (vs, ve)"
    "time_get (frame_select (map (in_range ds de) ts) dp) = Inr (x, xz)" "x \<noteq> []"
    "num_get (if list_ex id (map (in_range vs ve) x)
              then frame_select (map (in_range vs ve) x) (frame_select (map (in_range ds de) ts) dp)
              else frame_select (map (in_range ds de) ts) dp) ''low'' = Inr lows"
    "num_get (if list_ex id (map (in_range vs ve) x)
              then frame_select (map (in_range vs ve) x) (frame_select (map (in_range ds de) ts) dp)
              else frame_select (map (in_range ds de) ts) dp) ''high'' = Inr highs"
    "num_get (frame_select (map (in_range ds de) ts) dp) ''open'' = Inr opn"
    "num_get (frame_select (map (in_range ds de) ts) dp) ''high'' = Inr h"
    "num_get (frame_select (map (in_range ds de) ts) dp) ''low'' = Inr l"
    "num_get (frame_select (map (in_range ds de) ts) dp) ''close'' = Inr cl"
    "ma_trace (frame_select (map (in_range ds de) ts) dp) x (''MA7'', ''yellow'') = Inr t7"
    "ma_trace (frame_select (map (in_range ds de) ts) dp) x (''MA25'', ''purple'') = Inr t25"
    "ma_trace (frame_select (map (in_range ds de) ts) dp) x (''MA99'', ''rgb(40, 86, 89)'') = Inr t99"
    "volume_trace (frame_select (map (in_range ds de) ts) dp) x = Inr tv"
    "traces fig = [Candlestick x opn h l cl] @ t7 @ t25 @ t99 @ tv"
    "vline fig = c" "x_range fig = (vs, ve)"
    "y_range fig = (Min (set lows) * 0.998, Max (set highs) * 1.002)"
  using assms unfolding plot_ohlcv_def Let_def
  by (auto split: prod.splits if_splits)

lemma keep_rows_filter: "length xs = length k \<Longrightarrow> length (keep_rows k xs) = length (filter id k)"
  by (induction xs k rule: list_induct2) (auto simp: keep_rows_def)

lemma keep_rows_nth:
  "j < length xs \<Longrightarrow> j < length k \<Longrightarrow> k ! j \<Longrightarrow> xs ! j \<in> set (keep_rows k xs)"
  by (force simp: keep_rows_def set_zip)

text \<open>C30: every plotted point lies in the data window.  When \<open>plot_ohlcv\<close> returns
  a figure, its centre line is at a time \<open>c\<close>, and the x value of every trace
  (candles, moving averages, volume) lies within \<open>data_bars\<close> bars of \<open>c\<close>.\<close>

lemma plot_ohlcv_in_window:
  assumes run: "plot_ohlcv to_dt df tc go ticker sy db sb = Inr (Some fig)"
  shows "\<exists>c. vline fig = Some c \<and>
           (\<forall>tr\<in>set (traces fig). \<forall>t\<in>set (trace_x tr).
              c - ticker_delta ticker * db \<le> t \<and> t \<le> c + ticker_delta ticker * db)"
proof -
  from run obtain dp ts tz c ds de vs ve x xz t7 t25 t99 tv opn h l cl where
    tg: "time_get dp = Inr (ts, tz)" and w: "window c (ticker_delta ticker) db = Inr (ds, de)"
    and xg: "time_get (frame_select (map (in_range ds de) ts) dp) = Inr (x, xz)" and ne: "x \<noteq> []"
    and m7: "ma_trace (frame_select (map (in_range ds de) ts) dp) x (''MA7'', ''yellow'') = Inr t7"
    and m25: "ma_trace (frame_select (map (in_range ds de) ts) dp) x (''MA25'', ''purple'') = Inr t25"
    and m99: "ma_trace (frame_select (map (in_range ds de) ts) dp) x (''MA99'', ''rgb(40, 86, 89)'') = Inr t99"
    and mv: "volume_trace (frame_select (map (in_range ds de) ts) dp) x = Inr tv"
    and tr: "traces fig = [Candlestick x opn h l cl] @ t7 @ t25 @ t99 @ tv" and vl: "vline fig = c"
    by (rule plot_ohlcv_SomeE) blast
  from xg tg have x: "x = filter (in_range ds de) ts"
    by (simp add: time_get_select keep_rows_map)
  with ne obtain t0 where "in_range ds de t0" by (auto simp: filter_empty_conv neq_Nil_conv)
  then obtain a where "ds = Some a" by (rule in_rangeE)
  with w obtain c0 where c: "c = Some c0" by (cases c) (auto dest: window_None)
  with w have dd: "ds = Some (c0 - ticker_delta ticker * db) \<and> de = Some (c0 + ticker_delta ticker * db)"
    by (simp add: window_Some)
  have "\<forall>t\<in>set x. c0 - ticker_delta ticker * db \<le> t \<and> t \<le> c0 + ticker_delta ticker * db"
    using dd by (auto simp: x in_range_def)
  moreover have "\<forall>tr\<in>set (traces fig). trace_x tr = x"
    using m7 m25 m99 mv by (auto simp: tr dest: ma_trace_x volume_trace_x)
  ultimately show ?thesis using vl c by auto
qed

lemma frame_wf_rename [simp]: "frame_wf n (rename_cols f df) = frame_wf n df"
  by (auto simp: frame_wf_def rename_cols_def)

lemma frame_wf_strip [simp]: "frame_wf n (strip_tz df) = frame_wf n df"
  by (force simp: frame_wf_def strip_tz_def split: column.splits)

lemma col_get_in: "col_get df c = Inr v \<Longrightarrow> (c, v) \<in> set df"
proof -
  define L where "L = [v. (m, v) \<leftarrow> df, m = c]"
  assume "col_get df c = Inr v"
  then have "L \<noteq> [] \<and> v = hd L"
    unfolding col_get_alt Let_def L_def [symmetric] by (simp split: if_splits)
  then have "v \<in> set L" by simp
  then show ?thesis by (auto simp: L_def)
qed

lemma col_get_len: "frame_wf n df \<Longrightarrow> col_get df c = Inr v \<Longrightarrow> col_len v = n"
  by (auto simp: frame_wf_def dest!: col_get_in)

lemma num_get_len: "frame_wf n df \<Longrightarrow> num_get df c = Inr xs \<Longrightarrow> length xs = n"
  using col_get_len [of n df c] by (auto simp: num_get_def chart_bind_def split: sum.splits column.splits)

lemma time_get_len: "frame_wf n df \<Longrightarrow> time_get df = Inr (ts, tz) \<Longrightarrow> length ts = n"
  using col_get_len [of n df "''time''"] by (auto simp: time_get_def chart_bind_def split: sum.splits column.splits)

lemma add_ma_wf:
  assumes wf: "frame_wf n df" and r: "add_ma m up w df = Inr d"
  shows "frame_wf n d"
proof (cases "has_col df m \<or> has_col df up")
  case True
  with r wf show ?thesis by (simp add: add_ma_def)
next
  case False
  with r obtain xs where xs: "num_get df ''close'' = Inr xs"
    and d: "d = df @ [(m, NumCol (rolling_mean w xs))]"
    by (auto simp: add_ma_def)
  from wf xs have "length xs = n" by (rule num_get_len)
  with wf show ?thesis by (simp add: d frame_wf_def rolling_mean_def)
qed

lemma plot_frame_wf:
  assumes wf: "frame_wf n df" and r: "plot_frame tc df = Inr d"
  shows "frame_wf n d"
proof -
  define d2 where "d2 = (if tc \<noteq> ''time'' \<and> has_col (rename_cols std_name df) tc
                then rename_cols (\<lambda>m. if m = tc then ''time'' else m) (rename_cols std_name df)
                else rename_cols std_name df)"
  have w2: "frame_wf n d2" using wf by (simp add: d2_def)
  from r obtain d3 d4 d5 where a3: "add_ma ''ma7'' ''MA7'' 7 d2 = Inr d3"
    and a4: "add_ma ''ma25'' ''MA25'' 25 d3 = Inr d4" and a5: "add_ma ''ma99'' ''MA99'' 99 d4 = Inr d5"
    and d: "d = rename_cols ma_name d5 \<or> d = strip_tz (rename_cols ma_name d5)"
    unfolding plot_frame_def Let_def d2_def [symmetric]
    by (auto split: if_splits prod.splits)
  from add_ma_wf [OF add_ma_wf [OF add_ma_wf [OF w2 a3] a4] a5] d show ?thesis by auto
qed

lemma col_len_select: "col_len v = length k \<Longrightarrow> col_len (col_select k v) = length (filter id k)"
  by (cases v) (simp_all add: keep_rows_filter)

lemma frame_select_wf: "frame_wf (length k) df \<Longrightarrow> frame_wf (length (filter id k)) (frame_select k df)"
  by (auto simp: frame_wf_def frame_select_def col_len_select)

lemma ma_trace_wf:
  "frame_wf (length x) dv \<Longrightarrow> ma_trace dv x nc = Inr ts \<Longrightarrow> tr \<in> set ts \<Longrightarrow> trace_wf tr"
  by (auto simp: ma_trace_def dest: num_get_len split: if_splits)

lemma volume_trace_wf:
  assumes wf: "frame_wf (length x) dv" and r: "volume_trace dv x = Inr ts" and tr: "tr \<in> set ts"
  shows "trace_wf tr"
proof (cases "has_col dv ''volume''")
  case True
  with r obtain cl opn vs where "num_get dv ''close'' = Inr cl" "num_get dv ''open'' = Inr opn"
    "num_get dv ''volume'' = Inr vs"
    and ts: "ts = [Bar x vs (map (\<lambda>(c, op). if op \<le> c then ''green'' else ''red'') (zip cl opn))]"
    by (auto simp: volume_trace_def Let_def)
  with wf have "length cl = length x" "length opn = length x" "length vs = length x"
    by (auto dest: num_get_len)
  with tr ts show ?thesis by simp
next
  case False
  with r tr show ?thesis by (simp add: volume_trace_def)
qed

lemma view_wf:
  assumes "frame_wf n df" "plot_frame tc df = Inr dp" "time_get dp = Inr (ts, tz)"
    and "time_get (frame_select (map P ts) dp) = Inr (x, xz)"
  shows "frame_wf (length x) (frame_select (map P ts) dp)"
proof -
  from assms(1,2) have "frame_wf n dp" by (rule plot_frame_wf)
  moreover from this assms(3) have "length ts = n" by (rule time_get_len)
  ultimately have "frame_wf (length (filter id (map P ts))) (frame_select (map P ts) dp)"
    by (intro frame_select_wf) simp
  moreover from this assms(4) have "length x = length (filter id (map P ts))" by (rule time_get_len)
  ultimately show ?thesis by simp
qed

text \<open>C31: the figure is well-typed.  On a rectangular frame, every trace of the
  returned figure has one open, high, low, close, y value and colour per x
  value.\<close>

lemma plot_ohlcv_traces_wf:
  assumes wf: "frame_wf n df" and run: "plot_ohlcv to_dt df tc go ticker sy db sb = Inr (Some fig)"
  shows "\<forall>tr\<in>set (traces fig). trace_wf tr"
proof -
  from run obtain dp ts tz ds de x xz t7 t25 t99 tv opn h l cl where
    pf: "plot_frame tc df = Inr dp" and tg: "time_get dp = Inr (ts, tz)"
    and xg: "time_get (frame_select (map (in_range ds de) ts) dp) = Inr (x, xz)"
    and o: "num_get (frame_select (map (in_range ds de) ts) dp) ''open'' = Inr opn"
    and h: "num_get (frame_select (map (in_range ds de) ts) dp) ''high'' = Inr h"
    and l: "num_get (frame_select (map (in_range ds de) ts) dp) ''low'' = Inr l"
    and cl: "num_get (frame_select (map (in_range ds de) ts) dp) ''close'' = Inr cl"
    and m7: "ma_trace (frame_select (map (in_range ds de) ts) dp) x (''MA7'', ''yellow'') = Inr t7"
    and m25: "ma_trace (frame_select (map (in_range ds de) ts) dp) x (''MA25'', ''purple'') = Inr t25"
    and m99: "ma_trace (frame_select (map (in_range ds de) ts) dp) x (''MA99'', ''rgb(40, 86, 89)'') = Inr t99"
    and mv: "volume_trace (frame_select (map (in_range ds de) ts) dp) x = Inr tv"
    and tr: "traces fig = [Candlestick x opn h l cl] @ t7 @ t25 @ t99 @ tv"
    by (rule plot_ohlcv_SomeE) blast
  from wf pf tg xg have dv: "frame_wf (length x) (frame_select (map (in_range ds de) ts) dp)"
    by (rule view_wf)
  have "trace_wf (Candlestick x opn h l cl)"
    using num_get_len [OF dv o] num_get_len [OF dv h] num_get_len [OF dv l] num_get_len [OF dv cl] by simp
  then show ?thesis
    using ma_trace_wf [OF dv m7] ma_trace_wf [OF dv m25] ma_trace_wf [OF dv m99] volume_trace_wf [OF dv mv]
    by (auto simp: tr)
qed

lemma keep_rows_subset: "set (keep_rows k xs) \<subseteq> set xs"
  by (auto simp: keep_rows_def dest: set_zip_leftD)

text \<open>C32: the price axis covers the view.  On a rectangular frame with
  non-negative prices, every candle whose time lies in the initial view has its
  low at or above the lower end of the price axis and its high at or below the
  upper end.\<close>

lemma plot_ohlcv_y_range:
  assumes wf: "frame_wf n df" and run: "plot_ohlcv to_dt df tc go ticker sy db sb = Inr (Some fig)"
    and cs: "hd (traces fig) = Candlestick x opn h l cl"
    and lo: "\<forall>v\<in>set l. 0 \<le> v" and hi: "\<forall>v\<in>set h. 0 \<le> v"
    and j: "j < length x" and vis: "in_range (fst (x_range fig)) (snd (x_range fig)) (x ! j)"
  shows "fst (y_range fig) \<le> l ! j \<and> h ! j \<le> snd (y_range fig)"
proof -
  from run obtain dp ts tz ds de vs ve xz lows highs opn' h' l' cl' rest where
    pf: "plot_frame tc df = Inr dp" and tg: "time_get dp = Inr (ts, tz)"
    and xg: "time_get (frame_select (map (in_range ds de) ts) dp) = Inr (x, xz)"
    and lg: "num_get (if list_ex id (map (in_range vs ve) x)
              then frame_select (map (in_range vs ve) x) (frame_select (map (in_range ds de) ts) dp)
              else frame_select (map (in_range ds de) ts) dp) ''low'' = Inr lows"
    and hg: "num_get (if list_ex id (map (in_range vs ve) x)
              then frame_select (map (in_range vs ve) x) (frame_select (map (in_range ds de) ts) dp)
              else frame_select (map (in_range ds de) ts) dp) ''high'' = Inr highs"
    and h: "num_get (frame_select (map (in_range ds de) ts) dp) ''high'' = Inr h"
    and l: "num_get (frame_select (map (in_range ds de) ts) dp) ''low'' = Inr l"
    and xr: "x_range fig = (vs, ve)"
    and yr: "y_range fig = (Min (set lows) * 0.998, Max (set highs) * 1.002)"
    by (rule plot_ohlcv_SomeE) (use cs in auto)
  let ?dv = "frame_select (map (in_range ds de) ts) dp" and ?k = "map (in_range vs ve) x"
  from wf pf tg xg have dv: "frame_wf (length x) ?dv" by (rule view_wf)
  have kj: "?k ! j" using vis j by (simp add: xr)
  then have ex: "list_ex id ?k" using j by (auto simp: list_ex_iff intro: nth_mem)
  have lows: "lows = keep_rows ?k l" and highs: "highs = keep_rows ?k h"
    using lg hg ex l h by (simp_all add: num_get_select [of ?k ?dv])
  have ll: "length l = length x" and lh: "length h = length x"
    using num_get_len [OF dv l] num_get_len [OF dv h] by simp_all
  have lj: "l ! j \<in> set lows" and hj: "h ! j \<in> set highs"
    unfolding lows highs using j kj ll lh by (simp_all add: keep_rows_nth)
  have "Min (set lows) \<in> set l" using lj keep_rows_subset [of ?k l]
    by (metis List.finite_set Min_in empty_iff lows subsetD)
  then have "Min (set lows) * 0.998 \<le> Min (set lows)" using lo by auto
  also have "Min (set lows) \<le> l ! j" using lj by simp
  finally have "Min (set lows) * 0.998 \<le> l ! j" .
  moreover have "Max (set highs) \<in> set h" using hj keep_rows_subset [of ?k h]
    by (metis List.finite_set Max_in empty_iff highs subsetD)
  then have "Max (set highs) \<le> Max (set highs) * 1.002" using hi by auto
  moreover have "h ! j \<le> Max (set highs)" using hj by simp
  ultimately show ?thesis by (simp add: yr)
qed

lemma chart_bind_Inl_iff:
  "chart_bind m f = Inl e \<longleftrightarrow> m = Inl e \<or> (\<exists>a. m = Inr a \<and> f a = Inl e)"
  by (cases m) (simp_all add: chart_bind_def)

lemma window_eq:
  "window (Some c) td n =
     (if window_ok c td n then Inr (Some (c - td * n), Some (c + td * n)) else Inl OutOfBounds)"
  by (auto simp: window_def window_ok_def td_mul_def ts_shift_def)

lemma col_get_not_oob [simp]: "col_get df c \<noteq> Inl OutOfBounds"
  by (simp add: col_get_alt Let_def)

lemma num_get_not_oob [simp]: "num_get df c \<noteq> Inl OutOfBounds"
  by (auto simp: num_get_def chart_bind_Inl_iff split: column.splits)

lemma time_get_not_oob [simp]: "time_get df \<noteq> Inl OutOfBounds"
  by (auto simp: time_get_def chart_bind_Inl_iff split: column.splits)

lemma ma_trace_not_oob [simp]: "ma_trace dv x nc \<noteq> Inl OutOfBounds"
  by (auto simp: ma_trace_def chart_bind_Inl_iff)

lemma volume_trace_not_oob [simp]: "volume_trace dv x \<noteq> Inl OutOfBounds"
  by (auto simp: volume_trace_def chart_bind_Inl_iff Let_def)

text \<open>C33: timestamp overflow.  With a centre given as a date string,
  \<open>plot_ohlcv\<close> fails with the out-of-bounds error exactly when one of the four
  window ends, or one of the bar offsets, leaves the int64 nanosecond range;
  no other step of the chart raises it.\<close>

lemma plot_ohlcv_out_of_bounds:
  assumes "plot_frame tc df = Inr dp" "time_get dp = Inr (ts, tz)" "to_dt s = Some c"
  shows "plot_ohlcv to_dt df tc (Some s) ticker sy db sb = Inl OutOfBounds \<longleftrightarrow>
         \<not> (window_ok c (ticker_delta ticker) db \<and> window_ok c (ticker_delta ticker) sb)"
  using assms unfolding plot_ohlcv_def Let_def
  by (simp add: center_of_def window_eq chart_bind_Inl_iff split: prod.splits)

text \<open>C34: no data around the centre.  When no row of the frame lies within
  \<open>data_bars\<close> bars of the centre, \<open>plot_ohlcv\<close> returns \<open>None\<close> rather than a
  figure or an error.\<close>

lemma plot_ohlcv_no_data:
  assumes "plot_frame tc df = Inr dp" "time_get dp = Inr (ts, tz)" "to_dt s = Some c"
    and "window_ok c (ticker_delta ticker) db" "window_ok c (ticker_delta ticker) sb"
    and "\<forall>t\<in>set ts. t < c - ticker_delta ticker * db \<or> c + ticker_delta ticker * db < t"
  shows "plot_ohlcv to_dt df tc (Some s) ticker sy db sb = Inr None"
proof -
  have "filter (in_range (Some (c - ticker_delta ticker * db)) (Some (c + ticker_delta ticker * db))) ts = []"
    using assms(6) by (auto simp: filter_empty_conv in_range_def)
  then show ?thesis
    using assms(1-5) unfolding plot_ohlcv_def Let_def
    by (simp add: center_of_def window_eq time_get_select keep_rows_map)
qed

subsection \<open>The moving averages of the chart\<close>

lemma col_list_rename: "[v. (n, v) \<leftarrow> rename_cols f df, n = c] = [v. (n, v) \<leftarrow> df, f n = c]"
  by (induction df) (auto simp: rename_cols_def)

lemma col_list_strip: "c \<noteq> ''time'' \<Longrightarrow> [v. (n, v) \<leftarrow> strip_tz df, n = c] = [v. (n, v) \<leftarrow> df, n = c]"
  by (induction df) (auto simp: strip_tz_def split: column.splits)

lemma col_get_single: "[v. (n, v) \<leftarrow> df, n = c] = [v] \<Longrightarrow> col_get df c = Inr v"
  by (simp add: col_get_def)

lemma col_get_Inr_single: "col_get df c = Inr v \<Longrightarrow> [v. (n, v) \<leftarrow> df, n = c] = [v]"
  unfolding col_get_alt Let_def by (cases "[v. (n, v) \<leftarrow> df, n = c]") (auto split: if_splits)

lemma std_name_close: "std_name n = ''close'' \<longleftrightarrow> map ascii_lower n = ''close''"
  by (auto simp: std_name_def Let_def ascii_lower_def)

lemma ma_free_std: "ma_free n \<Longrightarrow> ma_free (std_name n)"
  by (auto simp: ma_free_def std_name_def Let_def ascii_lower_def)

lemma ma_free_name: "ma_free n \<Longrightarrow> ma_name n = n \<and> n \<notin> {''ma7'', ''MA7'', ''ma25'', ''MA25'', ''ma99'', ''MA99''}"
  by (auto simp: ma_free_def ma_name_def Let_def ascii_lower_def)

lemma add_ma_new:
  assumes "add_ma m up w df = Inr d" "\<not> has_col df m" "\<not> has_col df up"
  obtains xs where "num_get df ''close'' = Inr xs" "d = df @ [(m, NumCol (rolling_mean w xs))]"
  using assms by (auto simp: add_ma_def)

lemma ma_col_list_free:
  "list_all ma_free (map fst df) \<Longrightarrow> c \<in> {''MA7'', ''MA25'', ''MA99''} \<Longrightarrow> [v. (n, v) \<leftarrow> df, ma_name n = c] = []"
  by (induction df) (auto dest!: ma_free_name split: if_splits)

lemma has_col_free: "list_all ma_free (map fst df) \<Longrightarrow> c \<in> {''ma7'', ''MA7'', ''ma25'', ''MA25'', ''ma99'', ''MA99''} \<Longrightarrow> \<not> has_col df c"
  by (auto simp: has_col_def list_all_iff dest: ma_free_name)

lemma col_list_other: "c \<notin> set (map fst ys) \<Longrightarrow> [v. (n, v) \<leftarrow> ys, n = c] = []"
  by (induction ys) auto

lemma num_get_append_other:
  assumes "c \<notin> set (map fst ys)"
  shows "num_get (df @ ys) c = num_get df c"
  by (simp add: num_get_def col_get_def col_list_other [OF assms])

lemma ma_free_time: "ma_free ''time''"
  by (simp add: ma_free_def ascii_lower_def)

text \<open>C35: the chart's moving averages are taken over the whole frame.  When
  no column of the frame is named \<open>ma7\<close>, \<open>ma25\<close> or \<open>ma99\<close> in any case
  and \<open>plot_frame\<close> (util_plot.py:39-82) succeeds, the frame has exactly one
  column named \<open>close\<close> in some case, and the columns \<open>MA7\<close>, \<open>MA25\<close> and
  \<open>MA99\<close> of the result are the rolling means of that column over all rows
  (util_plot.py:62-67), with no grouping by symbol, unlike the annotator of
  sma.py (C13).\<close>

theorem plot_frame_ma_whole_frame:
  assumes r: "plot_frame tc df = Inr d" and nm: "list_all ma_free (map fst df)"
  shows "\<exists>xs. [v. (n, v) \<leftarrow> df, map ascii_lower n = ''close''] = [NumCol xs]
           \<and> num_get d ''MA7'' = Inr (rolling_mean 7 xs)
           \<and> num_get d ''MA25'' = Inr (rolling_mean 25 xs)
           \<and> num_get d ''MA99'' = Inr (rolling_mean 99 xs)"
proof -
  define d1 where "d1 = rename_cols std_name df"
  define d2 where "d2 = (if tc \<noteq> ''time'' \<and> has_col d1 tc
                then rename_cols (\<lambda>m. if m = tc then ''time'' else m) d1 else d1)"
  have nm1: "list_all ma_free (map fst d1)"
    using nm unfolding d1_def rename_cols_def list_all_iff by (auto, metis fst_conv ma_free_std)
  then have nm2: "list_all ma_free (map fst d2)"
    using ma_free_time unfolding d2_def rename_cols_def list_all_iff by auto
  from r obtain d3 d4 d5 where a3: "add_ma ''ma7'' ''MA7'' 7 d2 = Inr d3"
    and a4: "add_ma ''ma25'' ''MA25'' 25 d3 = Inr d4" and a5: "add_ma ''ma99'' ''MA99'' 99 d4 = Inr d5"
    and d: "d = rename_cols ma_name d5 \<or> d = strip_tz (rename_cols ma_name d5)"
    unfolding plot_frame_def Let_def d1_def [symmetric] d2_def [symmetric]
    by (auto split: if_splits prod.splits)
  from a3 obtain xs where xs: "num_get d2 ''close'' = Inr xs"
    and d3: "d3 = d2 @ [(''ma7'', NumCol (rolling_mean 7 xs))]"
    using has_col_free [OF nm2] by (elim add_ma_new) auto
  have nm3: "\<not> has_col d3 c" if "c \<in> {''ma25'', ''MA25'', ''ma99'', ''MA99''}" for c
    using has_col_free [OF nm2, of c] that by (auto simp: d3 has_col_def)
  from a4 obtain xs4 where "num_get d3 ''close'' = Inr xs4"
    and d4: "d4 = d3 @ [(''ma25'', NumCol (rolling_mean 25 xs4))]"
    using nm3 by (elim add_ma_new) auto
  then have d4': "d4 = d3 @ [(''ma25'', NumCol (rolling_mean 25 xs))]"
    using xs by (simp add: d3 num_get_append_other)
  from a5 obtain xs5 where "num_get d4 ''close'' = Inr xs5"
    and d5: "d5 = d4 @ [(''ma99'', NumCol (rolling_mean 99 xs5))]"
    using nm3 by (elim add_ma_new) (auto simp: d4' has_col_def)
  then have d5': "d5 = d2 @ [(''ma7'', NumCol (rolling_mean 7 xs)), (''ma25'', NumCol (rolling_mean 25 xs)),
                             (''ma99'', NumCol (rolling_mean 99 xs))]"
    using xs by (simp add: d4' d3 num_get_append_other)
  have ma: "num_get d c = Inr (rolling_mean w xs)"
    if "(c, m, w) \<in> {(''MA7'', ''ma7'', 7), (''MA25'', ''ma25'', 25), (''MA99'', ''ma99'', 99)}" for c m w
  proof -
    have "[v. (n, v) \<leftarrow> d5, ma_name n = c] = [NumCol (rolling_mean w xs)]"
      using ma_col_list_free [OF nm2, of c] that by (auto simp: d5' ma_name_def ascii_lower_def)
    then have "[v. (n, v) \<leftarrow> d, n = c] = [NumCol (rolling_mean w xs)]"
      using d that by (auto simp: col_list_rename col_list_strip)
    then show ?thesis by (simp add: num_get_def col_get_single)
  qed
  have "col_get d2 ''close'' = Inr (NumCol xs)"
    using xs by (auto simp: num_get_def chart_bind_def split: sum.splits column.splits)
  then have c2: "[v. (n, v) \<leftarrow> d2, n = ''close''] = [NumCol xs]" by (rule col_get_Inr_single)
  have "[v. (n, v) \<leftarrow> d2, n = ''close''] = [v. (n, v) \<leftarrow> d1, n = ''close'']"
  proof (cases "tc \<noteq> ''time'' \<and> has_col d1 tc")
    case True
    show ?thesis
    proof (cases "tc = ''close''")
      case True
      then have "[v. (n, v) \<leftarrow> rename_cols (\<lambda>m. if m = tc then ''time'' else m) d1, n = ''close''] = []"
        by (induction d1) (auto simp: rename_cols_def)
      with c2 \<open>tc \<noteq> ''time'' \<and> has_col d1 tc\<close> show ?thesis by (simp add: d2_def)
    next
      case False
      then have "[v. (n, v) \<leftarrow> rename_cols (\<lambda>m. if m = tc then ''time'' else m) d1, n = ''close'']
                 = [v. (n, v) \<leftarrow> d1, n = ''close'']"
        by (induction d1) (auto simp: rename_cols_def)
      with True show ?thesis by (simp add: d2_def)
    qed
  qed (auto simp: d2_def)
  then have "[v. (n, v) \<leftarrow> df, map ascii_lower n = ''close''] = [NumCol xs]"
    using c2 by (simp add: d1_def col_list_rename std_name_close)
  with ma show ?thesis by auto
qed

end
