(* ===== verification/Scripts.thy ===== *)
theory Scripts
  imports Kline_Cache Moving_Average Resolver
begin

text \<open>
  The entry points around the library: the legacy helper \<open>load_data_old\<close>
  (src/util.py:226-228), the display helper \<open>show_all_rows\<close>, the data root
  \<open>BASE_DIR\<close>, the \<open>__main__\<close> blocks of src/util.py (426-438) and
  src/sma.py (34-39), and the manual test script src/test/load_test.py, each
  as the calls it makes with the default arguments of the functions filled in.
  Printed output is not modelled; an exception that a script
  catches and prints becomes a normal end with the state it reached.
\<close>

text \<open>util.py:226-228: the body calls \<open>load_data\<close>, which the module does not
  define, so every call raises \<open>NameError\<close> before touching the file system.\<close>

definition load_data_old :: "string \<Rightarrow> string \<Rightarrow> ('r table, 'r fs) io" where
  "load_data_old sy ty = io_raise (NameError ''load_data'')"

text \<open>util.py:39: the data root, read from the environment once at import.
  The models take it as the path parameter \<open>base\<close>.\<close>

definition base_dir :: "(string \<Rightarrow> string option) \<Rightarrow> string" where
  "base_dir env = (case env ''TRADE_DATA'' of Some v \<Rightarrow> v | None \<Rightarrow> ''/trade_data'')"

text \<open>util.py:231-233: \<open>display(df)\<close> under a pandas option context.  The
  module neither defines nor imports \<open>display\<close>, so outside IPython (which puts
  it among the builtins) the name lookup raises \<open>NameError\<close>; the option
  context only sets and restores display options, and the frame and the file
  system are left as they were.\<close>

definition show_all_rows :: "'r table \<Rightarrow> (unit, 'r fs) io" where
  "show_all_rows df = io_raise (NameError ''display'')"

text \<open>util.py:426-438: one \<open>load_parquet\<close> call under \<open>try ... except Exception\<close>.\<close>

definition util_main :: "(string \<Rightarrow> datetime option) \<Rightarrow> path \<Rightarrow> (unit, 'r fs) io" where
  "util_main fromiso base fs =
     (Inr (), snd (load_parquet fromiso base ''binance'' ''future'' ''um'' ''metrics'' (Some ''MMTUSDT'') None None fs))"

text \<open>sma.py:34-39.\<close>

definition sma_main :: "path \<Rightarrow> int \<Rightarrow> (unit, kfs) io" where
  "sma_main base now =
     io_bind (load_ticker_set_sma base ''binance'' ''spot'' ''um'' ''1m'' (Some [''2025'']) (Some [''FORMUSDT'']) now)
       (\<lambda>_. io_return ())"

text \<open>load_test.py:9-20, 23-34 and 37-48; a year is modelled by its \<open>str()\<close>.\<close>

definition test_load_kline :: "path \<Rightarrow> int \<Rightarrow> (ktable, kfs) io" where
  "test_load_kline base now = load_kline base ''binance'' ''spot'' ''um'' ''1m'' (Some [''2025'']) (Some [''SUIUSDT'']) now"

definition test_load_parquet :: "(string \<Rightarrow> datetime option) \<Rightarrow> path \<Rightarrow> (ktable, kfs) io" where
  "test_load_parquet fromiso base =
     load_parquet fromiso base ''binance'' ''spot'' ''um'' ''aggTrades'' (Some ''SUIUSDT'') None (Some [''2025''])"

definition test_load_ticker_set_sma :: "path \<Rightarrow> int \<Rightarrow> (sma_row table, kfs) io" where
  "test_load_ticker_set_sma base now =
     load_ticker_set_sma base ''binance'' ''spot'' ''um'' ''1m'' (Some [''2025'']) (Some [''SUIUSDT'']) now"

text \<open>load_test.py:51-66: the three tests in order, each \<open>load_kline\<close> call reading
  the clock at its own instant; an exception ends the script.\<close>

definition load_test_main :: "(string \<Rightarrow> datetime option) \<Rightarrow> path \<Rightarrow> int \<Rightarrow> int \<Rightarrow> (unit, kfs) io" where
  "load_test_main fromiso base now1 now2 =
     io_bind (test_load_kline base now1) (\<lambda>_.
     io_bind (test_load_parquet fromiso base) (\<lambda>_.
     io_bind (test_load_ticker_set_sma base now2) (\<lambda>_. io_return ())))"

lemma load_parquet_pure [intro!]:
  "io_pure (load_parquet fromiso base source market market_sub data_type symb detail years :: ('r table, 'r fs) io)"
proof -
  have agg: "snd (io_wrap ctx (io_bind (read_all ps) (\<lambda>dfs. io_return (combine dfs))) fs) = fs"
    for ctx ps and fs :: "'r fs"
  proof -
    have "io_pure (io_wrap ctx (io_bind (read_all ps) (\<lambda>dfs. io_return (combine dfs))) :: ('r table, 'r fs) io)"
      by (intro io_pure_wrap io_pure_bind read_all_pure io_pure_return)
    then show ?thesis by (simp add: io_pure_def)
  qed
  have lat: "snd (io_bind (find_latest_file fromiso d pat)
      (\<lambda>p. io_wrap (g p) (io_bind (read_parquet p) (\<lambda>df. io_return (h df)))) fs) = fs"
    for d pat g and h :: "'r table \<Rightarrow> 'r table" and fs :: "'r fs"
  proof -
    have "io_pure (io_bind (find_latest_file fromiso d pat)
      (\<lambda>p. io_wrap (g p) (io_bind (read_parquet p) (\<lambda>df. io_return (h df)))) :: ('r table, 'r fs) io)"
      by (intro io_pure_bind find_latest_file_pure io_pure_wrap read_parquet_pure io_pure_return)
    then show ?thesis by (simp add: io_pure_def)
  qed
  show ?thesis
    unfolding io_pure_def by (auto simp: load_parquet_def Let_def agg lat split: option.splits)
qed

lemma load_ticker_set_sma_state:
  "snd (load_ticker_set_sma base source market market_sub tf years symbols now fs)
     = snd (load_kline base source market market_sub tf years symbols now fs)"
  by (simp add: load_ticker_set_sma_def io_bind_def split: prod.splits sum.splits)

lemma test_args: "\<forall>sys\<in>set_option (Some [''SUIUSDT'']). \<forall>s\<in>set sys. symbol_ok s" "years_ok (Some [''2025''])"
  by (simp_all add: symbol_ok_def no_wild_def years_ok_def is_digit_def decimal_digits_def)

text \<open>C36: the test script writes only into the kline cache.  Run on a tree
  whose cache is sound, with valid clock readings, \<open>load_test.py\<close> leaves
  every path outside the cache directory of \<open>binance/spot\<close> as it was, whether
  its tests succeed or raise.\<close>

theorem load_test_frame:
  assumes inv: "cache_inv (kline_dir base ''binance'' ''spot'' ''um'') fs"
    and clk1: "clock_ok now1" and clk2: "clock_ok now2"
    and p: "p \<noteq> cache_dir (kline_dir base ''binance'' ''spot'' ''um'')"
      "butlast p \<noteq> cache_dir (kline_dir base ''binance'' ''spot'' ''um'')"
  shows "map_of (snd (load_test_main fromiso base now1 now2 fs)) p = map_of fs p"
proof -
  let ?dir = "kline_dir base ''binance'' ''spot'' ''um''"
  obtain r1 fs1 where run1: "test_load_kline base now1 fs = (r1, fs1)" by fastforce
  from load_kline_state [OF inv clk1 test_args, where tf = "''1m''"] run1
  have inv1: "cache_inv ?dir fs1" and fr1: "cache_frame ?dir fs fs1"
    by (auto simp: test_load_kline_def)
  have pq: "test_load_parquet fromiso base fs1 = (fst (test_load_parquet fromiso base fs1), fs1)"
    unfolding test_load_parquet_def by (rule io_pure_apply [OF load_parquet_pure])
  from load_kline_state [OF inv1 clk2 test_args, where tf = "''1m''"]
  have fr2: "cache_frame ?dir fs1 (snd (test_load_ticker_set_sma base now2 fs1))"
    by (auto simp: test_load_ticker_set_sma_def load_ticker_set_sma_state)
  have "snd (load_test_main fromiso base now1 now2 fs) = fs1
        \<or> snd (load_test_main fromiso base now1 now2 fs) = snd (test_load_ticker_set_sma base now2 fs1)"
    using run1 pq by (auto simp: load_test_main_def io_bind_def split: sum.splits prod.splits)
  with fr1 fr2 p show ?thesis by (auto simp: cache_frame_def)
qed

end
