(* ===== verification/Kline_Runs.thy ===== *)
theory Kline_Runs
  imports Scripts
begin

text \<open>
  Sequences of calls into the library.  A client holds one kline dataset
  (\<open>base\<close>, \<open>source\<close>, \<open>market\<close>, \<open>market_sub\<close>) and calls \<open>load_kline\<close> or
  \<open>load_ticker_set_sma\<close> on it with any arguments, or reads any dataset with
  \<open>load_parquet\<close> or \<open>load_kline_symbols\<close>; the calls are the datatype \<open>call\<close>
  and one call changes the tree by \<open>call_step\<close>.  \<open>reachable fs0 fs\<close> holds
  when a sequence of such calls, each on a valid clock with plain symbols and
  digit-string years, leads from \<open>fs0\<close> to \<open>fs\<close>.  By rule induction, the
  cache invariant and the sources hold along every run, so every kline call
  of a run returns what the sources of the starting tree give.
\<close>

datatype call =
    KlineCall string "string list option" "string list option" int  \<comment> \<open>timeframe, years, symbols, clock\<close>
  | SmaCall string "string list option" "string list option" int
  | ParquetCall string string string string "string option" "string option" "string list option"
  | SymbolsCall string string string

fun call_ok :: "call \<Rightarrow> bool" where
  "call_ok (KlineCall tf years symbols now) \<longleftrightarrow>
     clock_ok now \<and> (\<forall>sys\<in>set_option symbols. \<forall>s\<in>set sys. symbol_ok s) \<and> years_ok years"
| "call_ok (SmaCall tf years symbols now) \<longleftrightarrow>
     clock_ok now \<and> (\<forall>sys\<in>set_option symbols. \<forall>s\<in>set sys. symbol_ok s) \<and> years_ok years"
| "call_ok (ParquetCall _ _ _ _ _ _ _) \<longleftrightarrow> True"
| "call_ok (SymbolsCall _ _ _) \<longleftrightarrow> True"

fun call_step ::
  "(string \<Rightarrow> datetime option) \<Rightarrow> path \<Rightarrow> string \<Rightarrow> string \<Rightarrow> string \<Rightarrow> call \<Rightarrow> kfs \<Rightarrow> kfs" where
  "call_step fromiso base source market market_sub (KlineCall tf years symbols now) fs =
     snd (load_kline base source market market_sub tf years symbols now fs)"
| "call_step fromiso base source market market_sub (SmaCall tf years symbols now) fs =
     snd (load_ticker_set_sma base source market market_sub tf years symbols now fs)"
| "call_step fromiso base source market market_sub (ParquetCall src mk msub dt sy detail years) fs =
     snd (load_parquet fromiso base src mk msub dt sy detail years fs)"
| "call_step fromiso base source market market_sub (SymbolsCall src mk msub) fs =
     snd (load_kline_symbols base src mk msub fs)"

inductive reachable ::
  "(string \<Rightarrow> datetime option) \<Rightarrow> path \<Rightarrow> string \<Rightarrow> string \<Rightarrow> string \<Rightarrow> kfs \<Rightarrow> kfs \<Rightarrow> bool"
  for fromiso base source market market_sub fs0 where
  init: "reachable fromiso base source market market_sub fs0 fs0"
| step: "reachable fromiso base source market market_sub fs0 fs \<Longrightarrow> call_ok c \<Longrightarrow>
         reachable fromiso base source market market_sub fs0 (call_step fromiso base source market market_sub c fs)"

lemma load_parquet_state [simp]:
  "snd (load_parquet fromiso base source market market_sub data_type symb detail years (fs :: 'r fs)) = fs"
  using load_parquet_pure [where 'r = 'r] by (simp add: io_pure_def)

lemma load_kline_symbols_state [simp]: "snd (load_kline_symbols base source market market_sub fs) = fs"
  by (simp add: load_kline_symbols_def Let_def io_bind_def listdir_def split: prod.splits sum.splits)

text \<open>One call keeps the cache invariant and the sources, and changes nothing
  outside the cache directory.\<close>

lemma call_step_keeps:
  assumes inv: "cache_inv (kline_dir base source market market_sub) fs" and ok: "call_ok c"
  shows "cache_inv (kline_dir base source market market_sub) (call_step fromiso base source market market_sub c fs)
       \<and> same_sources (kline_dir base source market market_sub) fs (call_step fromiso base source market market_sub c fs)
       \<and> cache_frame (kline_dir base source market market_sub) fs (call_step fromiso base source market market_sub c fs)"
proof (cases c)
  case (KlineCall tf years symbols now)
  with ok load_kline_state [OF inv, of now symbols years tf] show ?thesis by auto
next
  case (SmaCall tf years symbols now)
  with ok load_kline_state [OF inv, of now symbols years tf] show ?thesis
    by (auto simp: load_ticker_set_sma_state)
next
  case (ParquetCall src mk msub dt sy detail years)
  with inv show ?thesis by (simp add: cache_frame_def)
qed (use inv in \<open>simp add: cache_frame_def\<close>)

lemma cache_frame_trans:
  "cache_frame dir fs0 fs1 \<Longrightarrow> cache_frame dir fs1 fs2 \<Longrightarrow> cache_frame dir fs0 fs2"
  by (simp add: cache_frame_def)

lemma reachable_keeps:
  assumes "reachable fromiso base source market market_sub fs0 fs"
    and "cache_inv (kline_dir base source market market_sub) fs0"
  shows "cache_inv (kline_dir base source market market_sub) fs
       \<and> same_sources (kline_dir base source market market_sub) fs0 fs
       \<and> cache_frame (kline_dir base source market market_sub) fs0 fs"
  using assms
proof (induction rule: reachable.induct)
  case init
  then show ?case by (simp add: cache_frame_def)
next
  case (step fs c)
  then have ih: "cache_inv (kline_dir base source market market_sub) fs"
      "same_sources (kline_dir base source market market_sub) fs0 fs"
      "cache_frame (kline_dir base source market market_sub) fs0 fs" by simp_all
  from call_step_keeps [OF ih(1) step.hyps(2), of fromiso] ih(2,3) show ?case
    by (blast intro: same_sources_trans cache_frame_trans)
qed

text \<open>C7: the cache is invisible along every run.  From a tree whose cache is
  sound, after any sequence of valid calls, a \<open>load_kline\<close> call on the
  dataset returns what the contract gives on the starting tree.\<close>

theorem reachable_load_kline_spec:
  assumes inv: "cache_inv (kline_dir base source market market_sub) fs0"
    and run: "reachable fromiso base source market market_sub fs0 fs"
    and ok: "call_ok (KlineCall tf years symbols now)"
  shows "fst (load_kline base source market market_sub tf years symbols now fs)
           = kline_spec base source market market_sub tf years symbols fs0"
proof -
  from reachable_keeps [OF run inv] have inv': "cache_inv (kline_dir base source market market_sub) fs"
    and same: "same_sources (kline_dir base source market market_sub) fs0 fs" by simp_all
  from ok have clk: "clock_ok now" and sy: "\<forall>sys\<in>set_option symbols. \<forall>s\<in>set sys. symbol_ok s"
    and y: "years_ok years" by simp_all
  from load_kline_state [OF inv' clk sy y, where tf = tf]
  have "fst (load_kline base source market market_sub tf years symbols now fs)
          = kline_spec base source market market_sub tf years symbols fs" by auto
  also have "\<dots> = kline_spec base source market market_sub tf years symbols fs0"
    using kline_spec_same [OF same sy] by simp
  finally show ?thesis .
qed

text \<open>C8: runs write only into the cache.  Along every run from a tree whose
  cache is sound, every path other than the dataset's cache directory and its
  entries keeps its node.\<close>

theorem reachable_frame:
  assumes "cache_inv (kline_dir base source market market_sub) fs0"
    and "reachable fromiso base source market market_sub fs0 fs"
    and "p \<noteq> cache_dir (kline_dir base source market market_sub)"
    and "butlast p \<noteq> cache_dir (kline_dir base source market market_sub)"
  shows "map_of fs p = map_of fs0 p"
  using reachable_keeps [OF assms(2,1)] assms(3,4) by (simp add: cache_frame_def)

end
