(* ===== verification/Spec2Isabelle.thy ===== *)
theory Spec2Isabelle
  imports Kline_Sweep Kline_Reuse Moving_Average Resolver Chart Scripts Kline_Runs
begin

text \<open>
  \<^bold>\<open>Verification development of the market-data loader.\<close>

  \<^bold>\<open>The program.\<close>  src/util.py loads candlestick (kline), aggregated-trade,
  funding-rate and other tables stored as parquet files under a directory tree
  \<open>{BASE_DIR}/{source}/{market}[/{market_sub}]/{data_type}/{symbol}/\<close>.
  \<open>find_latest_file\<close> picks among the files matching a glob pattern the one
  whose name ends in the latest date; \<open>load_parquet\<close> and
  \<open>load_funding_rate\<close> read that file (or, for aggTrades, every matching file
  of the requested years); \<open>load_kline\<close> reads per-symbol kline files through
  a cache directory \<open>aggTrades_kline/_cache\<close> that it sweeps with
  \<open>remove_old_cache\<close>, serves from when every symbol has an entry and
  otherwise rebuilds; \<open>load_kline_symbols\<close> lists the symbol directories.
  src/sma.py (\<open>load_ticker_set_sma\<close>) calls \<open>load_kline\<close> and adds three
  per-symbol rolling means.  src/util_plot.py draws a chart of a loaded table.

  \<^bold>\<open>The model.\<close>  Everything is a shallow embedding in plain HOL.
  \<^item> \<open>Prelude\<close>: paths as lists of components, the exceptions as the datatype
    \<open>py_error\<close> (one constructor per raise site of util.py and per library
    error that escapes), and a statement as a function \<open>('a, 's) io\<close> from the
    state to a result (\<open>Inl\<close> an exception) and the next state, composed
    with \<open>io_bind\<close>; \<open>io_wrap\<close> is \<open>try ... except Exception: raise
    RuntimeError\<close>; \<open>io_pure\<close> marks the statements that only read.
  \<^item> \<open>Py_Strings\<close>: \<open>str.split\<close>, \<open>rsplit\<close>, \<open>replace\<close>, \<open>join\<close>, \<open>in\<close>,
    \<open>endswith\<close>, \<open>str(int)\<close>, \<open>int(str)\<close> (with CPython's whitespace,
    sign, underscore and 4300-digit rules) and \<open>fnmatch\<close> with \<open>*\<close> and
    \<open>?\<close>; \<open>no_wild\<close> excludes \<open>*\<close>, \<open>?\<close> and \<open>[\<close>, so on the
    patterns the theorems cover this matcher agrees with the real one.
  \<^item> \<open>Filesystem\<close>: the state \<open>'r fs\<close>, an association list from paths to
    directories and parquet files holding a \<open>'r table\<close> (column names and
    rows); \<open>os.path.exists\<close>, \<open>isdir\<close>, \<open>listdir\<close>, \<open>glob\<close>, \<open>makedirs\<close>,
    \<open>remove\<close>, \<open>read_parquet\<close>, \<open>to_parquet\<close>, \<open>pd.concat\<close> and the
    well-formedness \<open>fs_wf\<close> every effect keeps.
  \<^item> \<open>Janitor\<close>: \<open>remove_old_cache\<close> (util.py:8-37) as \<open>janitor_loop\<close> over
    the listing, with \<open>datetime.fromtimestamp\<close> (\<open>py_fromtimestamp\<close>) and its
    three outcomes (with CPython's fold probe, the first day of year 1
    already raises \<open>ValueError\<close>), and the closed form \<open>sweep\<close> of what
    it removes.
  \<^item> \<open>Kline_Loader\<close>: \<open>load_kline\<close> (util.py:236-391) split as the code is
    split: the cache key and names, \<open>cache_lookup\<close> (the loop of 297-309 with
    its \<open>break\<close>), \<open>read_symbol_source\<close> and \<open>load_symbol\<close> (one iteration
    of 324-373), \<open>load_symbols\<close>, \<open>kline_reload\<close> (the \<open>try\<close> of 321-391);
    rows are the record \<open>kline_row\<close> and the sort is pandas' stable
    lexicographic \<open>sort_values(['symbol', 'time'])\<close>.
  \<^item> \<open>Kline_Cache\<close>: the contract \<open>kline_spec\<close> (the loader with no cache), the
    cache invariant \<open>cache_inv\<close> (every entry a lookup can find holds what the
    sources give for its key), one lemma per step of \<open>load_kline\<close>, and the
    refinement, invariant, idempotence and frame theorems.
  \<^item> \<open>Kline_Sweep\<close>: what a call leaves in the cache directory, and the
    behaviours the specification does not describe (the janitor's uncaught
    \<open>OverflowError\<close>, the wrapped not-found error).
  \<^item> \<open>Kline_Reuse\<close>: what a reload writes (\<open>load_symbol_written\<close>,
    \<open>load_symbols_writes\<close>) and the progress of the cache: after a
    successful call the lookup of the same key is a full hit.
  \<^item> \<open>Moving_Average\<close>: \<open>load_ticker_set_sma\<close> (sma.py:7-31), pandas'
    \<open>rolling(window, min_periods=1).mean()\<close> and \<open>groupby().transform\<close>.
  \<^item> \<open>Resolver\<close>: \<open>find_latest_file\<close>, \<open>load_parquet\<close>,
    \<open>load_funding_rate\<close>, \<open>load_kline_symbols\<close>, with \<open>datetime.strptime\<close>
    for \<open>'%Y%m%d'\<close> and \<open>'%Y-%m-%d'\<close> following CPython's \<open>_strptime\<close>
    regular expressions; \<open>datetime\<close> values are a datatype with the
    \<open>linorder\<close> instance of their field order.
  \<^item> \<open>Chart\<close>: \<open>plot_ohlcv\<close> (util_plot.py:6-199) on a frame of typed
    columns: the column normalisation \<open>plot_frame\<close>, the centre, the data
    and view windows (\<open>window\<close>, with int64 nanosecond bounds), the row
    selection \<open>frame_select\<close>, and the figure as the data of its traces and
    axis ranges.
  \<^item> \<open>Scripts\<close>: \<open>BASE_DIR\<close>, \<open>load_data_old\<close>, \<open>show_all_rows\<close>, the
    \<open>__main__\<close> blocks of util.py and sma.py and the test script
    src/test/load_test.py as the calls they make.
  \<^item> \<open>Kline_Runs\<close>: a client's sequences of calls, as the datatype \<open>call\<close>, its
    step function \<open>call_step\<close> and the inductive relation \<open>reachable\<close>; the
    invariant of the kline cache is shown for every reachable tree by rule
    induction.
  \<^item> this theory: concrete data trees and frames, the witnesses of the claims,
    and an observation on a concrete frame (the duplicated \<open>MA7\<close> column).

  \<^bold>\<open>What is proved.\<close> For \<open>load_kline\<close>: on a
  tree whose cache is sound (\<open>cache_inv\<close>), it returns the value
  of \<open>kline_spec\<close>, keeps the invariant, changes nothing outside
  the cache directory, gives the same value when called again later and along
  every run of calls from the same tree, returns exactly the source rows
  reordered, never serves a partial cache hit, returns tables sorted by
  \<open>(symbol, time)\<close>, and leaves no entry older than a day; the
  argument errors come before any file access. After a successful call where
  every symbol has source data, the next lookup of the same key is a full
  cache hit. For the annotator: each average is the mean of the trailing
  window of the row's own symbol. The test script writes nothing
  outside the kline cache directory. The janitor alone removes exactly the
  cache files with an expired stamp; at the first overflowing stamp it raises
  \<open>OverflowError\<close>, keeping the removals made before it and leaving every
  later name alone. It reads back the stamp of every name the loader writes,
  whose key only its own lookup matches. For the resolver:
  the file read is the first in listing order with the latest end date, the
  end date of a dated file name reads back, the aggTrades branch reads exactly
  the files whose name contains a requested year, in path order, the symbol
  list is exactly the symbol directories,
  and a funding-rate file that cannot be read is reported wrapped with its
  path. For the chart: every plotted point lies in the data window, every
  trace has one value per x value, the price axis covers the candles of the
  view, the only out-of-bounds failures are those of the window
  arithmetic, and the moving averages the chart adds are rolling means of
  the whole close column, across symbols. The deviations from the specification are theorems too (see the
  findings of the manifest).

  \<^bold>\<open>Bounds.\<close>  Instants are microseconds since the epoch, \<open>int\<close>.  The
  refinement assumes a clock with \<open>0 \<le> now < 2^63\<close> (\<open>clock_ok\<close>): then the
  write stamp \<open>int(now)\<close> in seconds is below \<open>2^63\<close>, inside \<open>time_t\<close>, so
  the janitor reads it back without overflow, and below \<open>10^4300\<close>, so
  \<open>int()\<close> accepts its digits.  Symbols are assumed to be plain names
  (\<open>symbol_ok\<close>: no dot, slash or glob metacharacter \<open>*\<close>, \<open>?\<close>,
  \<open>[\<close>, not \<open>_cache\<close>) and years
  digit strings (\<open>years_ok\<close>); the findings show what goes wrong otherwise.
  No loop needs fuel: every loop of the code runs over a list the code already
  holds (a listing, a glob result, the symbols), so each is a \<open>fun\<close> by
  structural recursion and its termination is the one Isabelle derives; the
  development states no separate termination theorem because none would say
  more than that.

  Chart timestamps are pandas' int64 nanoseconds, \<open>[-(2^63-1), 2^63-1]\<close>, with
  \<open>NaT\<close> as \<open>None\<close>.

  \<^bold>\<open>Not modelled.\<close>  The rendering of the chart by plotly (its styling,
  colours of the candles, layout constants), and what plotly does with a
  two-column frame: \<open>df[c]\<close> on a duplicated name, which pandas answers with
  a frame, is the model's error \<open>DuplicateColumn\<close>.  The \<open>print\<close> output;
  \<open>display\<close> is taken as undefined, as it is outside IPython, so
  \<open>show_all_rows\<close> raises \<open>NameError\<close>.
  \<open>BASE_DIR\<close> (\<open>base_dir\<close>) enters the models as the path parameter \<open>base\<close>.  Local time is UTC.  Characters are 8-bit, so Unicode
  digits do not arise; \<open>str.lower\<close> maps ASCII letters only, which is exact
  wherever the code compares a lowered name with an ASCII name, since no
  other 8-bit character lowers to an ASCII letter.  Glob wildcards are
  interpreted in the last path component only.  \<open>datetime.fromisoformat\<close> is
  a parameter, and its timezone-aware results are not modelled.  The
  parquet format itself is abstracted: a file holds the table written to it.
\<close>

subsection \<open>A concrete data tree\<close>

text \<open>Two yearly source files of \<open>BTC\<close> under \<open>/d/b/spot/aggTrades_kline\<close>,
  no cache directory yet.\<close>

definition r0 :: kline_row where
  "r0 = \<lparr>symbol = ''BTC'', time = 1, Open = 1, High = 2, Low = 1, Close = 1, qty = 1\<rparr>"

definition r1 :: kline_row where
  "r1 = \<lparr>symbol = ''BTC'', time = 2, Open = 1, High = 2, Low = 1, Close = 2, qty = 1\<rparr>"

definition fsx :: kfs where
  "fsx = [([''d''], Dir), ([''d'', ''b''], Dir), ([''d'', ''b'', ''spot''], Dir),
    ([''d'', ''b'', ''spot'', ''aggTrades_kline''], Dir),
    ([''d'', ''b'', ''spot'', ''aggTrades_kline'', ''BTC''], Dir),
    ([''d'', ''b'', ''spot'', ''aggTrades_kline'', ''BTC'', ''BTC_kline_1m_2024.parquet''],
      Parquet \<lparr>columns = [''symbol''], rows = [r0]\<rparr>),
    ([''d'', ''b'', ''spot'', ''aggTrades_kline'', ''BTC'', ''BTC_kline_1m_2025.parquet''],
      Parquet \<lparr>columns = [''symbol''], rows = [r1]\<rparr>)]"

definition fsc :: kfs where
  "fsc = ([''d'', ''b'', ''spot'', ''aggTrades_kline'', ''_cache'', ''BTC_1m-2025.1736900000.parquet''],
           Parquet \<lparr>columns = [''symbol''], rows = [r1]\<rparr>)
         # ([''d'', ''b'', ''spot'', ''aggTrades_kline'', ''_cache''], Dir) # fsx"

definition tx :: ktable where
  "tx = \<lparr>columns = [''symbol'', ''time'', ''Close''], rows = [r0, r1]\<rparr>"

definition fso :: kfs where
  "fso = ([''d'', ''b'', ''spot'', ''aggTrades_kline'', ''_cache'', ''BTC_1m-2025.99999999999999999999.parquet''],
           Parquet \<lparr>columns = [''symbol''], rows = [r1]\<rparr>)
         # ([''d'', ''b'', ''spot'', ''aggTrades_kline'', ''_cache''], Dir) # fsx"

definition fsr :: kfs where
  "fsr = [([''d''], Dir), ([''d'', ''b''], Dir), ([''d'', ''b'', ''spot''], Dir),
    ([''d'', ''b'', ''spot'', ''klines''], Dir), ([''d'', ''b'', ''spot'', ''klines'', ''BTC''], Dir),
    ([''d'', ''b'', ''spot'', ''klines'', ''BTC'', ''BTC_1h_20241201_20250101.parquet''],
      Parquet \<lparr>columns = [''symbol''], rows = [r0]\<rparr>),
    ([''d'', ''b'', ''spot'', ''klines'', ''BTC'', ''BTC_1h_20241201_20250115.parquet''],
      Parquet \<lparr>columns = [''symbol''], rows = [r1]\<rparr>),
    ([''d'', ''b'', ''spot'', ''klines'', ''BTC'', ''BTC_1h_latest.parquet''],
      Parquet \<lparr>columns = [''symbol''], rows = []\<rparr>)]"

definition fsa :: kfs where
  "fsa = [([''d''], Dir), ([''d'', ''b''], Dir), ([''d'', ''b'', ''spot''], Dir),
    ([''d'', ''b'', ''spot'', ''aggTrades''], Dir), ([''d'', ''b'', ''spot'', ''aggTrades'', ''1000PEPE''], Dir),
    ([''d'', ''b'', ''spot'', ''aggTrades'', ''1000PEPE'', ''1000PEPE_aggTrades_2024.parquet''],
      Parquet \<lparr>columns = [''symbol''], rows = [r0]\<rparr>)]"

text \<open>A funding-rate directory whose only file cannot be read.\<close>

definition fsf :: kfs where
  "fsf = [([''d''], Dir), ([''d'', ''b''], Dir), ([''d'', ''b'', ''future''], Dir),
    ([''d'', ''b'', ''future'', ''um''], Dir), ([''d'', ''b'', ''future'', ''um'', ''fundingRate''], Dir),
    ([''d'', ''b'', ''future'', ''um'', ''fundingRate'', ''BTC''], Dir),
    ([''d'', ''b'', ''future'', ''um'', ''fundingRate'', ''BTC'', ''BTC_fundingRate_20240101_20250101.parquet''],
      Unreadable)]"

text \<open>A cache directory listing an expired entry, an entry whose stamp
  overflows, and another expired entry, in that order.\<close>

definition fsj :: kfs where
  "fsj = [([''d''], Dir), ([''d'', ''_cache''], Dir),
    ([''d'', ''_cache'', ''A_1m-all.1.parquet''], Parquet \<lparr>columns = [''symbol''], rows = [r0]\<rparr>),
    ([''d'', ''_cache'', ''B_1m-all.99999999999999999999.parquet''], Parquet \<lparr>columns = [''symbol''], rows = [r0]\<rparr>),
    ([''d'', ''_cache'', ''C_1m-all.2.parquet''], Parquet \<lparr>columns = [''symbol''], rows = [r1]\<rparr>)]"

subsection \<open>Concrete frames for the chart\<close>

text \<open>Three one-minute bars of a frame with capitalised column names, a
  date parser that reads every string as the second bar, and one that reads
  it far away.\<close>

definition to0 :: "string \<Rightarrow> int option" where
  "to0 s = Some 60000000000"

definition to1 :: "string \<Rightarrow> int option" where
  "to1 s = Some (10 ^ 15)"

definition f0 :: frame where
  "f0 = [(''Time'', TimeCol [0, 60000000000, 120000000000] False), (''Open'', NumCol [1, 2, 3]),
         (''High'', NumCol [2, 3, 4]), (''Low'', NumCol [1 / 2, 1, 2]), (''Close'', NumCol [2, 2, 2]),
         (''Volume'', NumCol [10, 20, 30])]"

text \<open>\<open>f0\<close> after the normalisation of util_plot.py:40-82.\<close>

definition dp0 :: frame where
  "dp0 = [(''time'', TimeCol [0, 60000000000, 120000000000] False), (''open'', NumCol [1, 2, 3]),
          (''high'', NumCol [2, 3, 4]), (''low'', NumCol [1 / 2, 1, 2]), (''close'', NumCol [2, 2, 2]),
          (''volume'', NumCol [10, 20, 30]), (''MA7'', NumCol [2, 2, 2]), (''MA25'', NumCol [2, 2, 2]),
          (''MA99'', NumCol [2, 2, 2])]"

text \<open>The figure of \<open>f0\<close> centred on the second bar with one bar each side and
  a view of that bar alone.\<close>

definition fig0 :: figure where
  "fig0 =
     \<lparr>traces =
        [Candlestick [0, 60000000000, 120000000000] [1, 2, 3] [2, 3, 4] [1 / 2, 1, 2] [2, 2, 2],
         Scatter ''MA7'' ''yellow'' [0, 60000000000, 120000000000] [2, 2, 2],
         Scatter ''MA25'' ''purple'' [0, 60000000000, 120000000000] [2, 2, 2],
         Scatter ''MA99'' ''rgb(40, 86, 89)'' [0, 60000000000, 120000000000] [2, 2, 2],
         Bar [0, 60000000000, 120000000000] [10, 20, 30] [''green'', ''green'', ''red'']],
      vline = Some 60000000000, annotation = ''Target: x'', title = ''BTC 1m OHLCV - x'',
      x_range = (Some 60000000000, Some 60000000000),
      y_range = (499 / 500, 1503 / 500), vol_range = (0, 22)\<rparr>"

text \<open>A frame with a mixed-case moving-average column.\<close>

definition fma :: frame where
  "fma = [(''time'', TimeCol [0, 60000000000] False), (''open'', NumCol [1, 2]), (''high'', NumCol [2, 3]),
          (''low'', NumCol [1, 1]), (''close'', NumCol [2, 4]), (''Ma7'', NumCol [2, 3])]"

text \<open>A frame of two symbols, one bar each, with no moving averages.\<close>

definition f2 :: frame where
  "f2 = [(''symbol'', StrCol [''A'', ''B'']), (''time'', TimeCol [0, 60000000000] False),
         (''open'', NumCol [1, 3]), (''high'', NumCol [1, 3]), (''low'', NumCol [1, 3]),
         (''close'', NumCol [1, 3])]"

subsection \<open>Witnesses\<close>

lemma fsx_cache_inv: "cache_inv (kline_dir [''d''] ''b'' ''spot'' ''um'') fsx"
  by (simp add: cache_inv_def fs_wf_def cache_ok_def fsx_def kline_dir_def cache_dir_def path_exists_def is_dir_def)

lemma fsx_args: "clock_ok 1736900000000000 \<and> (\<forall>sys\<in>set_option (Some [''BTC'']). \<forall>s\<in>set sys. symbol_ok s) \<and> years_ok (Some [''2025''])"
  by (simp add: clock_ok_def symbol_ok_def no_wild_def years_ok_def is_digit_def decimal_digits_def)

lemma sma_tx2_rows: "rows (sma_table \<lparr>columns = [''symbol''], rows = [r0, r1]\<rparr>)
   = [kline_row.extend r0 (sma_row.fields 1 1 1), kline_row.extend r1 (sma_row.fields (3/2) (3/2) (3/2))]"
  by (simp add: sma_table_def group_transform_def rolling_mean_def mean_def r0_def r1_def)

lemma fsx_loaded_inv:
  "cache_inv (kline_dir [''d''] ''b'' ''spot'' ''um'')
     (snd (load_kline [''d''] ''b'' ''spot'' ''um'' ''1m'' (Some [''2025'']) (Some [''BTC'']) 1736900000000000 fsx))"
  using load_kline_state [OF fsx_cache_inv, of 1736900000000000 "Some [''BTC'']" "Some [''2025'']" "''1m''"] fsx_args
  by auto

theorem load_kline_refines_spec_witness:
  "fst (load_kline [''d''] ''b'' ''spot'' ''um'' ''1m'' (Some [''2025'']) (Some [''BTC'']) 1736900000000000 fsx)
     = kline_spec [''d''] ''b'' ''spot'' ''um'' ''1m'' (Some [''2025'']) (Some [''BTC'']) fsx"
  using fsx_args by (intro load_kline_refines_spec fsx_cache_inv) simp_all

theorem load_kline_keeps_cache_inv_witness:
  "cache_inv (kline_dir [''d''] ''b'' ''spot'' ''um'')
     (snd (load_kline [''d''] ''b'' ''spot'' ''um'' ''1m'' (Some [''2025'']) (Some [''BTC'']) 1736900000000000 fsx))"
  using fsx_args by (intro load_kline_keeps_cache_inv fsx_cache_inv) simp_all

theorem load_kline_idempotent_witness:
  "fst (load_kline [''d''] ''b'' ''spot'' ''um'' ''1m'' (Some [''2025'']) (Some [''BTC'']) 1737000000000000
         (snd (load_kline [''d''] ''b'' ''spot'' ''um'' ''1m'' (Some [''2025'']) (Some [''BTC'']) 1736900000000000 fsx)))
   = fst (load_kline [''d''] ''b'' ''spot'' ''um'' ''1m'' (Some [''2025'']) (Some [''BTC'']) 1736900000000000 fsx)"
  using fsx_args by (intro load_kline_idempotent [OF fsx_cache_inv _ _ _ _ prod.collapse [symmetric]])
    (simp_all add: clock_ok_def)

theorem load_kline_frame_witness:
  "map_of (snd (load_kline [''d''] ''b'' ''spot'' ''um'' ''1m'' (Some [''2025'']) (Some [''BTC'']) 1736900000000000 fsx))
      [''d'', ''b'', ''spot'', ''aggTrades_kline'', ''BTC'', ''BTC_kline_1m_2024.parquet'']
   = map_of fsx [''d'', ''b'', ''spot'', ''aggTrades_kline'', ''BTC'', ''BTC_kline_1m_2024.parquet'']"
  using fsx_args by (intro load_kline_frame fsx_cache_inv) (simp_all add: kline_dir_def cache_dir_def)

theorem cache_lookup_miss_witness:
  "(\<exists>s\<in>set [''BTC'', ''ETH'']. glob fsc [''d'', ''b'', ''spot'', ''aggTrades_kline'', ''_cache'']
       (cache_pattern s ''1m'' ''2025'') = [])
   \<and> fst (cache_lookup [''d'', ''b'', ''spot'', ''aggTrades_kline'', ''_cache''] ''1m'' ''2025''
         [''BTC'', ''ETH''] fsc) \<noteq> Inr (Some [\<lparr>columns = [''symbol''], rows = [r1]\<rparr>])"
proof -
  have miss: "\<exists>s\<in>set [''BTC'', ''ETH'']. glob fsc [''d'', ''b'', ''spot'', ''aggTrades_kline'', ''_cache'']
       (cache_pattern s ''1m'' ''2025'') = []"
    by (simp add: eval_simps fsc_def fsx_def)
  from miss cache_lookup_miss [OF miss] show ?thesis by blast
qed

theorem load_kline_sorted_witness:
  "fst (load_kline [''d''] ''b'' ''spot'' ''um'' ''1m'' (Some [''2025'']) (Some [''BTC'']) 1736900000000000 fsx)
     = Inr \<lparr>columns = [''symbol''], rows = [r1]\<rparr>
   \<and> sorted (map (\<lambda>r. (symbol r, time r)) [r1])"
proof -
  have run: "fst (load_kline [''d''] ''b'' ''spot'' ''um'' ''1m'' (Some [''2025'']) (Some [''BTC'']) 1736900000000000 fsx)
     = Inr \<lparr>columns = [''symbol''], rows = [r1]\<rparr>"
    by (simp add: eval_simps fsx_def sublist_code)
  from run load_kline_sorted [OF run] show ?thesis by simp
qed

theorem load_kline_invalid_timeframe_witness:
  "load_kline [''d''] ''b'' ''spot'' ''um'' ''2m'' None (Some [''BTC'']) 0 fsx
     = (Inl (ValueError (InvalidTimeframe ''2m'')), fsx)"
  using load_kline_invalid_timeframe [of "''2m''"] by (simp add: valid_timeframes_def)

theorem load_kline_symbols_required_witness:
  "load_kline [''d''] ''b'' ''spot'' ''um'' ''1m'' None None 0 fsx = (Inl (ValueError SymbolsRequired), fsx)"
  using load_kline_symbols_required [of "''1m''" None] by (simp add: valid_timeframes_def)

theorem sma_table_window_witness: "ma7 (rows (sma_table tx) ! 1) = 3 / 2"
proof -
  have "ma7 (rows (sma_table tx) ! 1)
          = mean (trailing 7 (map Close (filter (\<lambda>r. symbol r = symbol (rows tx ! 1)) (take (Suc 1) (rows tx)))))"
    by (rule conjunct1 [OF sma_table_window]) (simp add: tx_def)
  also have "\<dots> = 3 / 2" by (simp add: tx_def r0_def r1_def mean_def trailing_def)
  finally show ?thesis .
qed

theorem load_ticker_set_sma_block_witness:
  "fst (load_ticker_set_sma [''d''] ''b'' ''spot'' ''um'' ''1m'' None (Some [''BTC'']) 1736900000000000 fsx)
     = Inr (sma_table \<lparr>columns = [''symbol''], rows = [r0, r1]\<rparr>)
   \<and> ma7 (rows (sma_table \<lparr>columns = [''symbol''], rows = [r0, r1]\<rparr>) ! 1) = 3 / 2"
proof -
  let ?t = "sma_table \<lparr>columns = [''symbol''], rows = [r0, r1]\<rparr>"
  have run: "fst (load_ticker_set_sma [''d''] ''b'' ''spot'' ''um'' ''1m'' None (Some [''BTC'']) 1736900000000000 fsx)
     = Inr ?t"
    by (simp add: load_ticker_set_sma_def eval_simps fsx_def sublist_code r0_def r1_def)
  have i: "1 < length (rows ?t)" by (simp add: sma_tx2_rows)
  have blk: "\<forall>k. 0 \<le> k \<and> k \<le> 1 \<longrightarrow> symbol (rows ?t ! k) = symbol (rows ?t ! 1)"
    unfolding sma_tx2_rows by (auto simp: r0_def r1_def le_Suc_eq)
  have "ma7 (rows ?t ! 1) = mean (map Close (drop (max 0 (1 - 6)) (take (Suc 1) (rows ?t))))"
    by (rule conjunct1 [OF load_ticker_set_sma_block [OF run i le0 blk disjI1 [OF refl]]])
  also have "\<dots> = 3 / 2" unfolding sma_tx2_rows by (simp add: r0_def r1_def mean_def)
  finally show ?thesis using run by simp
qed

theorem load_ticker_set_sma_no_symbols_witness:
  "load_ticker_set_sma [''d''] ''b'' ''spot'' ''um'' ''1m'' (Some [''2025'']) None 0 fsx
     = (Inl (ValueError SymbolsRequired), fsx)"
  using load_ticker_set_sma_no_symbols [of "''1m''"] by (simp add: valid_timeframes_def)

theorem load_kline_sweeps_stale_witness:
  "map_of (snd (load_kline [''d''] ''b'' ''spot'' ''um'' ''1m'' (Some [''2025'']) (Some [''BTC'']) 1736900000000000 fsx))
      (cache_dir (kline_dir [''d''] ''b'' ''spot'' ''um'') @ [''BTC_1m-2025.1736900000.parquet'']) \<noteq> None
   \<and> map_of (snd (load_kline [''d''] ''b'' ''spot'' ''um'' ''1m'' (Some [''2025'']) (Some [''BTC'']) 1737072800000000
        (snd (load_kline [''d''] ''b'' ''spot'' ''um'' ''1m'' (Some [''2025'']) (Some [''BTC'']) 1736900000000000 fsx))))
      (cache_dir (kline_dir [''d''] ''b'' ''spot'' ''um'') @ [''BTC_1m-2025.1736900000.parquet'']) = None"
proof
  show "map_of (snd (load_kline [''d''] ''b'' ''spot'' ''um'' ''1m'' (Some [''2025'']) (Some [''BTC'']) 1736900000000000 fsx))
      (cache_dir (kline_dir [''d''] ''b'' ''spot'' ''um'') @ [''BTC_1m-2025.1736900000.parquet'']) \<noteq> None"
    by (simp add: eval_simps fsx_def sublist_code)
  have exp: "stamp_expired (janitor_threshold 1 1737072800000000) ''BTC_1m-2025.1736900000.parquet''"
    by (simp add: stamp_expired_def eval_simps py_rsplit_def py_int_def)
  show "map_of (snd (load_kline [''d''] ''b'' ''spot'' ''um'' ''1m'' (Some [''2025'']) (Some [''BTC'']) 1737072800000000
        (snd (load_kline [''d''] ''b'' ''spot'' ''um'' ''1m'' (Some [''2025'']) (Some [''BTC'']) 1736900000000000 fsx))))
      (cache_dir (kline_dir [''d''] ''b'' ''spot'' ''um'') @ [''BTC_1m-2025.1736900000.parquet'']) = None"
  proof (rule load_kline_sweeps_stale [OF fsx_loaded_inv _ _ _ _ refl _ _ exp])
    show "clock_ok 1737072800000000" by (simp add: clock_ok_def)
    show "\<forall>s\<in>set [''BTC'']. symbol_ok s" "years_ok (Some [''2025''])" using fsx_args by simp_all
    show "''1m'' \<in> set valid_timeframes" by (simp add: valid_timeframes_def)
    show "[''BTC''] \<noteq> []" by simp
    show "path_exists (snd (load_kline [''d''] ''b'' ''spot'' ''um'' ''1m'' (Some [''2025'']) (Some [''BTC''])
        1736900000000000 fsx)) (kline_dir [''d''] ''b'' ''spot'' ''um'')"
      by (simp add: eval_simps fsx_def)
  qed
qed

theorem load_kline_overflow_witness:
  "fst (load_kline [''d''] ''b'' ''spot'' ''um'' ''1m'' (Some [''2025'']) (Some [''BTC'']) 1736900000000000 fso)
     = Inl OverflowError"
proof (rule load_kline_overflow [where n = "''BTC_1m-2025.99999999999999999999.parquet''" and sys = "[''BTC'']"])
  show "fs_wf fso" by (simp add: fs_wf_def fso_def fsx_def is_dir_def)
  show "''1m'' \<in> set valid_timeframes" by (simp add: valid_timeframes_def)
  show "Some [''BTC''] = Some [''BTC'']" "[''BTC''] \<noteq> []" by simp_all
  show "path_exists fso (kline_dir [''d''] ''b'' ''spot'' ''um'')"
    "is_dir fso (cache_dir (kline_dir [''d''] ''b'' ''spot'' ''um''))"
    "''BTC_1m-2025.99999999999999999999.parquet'' \<in> set (children fso (cache_dir (kline_dir [''d''] ''b'' ''spot'' ''um'')))"
    by (simp_all add: eval_simps fso_def fsx_def)
  show "stamp_overflows ''BTC_1m-2025.99999999999999999999.parquet''"
    by (simp add: stamp_overflows_def eval_simps)
qed

theorem load_kline_no_data_witness:
  "fst (load_kline [''d''] ''b'' ''spot'' ''um'' ''1m'' None (Some [''ETH'']) 1736900000000000 fsx)
     = Inl (RuntimeError ''Error loading kline files'' (FileNotFoundError NoDataForSymbols))"
  by (rule load_kline_no_data [OF fsx_cache_inv])
    (simp_all add: clock_ok_def symbol_ok_def no_wild_def years_ok_def valid_timeframes_def eval_simps fsx_def)

theorem load_parquet_reads_latest_witness:
  "fst (load_parquet (\<lambda>_. None) [''d''] ''b'' ''spot'' ''um'' ''klines'' (Some ''BTC'') (Some ''1h'') None fsr)
     = Inr \<lparr>columns = [''symbol''], rows = [r1]\<rparr>
   \<and> file_date (\<lambda>_. None) ''BTC_1h_20241201_20250115.parquet'' = Some (DateTime 2025 1 15 0 0 0 0)"
proof -
  have run: "fst (load_parquet (\<lambda>_. None) [''d''] ''b'' ''spot'' ''um'' ''klines'' (Some ''BTC'') (Some ''1h'') None fsr)
     = Inr \<lparr>columns = [''symbol''], rows = [r1]\<rparr>"
    by (simp add: load_parquet_def eval_simps fsr_def dataset_dir_def latest_pattern_def find_latest_file_def
        file_date_def end_date_def strptime_ymd_def month_alts_def day_alts_def digit_int_def
        days_in_month_def is_leap_def less_datetime_def rename_ohlcv_def ascii_lower_def)
  from load_parquet_reads_latest [OF run] obtain p t0 e where
    "p \<in> set (glob fsr (dataset_dir [''d''] ''b'' ''spot'' ''um'' ''klines'' ''BTC'')
                  (latest_pattern ''b'' ''spot'' ''klines'' ''BTC'' (Some ''1h'')))"
    and "map_of fsr p = Some (Parquet t0)" and "\<lparr>columns = [''symbol''], rows = [r1]\<rparr> = t0\<lparr>columns := rename_ohlcv (columns t0)\<rparr>"
    and "file_date (\<lambda>_. None) (last p) = Some e"
    by blast
  then have "p = [''d'', ''b'', ''spot'', ''klines'', ''BTC'', ''BTC_1h_20241201_20250115.parquet'']"
    and "e = DateTime 2025 1 15 0 0 0 0"
    by (auto simp: eval_simps fsr_def dataset_dir_def latest_pattern_def r0_def r1_def file_date_def
        end_date_def strptime_ymd_def month_alts_def day_alts_def digit_int_def days_in_month_def is_leap_def)
  with run \<open>file_date (\<lambda>_. None) (last p) = Some e\<close> show ?thesis by simp
qed

theorem find_latest_file_no_valid_witness:
  "find_latest_file (\<lambda>_. None) [''d'', ''b'', ''spot'', ''klines'', ''BTC''] ''*latest*'' fsr
     = (Inl (FileNotFoundError (NoValidFiles [''d'', ''b'', ''spot'', ''klines'', ''BTC'', ''*latest*''])), fsr)"
  using find_latest_file_no_valid [where fromiso = "\<lambda>_. None" and d = "[''d'', ''b'', ''spot'', ''klines'', ''BTC'']"
      and pat = "''*latest*''" and fs = fsr]
  by (simp add: eval_simps fsr_def file_date_def)

theorem load_kline_symbols_dirs_witness:
  "load_kline_symbols [''d''] ''b'' ''spot'' ''um'' fsc = (Inr [''BTC''], fsc)
   \<and> set [''BTC''] = {n. is_dir fsc (kline_dir [''d''] ''b'' ''spot'' ''um'' @ [n]) \<and> n \<noteq> ''_cache''}"
proof -
  have run: "load_kline_symbols [''d''] ''b'' ''spot'' ''um'' fsc = (Inr [''BTC''], fsc)"
    by (simp add: load_kline_symbols_def eval_simps fsc_def fsx_def)
  have wf: "fs_wf fsc" by (simp add: fs_wf_def fsc_def fsx_def is_dir_def)
  from run load_kline_symbols_dirs [OF wf run] show ?thesis by simp
qed

lemma chart_run0: "plot_ohlcv to0 f0 ''Time'' (Some ''x'') ''1m'' (Some ''BTC'') 1 0 = Inr (Some fig0)"
  by (simp add: eval_simps f0_def to0_def fig0_def)

lemma chart_frame0: "plot_frame ''Time'' f0 = Inr dp0 \<and> time_get dp0 = Inr ([0, 60000000000, 120000000000], False)"
  by (simp add: eval_simps f0_def dp0_def)

lemma chart_wf0: "frame_wf 3 f0"
  by (simp add: frame_wf_def f0_def)

theorem plot_ohlcv_in_window_witness:
  "plot_ohlcv to0 f0 ''Time'' (Some ''x'') ''1m'' (Some ''BTC'') 1 0 = Inr (Some fig0)
   \<and> (\<exists>c. vline fig0 = Some c \<and> (\<forall>tr\<in>set (traces fig0). \<forall>t\<in>set (trace_x tr).
          c - ticker_delta ''1m'' * 1 \<le> t \<and> t \<le> c + ticker_delta ''1m'' * 1))"
  by (rule conjI [OF chart_run0 plot_ohlcv_in_window [OF chart_run0]])

theorem plot_ohlcv_traces_wf_witness:
  "frame_wf 3 f0 \<and> plot_ohlcv to0 f0 ''Time'' (Some ''x'') ''1m'' (Some ''BTC'') 1 0 = Inr (Some fig0)
   \<and> list_all trace_wf (traces fig0)"
  using chart_wf0 chart_run0 plot_ohlcv_traces_wf [OF chart_wf0 chart_run0] by (simp add: list_all_iff)

theorem plot_ohlcv_y_range_witness:
  "hd (traces fig0) = Candlestick [0, 60000000000, 120000000000] [1, 2, 3] [2, 3, 4] [1 / 2, 1, 2] [2, 2, 2]
   \<and> list_all (\<lambda>v. (0::real) \<le> v) [1 / 2, 1, 2] \<and> list_all (\<lambda>v. (0::real) \<le> v) [2, 3, 4]
   \<and> in_range (fst (x_range fig0)) (snd (x_range fig0)) ([0, 60000000000, 120000000000] ! 1)
   \<and> fst (y_range fig0) \<le> [1 / 2, 1, 2] ! 1 \<and> [2, 3, 4] ! 1 \<le> snd (y_range fig0)"
proof -
  have hd0: "hd (traces fig0) = Candlestick [0, 60000000000, 120000000000] [1, 2, 3] [2, 3, 4] [1 / 2, 1, 2] [2, 2, 2]"
    and lo: "\<forall>v\<in>set [1 / 2, 1, 2]. (0::real) \<le> v" and hi: "\<forall>v\<in>set [2, 3, 4]. (0::real) \<le> v"
    and vis: "in_range (fst (x_range fig0)) (snd (x_range fig0)) ([0, 60000000000, 120000000000] ! 1)"
    by (simp_all add: fig0_def in_range_def)
  have "(1::nat) < length [0::int, 60000000000, 120000000000]" by simp
  from plot_ohlcv_y_range [OF chart_wf0 chart_run0 hd0 lo hi this vis] hd0 vis show ?thesis by simp
qed

theorem plot_ohlcv_out_of_bounds_witness:
  "plot_frame ''Time'' f0 = Inr dp0 \<and> time_get dp0 = Inr ([0, 60000000000, 120000000000], False)
   \<and> to0 ''x'' = Some 60000000000
   \<and> plot_ohlcv to0 f0 ''Time'' (Some ''x'') ''1m'' None (10 ^ 12) 0 = Inl OutOfBounds"
proof -
  have to: "to0 ''x'' = Some 60000000000" by (simp add: to0_def)
  have "\<not> (window_ok 60000000000 (ticker_delta ''1m'') (10 ^ 12) \<and> window_ok 60000000000 (ticker_delta ''1m'') 0)"
    by (simp add: eval_simps)
  with plot_ohlcv_out_of_bounds [where to_dt = to0 and s = "''x''", OF conjunct1 [OF chart_frame0] conjunct2 [OF chart_frame0] to]
  have "plot_ohlcv to0 f0 ''Time'' (Some ''x'') ''1m'' None (10 ^ 12) 0 = Inl OutOfBounds" by blast
  with chart_frame0 to show ?thesis by blast
qed

theorem plot_ohlcv_no_data_witness:
  "plot_frame ''Time'' f0 = Inr dp0 \<and> time_get dp0 = Inr ([0, 60000000000, 120000000000], False)
   \<and> to1 ''x'' = Some (10 ^ 15)
   \<and> window_ok (10 ^ 15) (ticker_delta ''1m'') 1 \<and> window_ok (10 ^ 15) (ticker_delta ''1m'') 0
   \<and> list_all (\<lambda>t. t < 10 ^ 15 - ticker_delta ''1m'' * 1 \<or> 10 ^ 15 + ticker_delta ''1m'' * 1 < t)
        [0, 60000000000, 120000000000]
   \<and> plot_ohlcv to1 f0 ''Time'' (Some ''x'') ''1m'' None 1 0 = Inr None"
proof -
  have to: "to1 ''x'' = Some (10 ^ 15)" by (simp add: to1_def)
  have w1: "window_ok (10 ^ 15) (ticker_delta ''1m'') 1" and w0: "window_ok (10 ^ 15) (ticker_delta ''1m'') 0"
    and far: "\<forall>t\<in>set [0, 60000000000, 120000000000].
        t < 10 ^ 15 - ticker_delta ''1m'' * 1 \<or> 10 ^ 15 + ticker_delta ''1m'' * 1 < (t::int)"
    by (simp_all add: eval_simps)
  from plot_ohlcv_no_data [where to_dt = to1 and s = "''x''", OF conjunct1 [OF chart_frame0] conjunct2 [OF chart_frame0] to w1 w0 far]
    chart_frame0 to w1 w0 far show ?thesis by (simp only: list_all_iff)
qed

theorem load_kline_populates_cache_witness:
  "\<exists>dfs. cache_lookup (cache_dir (kline_dir [''d''] ''b'' ''spot'' ''um'')) ''1m'' (cache_key_years (Some [''2025''])) [''BTC'']
           (snd (load_kline [''d''] ''b'' ''spot'' ''um'' ''1m'' (Some [''2025'']) (Some [''BTC'']) 1736900000000000 fsx))
         = (Inr (Some dfs),
            snd (load_kline [''d''] ''b'' ''spot'' ''um'' ''1m'' (Some [''2025'']) (Some [''BTC'']) 1736900000000000 fsx))"
proof -
  have val: "fst (load_kline [''d''] ''b'' ''spot'' ''um'' ''1m'' (Some [''2025'']) (Some [''BTC'']) 1736900000000000 fsx)
     = Inr \<lparr>columns = [''symbol''], rows = [r1]\<rparr>"
    by (simp add: eval_simps fsx_def sublist_code)
  then have run: "load_kline [''d''] ''b'' ''spot'' ''um'' ''1m'' (Some [''2025'']) (Some [''BTC'']) 1736900000000000 fsx
     = (Inr \<lparr>columns = [''symbol''], rows = [r1]\<rparr>,
        snd (load_kline [''d''] ''b'' ''spot'' ''um'' ''1m'' (Some [''2025'']) (Some [''BTC'']) 1736900000000000 fsx))"
    by (metis prod.collapse)
  have data: "\<forall>s\<in>set [''BTC'']. \<exists>t. fst (read_symbol_source (kline_dir [''d''] ''b'' ''spot'' ''um'') ''1m''
                  (Some [''2025'']) s fsx) = Inr (Some t)"
    by (simp add: eval_simps fsx_def sublist_code)
  have args: "clock_ok 1736900000000000" "\<forall>s\<in>set [''BTC'']. symbol_ok s" "years_ok (Some [''2025''])"
    using fsx_args by simp_all
  show ?thesis by (rule load_kline_populates_cache [OF fsx_cache_inv args refl data run])
qed

theorem load_test_frame_witness:
  "map_of (snd (load_test_main (\<lambda>_. None) [''d''] 1736900000000000 1737000000000000 fsx)) [''d'', ''b'']
     = map_of fsx [''d'', ''b'']"
proof -
  have inv: "cache_inv (kline_dir [''d''] ''binance'' ''spot'' ''um'') fsx"
    by (simp add: cache_inv_def fs_wf_def cache_ok_def fsx_def kline_dir_def cache_dir_def path_exists_def is_dir_def)
  have clk: "clock_ok 1736900000000000" "clock_ok 1737000000000000" by (simp_all add: clock_ok_def)
  show ?thesis by (rule load_test_frame [OF inv clk]) (simp_all add: kline_dir_def cache_dir_def)
qed

theorem remove_old_cache_exact_witness:
  "fst (remove_old_cache [''d'', ''b'', ''spot'', ''aggTrades_kline'', ''_cache''] 1 1740000000000000 fsc) = Inr ()
   \<and> map_of (snd (remove_old_cache [''d'', ''b'', ''spot'', ''aggTrades_kline'', ''_cache''] 1 1740000000000000 fsc))
       [''d'', ''b'', ''spot'', ''aggTrades_kline'', ''_cache'', ''BTC_1m-2025.1736900000.parquet''] = None"
proof -
  let ?c = "[''d'', ''b'', ''spot'', ''aggTrades_kline'', ''_cache'']"
  have wf: "fs_wf fsc" by (simp add: fs_wf_def fsc_def fsx_def is_dir_def)
  have d: "is_dir fsc ?c" by (simp add: is_dir_def fsc_def)
  have nov: "\<not> list_ex stamp_overflows (children fsc ?c)"
    by (simp add: stamp_overflows_def eval_simps fsc_def fsx_def children_def)
  have "stamp_expired (janitor_threshold 1 1740000000000000) ''BTC_1m-2025.1736900000.parquet''"
    by (simp add: stamp_expired_def eval_simps)
  with remove_old_cache_exact [OF wf d nov, of 1 1740000000000000 "?c @ [''BTC_1m-2025.1736900000.parquet'']"]
  show ?thesis by (simp add: fsc_def)
qed

theorem load_funding_rate_wraps_read_error_witness:
  "load_funding_rate (\<lambda>_. None) [''d''] ''b'' (Some ''BTC'') fsf
     = (Inl (RuntimeError (''Error loading funding rate parquet file ''
              @ path_str [''d'', ''b'', ''future'', ''um'', ''fundingRate'', ''BTC'', ''BTC_fundingRate_20240101_20250101.parquet''])
            (ReadError [''d'', ''b'', ''future'', ''um'', ''fundingRate'', ''BTC'', ''BTC_fundingRate_20240101_20250101.parquet''])),
        fsf)"
proof -
  have ex: "path_exists fsf ([''d''] @ [''b'', ''future'', ''um'', ''fundingRate'', ''BTC''])"
    by (simp add: path_exists_def fsf_def)
  have latest: "fst (find_latest_file (\<lambda>_. None) ([''d''] @ [''b'', ''future'', ''um'', ''fundingRate'', ''BTC''])
      (''BTC'' @ ''_fundingRate_*_*.parquet'') fsf)
      = Inr [''d'', ''b'', ''future'', ''um'', ''fundingRate'', ''BTC'', ''BTC_fundingRate_20240101_20250101.parquet'']"
    by (simp add: eval_simps fsf_def find_latest_file_def file_date_def end_date_def strptime_ymd_def
        month_alts_def day_alts_def digit_int_def days_in_month_def is_leap_def)
  have bad: "\<forall>t. map_of fsf [''d'', ''b'', ''future'', ''um'', ''fundingRate'', ''BTC'', ''BTC_fundingRate_20240101_20250101.parquet'']
                \<noteq> Some (Parquet t)"
    by (simp add: fsf_def)
  show ?thesis using load_funding_rate_wraps_read_error [OF ex latest bad] by simp
qed

theorem cache_file_name_roundtrip_witness:
  "cache_stamp (cache_file_name ''BTC'' ''1m'' (cache_key_years (Some [''2025''])) 1736900000) = Some 1736900000
   \<and> (fnmatch (cache_pattern ''BTC'' ''1m'' (cache_key_years (Some [''2024''])))
         (cache_file_name ''BTC'' ''1m'' (cache_key_years (Some [''2025''])) 1736900000)
       \<longleftrightarrow> ''BTC'' = ''BTC'' \<and> ''1m'' = ''1m'' \<and> Some [''2024''] = Some [''2025''])"
proof -
  have "(10::int) ^ 10 \<le> 10 ^ int_max_str_digits"
    by (rule power_increasing) (simp_all add: int_max_str_digits_def)
  then have ts: "\<bar>1736900000::int\<bar> < 10 ^ int_max_str_digits" by simp
  have s: "symbol_ok ''BTC''" and y: "years_ok (Some [''2025''])" and y': "years_ok (Some [''2024''])"
    using fsx_args by (simp_all add: years_ok_def is_digit_def decimal_digits_def)
  have tf: "''1m'' \<in> set valid_timeframes" by (simp add: valid_timeframes_def)
  show ?thesis by (rule cache_file_name_roundtrip [OF s tf y ts s tf y'])
qed

theorem load_kline_rows_perm_witness:
  "\<exists>dfs. source_tables (kline_dir [''d''] ''b'' ''spot'' ''um'') ''1m'' (Some [''2025'']) [''BTC''] fsx = Inr dfs
     \<and> mset (rows \<lparr>columns = [''symbol''], rows = [r1]\<rparr>) = mset (concat (map rows dfs))"
proof -
  have run: "fst (load_kline [''d''] ''b'' ''spot'' ''um'' ''1m'' (Some [''2025'']) (Some [''BTC'']) 1736900000000000 fsx)
     = Inr \<lparr>columns = [''symbol''], rows = [r1]\<rparr>"
    by (simp add: eval_simps fsx_def sublist_code)
  have args: "clock_ok 1736900000000000" "\<forall>s\<in>set [''BTC'']. symbol_ok s" "years_ok (Some [''2025''])"
    using fsx_args by simp_all
  show ?thesis by (rule load_kline_rows_perm [OF fsx_cache_inv args run])
qed

theorem find_latest_file_first_latest_witness:
  "fst (find_latest_file (\<lambda>_. None) [''d'', ''b'', ''spot'', ''klines'', ''BTC''] ''BTC_1h_*_*.parquet'' fsr)
     = Inr [''d'', ''b'', ''spot'', ''klines'', ''BTC'', ''BTC_1h_20241201_20250115.parquet'']
   \<and> (\<exists>i e. i < length (glob fsr [''d'', ''b'', ''spot'', ''klines'', ''BTC''] ''BTC_1h_*_*.parquet'')
        \<and> glob fsr [''d'', ''b'', ''spot'', ''klines'', ''BTC''] ''BTC_1h_*_*.parquet'' ! i
            = [''d'', ''b'', ''spot'', ''klines'', ''BTC'', ''BTC_1h_20241201_20250115.parquet'']
        \<and> file_date (\<lambda>_. None) ''BTC_1h_20241201_20250115.parquet'' = Some e
        \<and> (\<forall>q\<in>set (glob fsr [''d'', ''b'', ''spot'', ''klines'', ''BTC''] ''BTC_1h_*_*.parquet'').
             \<forall>e'. file_date (\<lambda>_. None) (last q) = Some e' \<longrightarrow> e' \<le> e)
        \<and> (\<forall>j<i. \<forall>e'. file_date (\<lambda>_. None)
               (last (glob fsr [''d'', ''b'', ''spot'', ''klines'', ''BTC''] ''BTC_1h_*_*.parquet'' ! j)) = Some e'
             \<longrightarrow> e' < e))"
proof -
  have run: "fst (find_latest_file (\<lambda>_. None) [''d'', ''b'', ''spot'', ''klines'', ''BTC''] ''BTC_1h_*_*.parquet'' fsr)
     = Inr [''d'', ''b'', ''spot'', ''klines'', ''BTC'', ''BTC_1h_20241201_20250115.parquet'']"
    by (simp add: eval_simps fsr_def find_latest_file_def file_date_def end_date_def strptime_ymd_def
        month_alts_def day_alts_def digit_int_def days_in_month_def is_leap_def less_datetime_def)
  from run find_latest_file_first_latest [OF run] show ?thesis by simp
qed

lemma fsx_run1:
  "reachable (\<lambda>_. None) [''d''] ''b'' ''spot'' ''um'' fsx
     (call_step (\<lambda>_. None) [''d''] ''b'' ''spot'' ''um'' (KlineCall ''1m'' (Some [''2025'']) (Some [''BTC'']) 1736900000000000) fsx)"
  using fsx_args by (intro reachable.step reachable.init) simp

theorem reachable_load_kline_spec_witness:
  "fst (load_kline [''d''] ''b'' ''spot'' ''um'' ''1m'' None (Some [''BTC'']) 1737000000000000
         (call_step (\<lambda>_. None) [''d''] ''b'' ''spot'' ''um''
            (KlineCall ''1m'' (Some [''2025'']) (Some [''BTC'']) 1736900000000000) fsx))
   = kline_spec [''d''] ''b'' ''spot'' ''um'' ''1m'' None (Some [''BTC'']) fsx"
proof -
  have "call_ok (KlineCall ''1m'' None (Some [''BTC'']) 1737000000000000)"
    using fsx_args by (simp add: clock_ok_def years_ok_def)
  then show ?thesis by (rule reachable_load_kline_spec [OF fsx_cache_inv fsx_run1])
qed

theorem reachable_frame_witness:
  "map_of (call_step (\<lambda>_. None) [''d''] ''b'' ''spot'' ''um''
             (KlineCall ''1m'' (Some [''2025'']) (Some [''BTC'']) 1736900000000000) fsx)
      [''d'', ''b'', ''spot'', ''aggTrades_kline'', ''BTC'', ''BTC_kline_1m_2025.parquet'']
   = map_of fsx [''d'', ''b'', ''spot'', ''aggTrades_kline'', ''BTC'', ''BTC_kline_1m_2025.parquet'']"
  by (rule reachable_frame [OF fsx_cache_inv fsx_run1]) (simp_all add: kline_dir_def cache_dir_def)

theorem remove_old_cache_stops_at_overflow_witness:
  "fst (remove_old_cache [''d'', ''_cache''] 1 1740000000000000 fsj) = Inl OverflowError
   \<and> map_of (snd (remove_old_cache [''d'', ''_cache''] 1 1740000000000000 fsj)) [''d'', ''_cache'', ''A_1m-all.1.parquet''] = None
   \<and> map_of (snd (remove_old_cache [''d'', ''_cache''] 1 1740000000000000 fsj)) [''d'', ''_cache'', ''C_1m-all.2.parquet'']
       = Some (Parquet \<lparr>columns = [''symbol''], rows = [r1]\<rparr>)"
proof -
  have wf: "fs_wf fsj" by (simp add: fs_wf_def fsj_def is_dir_def)
  have d: "is_dir fsj [''d'', ''_cache'']" by (simp add: is_dir_def fsj_def)
  have ch: "children fsj [''d'', ''_cache''] = [''A_1m-all.1.parquet'', ''B_1m-all.99999999999999999999.parquet'', ''C_1m-all.2.parquet'']"
    by (simp add: children_def fsj_def)
  have k: "1 < length (children fsj [''d'', ''_cache''])" by (simp add: ch)
  have ov0: "stamp_overflows ''B_1m-all.99999999999999999999.parquet''"
    by (simp add: stamp_overflows_def eval_simps)
  have ov: "stamp_overflows (children fsj [''d'', ''_cache''] ! 1)"
    unfolding ch using ov0 by simp
  have a0: "\<not> stamp_overflows ''A_1m-all.1.parquet''"
    by (simp add: stamp_overflows_def eval_simps)
  have before: "\<forall>j<1. \<not> stamp_overflows (children fsj [''d'', ''_cache''] ! j)"
    unfolding ch using a0 by simp
  have "remove_old_cache [''d'', ''_cache''] 1 1740000000000000 fsj
     = (Inl OverflowError, sweep [''d'', ''_cache''] (janitor_threshold 1 1740000000000000) (take 1 (children fsj [''d'', ''_cache''])) fsj)"
    by (rule remove_old_cache_stops_at_overflow [OF wf d k ov before])
  then show ?thesis
    by (simp add: ch sweep_def swept_def stamp_expired_def eval_simps fsj_def)
qed

theorem load_parquet_agg_combines_witness:
  "load_parquet (\<lambda>_. None) [''d''] ''b'' ''spot'' ''um'' ''aggTrades'' (Some ''1000PEPE'') None (Some [''1000'']) fsa
     = (Inr \<lparr>columns = [''symbol''], rows = [r0]\<rparr>, fsa)
   \<and> (\<exists>ps dfs. ps \<noteq> [] \<and> sorted (map path_str ps)
        \<and> mset ps = mset [p \<leftarrow> glob fsa (dataset_dir [''d''] ''b'' ''spot'' ''um'' ''aggTrades'' ''1000PEPE'')
                              (''1000PEPE'' @ ''_aggTrades_*.parquet'').
                         case Some [''1000''] of None \<Rightarrow> True | Some ys \<Rightarrow> \<exists>y\<in>set ys. py_in y (last p)]
        \<and> list_all2 (\<lambda>p df. map_of fsa p = Some (Parquet df)) ps dfs
        \<and> \<lparr>columns = [''symbol''], rows = [r0]\<rparr> = combine dfs)"
proof -
  have run: "load_parquet (\<lambda>_. None) [''d''] ''b'' ''spot'' ''um'' ''aggTrades'' (Some ''1000PEPE'') None (Some [''1000'']) fsa
     = (Inr \<lparr>columns = [''symbol''], rows = [r0]\<rparr>, fsa)"
    by (simp add: load_parquet_def eval_simps fsa_def dataset_dir_def agg_year_filter_def)
  from run conjunct2 [OF load_parquet_agg_combines [OF run]] show ?thesis by (rule conjI)
qed

theorem file_date_dated_name_witness:
  "py_join ''_'' ([''BTCUSDT'', ''metrics'', ''20250101''] @ [ymd_token [] 2025 1 15]) @ ''.parquet''
     = ''BTCUSDT_metrics_20250101_20250115.parquet''
   \<and> file_date (\<lambda>_. None) (py_join ''_'' ([''BTCUSDT'', ''metrics'', ''20250101''] @ [ymd_token [] 2025 1 15]) @ ''.parquet'')
     = Some (DateTime 2025 1 15 0 0 0 0)"
proof
  show "py_join ''_'' ([''BTCUSDT'', ''metrics'', ''20250101''] @ [ymd_token [] 2025 1 15]) @ ''.parquet''
     = ''BTCUSDT_metrics_20250101_20250115.parquet''"
    by (simp add: ymd_token_def zpad_def eval_simps)
  show "file_date (\<lambda>_. None) (py_join ''_'' ([''BTCUSDT'', ''metrics'', ''20250101''] @ [ymd_token [] 2025 1 15]) @ ''.parquet'')
     = Some (DateTime 2025 1 15 0 0 0 0)"
    by (rule file_date_dated_name) (simp_all add: days_in_month_def)
qed

theorem plot_frame_ma_whole_frame_witness:
  "list_all ma_free (map fst f2)
   \<and> (\<exists>d. plot_frame ''time'' f2 = Inr d
        \<and> (\<exists>xs. [v. (n, v) \<leftarrow> f2, map ascii_lower n = ''close''] = [NumCol xs]
              \<and> num_get d ''MA7'' = Inr (rolling_mean 7 xs)
              \<and> num_get d ''MA25'' = Inr (rolling_mean 25 xs)
              \<and> num_get d ''MA99'' = Inr (rolling_mean 99 xs))
        \<and> num_get d ''MA7'' = Inr [1, 2])"
proof -
  have nm: "list_all ma_free (map fst f2)" by (simp add: f2_def ma_free_def ascii_lower_def)
  obtain d where r: "plot_frame ''time'' f2 = Inr d" by (simp add: eval_simps f2_def)
  note ma = plot_frame_ma_whole_frame [OF r nm]
  then obtain xs where c: "[v. (n, v) \<leftarrow> f2, map ascii_lower n = ''close''] = [NumCol xs]"
    and m7: "num_get d ''MA7'' = Inr (rolling_mean 7 xs)" by blast
  from c have "xs = [1, 3]" by (simp add: f2_def ascii_lower_def)
  with m7 have "num_get d ''MA7'' = Inr [1, 2]" by (simp add: rolling_mean_def mean_def)
  with nm r ma show ?thesis by blast
qed

subsection \<open>Observations on concrete frames\<close>

text \<open>The guard of util_plot.py:62 tests the names \<open>ma7\<close> and \<open>MA7\<close> only,
  but the renaming of util_plot.py:70-78 is case-insensitive: a frame with a
  column \<open>Ma7\<close> gets a new \<open>ma7\<close> column and both are renamed \<open>MA7\<close>.\<close>

lemma plot_frame_duplicate_ma:
  "map_sum id (map fst) (plot_frame ''time'' fma)
     = Inr [''time'', ''open'', ''high'', ''low'', ''close'', ''MA7'', ''MA7'', ''MA25'', ''MA99'']"
  by (simp add: eval_simps fma_def)

end
